theory Spec2Isabelle
  imports Complex_Main "HOL-Library.Multiset"
begin

section \<open>Numbers of the program\<close>

text \<open>
  The program computes with JavaScript numbers. A finite number is modelled by the real
  it denotes; the three special values are kept, since the program divides without
  guarding the divisor and tests \<^verbatim>\<open>Number.isFinite\<close>. Zero carries no sign: a nonzero
  number divided by zero gives the infinity of the dividend's sign. The operations of
  this section are exact; the operations that round to a double follow in the section
  on binary64 arithmetic, and the solver is modelled with both.
\<close>

datatype jsnum = Fin real | PInf | NInf | NaN

fun isFinite :: "jsnum \<Rightarrow> bool" where
  "isFinite (Fin a) = True"
| "isFinite _ = False"

fun jneg :: "jsnum \<Rightarrow> jsnum" where
  "jneg (Fin a) = Fin (- a)"
| "jneg PInf = NInf"
| "jneg NInf = PInf"
| "jneg NaN = NaN"

fun jadd :: "jsnum \<Rightarrow> jsnum \<Rightarrow> jsnum" where
  "jadd (Fin a) (Fin b) = Fin (a + b)"
| "jadd NaN _ = NaN"
| "jadd _ NaN = NaN"
| "jadd PInf NInf = NaN"
| "jadd NInf PInf = NaN"
| "jadd PInf _ = PInf"
| "jadd _ PInf = PInf"
| "jadd NInf _ = NInf"
| "jadd _ NInf = NInf"

definition jsub :: "jsnum \<Rightarrow> jsnum \<Rightarrow> jsnum" where
  "jsub x y = jadd x (jneg y)"

text \<open>The infinity with the sign of a real; used only at nonzero reals.\<close>

definition signed_inf :: "real \<Rightarrow> jsnum" where
  "signed_inf a = (if 0 < a then PInf else NInf)"

fun jmul :: "jsnum \<Rightarrow> jsnum \<Rightarrow> jsnum" where
  "jmul (Fin a) (Fin b) = Fin (a * b)"
| "jmul NaN _ = NaN"
| "jmul _ NaN = NaN"
| "jmul (Fin a) PInf = (if a = 0 then NaN else signed_inf a)"
| "jmul (Fin a) NInf = (if a = 0 then NaN else signed_inf (- a))"
| "jmul PInf (Fin b) = (if b = 0 then NaN else signed_inf b)"
| "jmul NInf (Fin b) = (if b = 0 then NaN else signed_inf (- b))"
| "jmul PInf PInf = PInf"
| "jmul NInf NInf = PInf"
| "jmul PInf NInf = NInf"
| "jmul NInf PInf = NInf"

fun jdiv :: "jsnum \<Rightarrow> jsnum \<Rightarrow> jsnum" where
  "jdiv (Fin a) (Fin b) =
     (if b \<noteq> 0 then Fin (a / b) else if a = 0 then NaN else signed_inf a)"
| "jdiv NaN _ = NaN"
| "jdiv _ NaN = NaN"
| "jdiv (Fin a) _ = Fin 0"
| "jdiv PInf (Fin b) = (if 0 \<le> b then PInf else NInf)"
| "jdiv NInf (Fin b) = (if 0 \<le> b then NInf else PInf)"
| "jdiv _ _ = NaN"

fun jabs :: "jsnum \<Rightarrow> jsnum" where
  "jabs (Fin a) = Fin \<bar>a\<bar>"
| "jabs NaN = NaN"
| "jabs _ = PInf"

text \<open>The comparisons \<^verbatim>\<open><\<close>, \<^verbatim>\<open><=\<close> and \<^verbatim>\<open>===\<close>: false whenever an operand is NaN.\<close>

fun jlt :: "jsnum \<Rightarrow> jsnum \<Rightarrow> bool" where
  "jlt (Fin a) (Fin b) = (a < b)"
| "jlt NaN _ = False"
| "jlt _ NaN = False"
| "jlt _ NInf = False"
| "jlt PInf _ = False"
| "jlt _ _ = True"

fun jeq :: "jsnum \<Rightarrow> jsnum \<Rightarrow> bool" where
  "jeq NaN _ = False"
| "jeq _ NaN = False"
| "jeq x y = (x = y)"

definition jle :: "jsnum \<Rightarrow> jsnum \<Rightarrow> bool" where
  "jle x y = (jlt x y \<or> jeq x y)"

text \<open>\<^verbatim>\<open>Math.max\<close> of two numbers and \<^verbatim>\<open>Math.log\<close>.\<close>

fun jmax :: "jsnum \<Rightarrow> jsnum \<Rightarrow> jsnum" where
  "jmax NaN _ = NaN"
| "jmax _ NaN = NaN"
| "jmax x y = (if jlt x y then y else x)"

fun jlog :: "jsnum \<Rightarrow> jsnum" where
  "jlog (Fin a) = (if 0 < a then Fin (ln a) else if a = 0 then NInf else NaN)"
| "jlog PInf = PInf"
| "jlog _ = NaN"

text \<open>
  Reading an array at an index: past the end JavaScript gives \<^verbatim>\<open>undefined\<close>, which
  every arithmetic operator, comparison and \<^verbatim>\<open>Number.isFinite\<close> of this program
  treats as NaN.
\<close>

definition cell :: "jsnum list \<Rightarrow> nat \<Rightarrow> jsnum" where
  "cell xs i = (if i < length xs then xs ! i else NaN)"

type_synonym matrix = "jsnum list list"

section \<open>State and matrices\<close>

text \<open>\<^verbatim>\<open>const RI = { 1:0, 2:0, 3:0.58, ..., 10:1.49 }\<close>\<close>

definition RI :: "nat \<Rightarrow> real option" where
  "RI = map_of [(1, 0), (2, 0), (3, 58 / 100), (4, 90 / 100), (5, 112 / 100),
                (6, 124 / 100), (7, 132 / 100), (8, 141 / 100), (9, 145 / 100),
                (10, 149 / 100)]"

text \<open>\<^verbatim>\<open>identityMatrix(n)\<close>: both branches of the conditional are 1.\<close>

definition identityMatrix :: "nat \<Rightarrow> matrix" where
  "identityMatrix n =
     map (\<lambda>i. map (\<lambda>j. if i = j then Fin 1 else Fin 1) [0..<n]) [0..<n]"

section \<open>Power iteration and consistency\<close>

text \<open>The inner loop \<^verbatim>\<open>for(j=0;j<n;j++) s += A[i][j] * w[j]\<close> for one row.\<close>

definition rowdot :: "nat \<Rightarrow> jsnum list \<Rightarrow> jsnum list \<Rightarrow> jsnum" where
  "rowdot n r w = foldl (\<lambda>s j. jadd s (jmul (cell r j) (cell w j))) (Fin 0) [0..<n]"

definition matvec :: "matrix \<Rightarrow> jsnum list \<Rightarrow> jsnum list" where
  "matvec A w = map (\<lambda>r. rowdot (length A) r w) A"

definition maxdiff :: "nat \<Rightarrow> jsnum list \<Rightarrow> jsnum list \<Rightarrow> jsnum" where
  "maxdiff n wNew w =
     foldl (\<lambda>d i. jmax d (jabs (jsub (cell wNew i) (cell w i)))) (Fin 0) [0..<n]"

text \<open>
  The loop \<^verbatim>\<open>for(it=0; it<maxIter; it++)\<close> with its \<^verbatim>\<open>break\<close>. Beside the
  vector the function returns the number of passes it has executed.
\<close>

function pi_loop :: "matrix \<Rightarrow> nat \<Rightarrow> jsnum \<Rightarrow> nat \<Rightarrow> jsnum list \<Rightarrow> jsnum list \<times> nat" where
  "pi_loop A maxIter tol it w =
     (if it < maxIter then
        (let Aw = matvec A w;
             sum = foldl jadd (Fin 0) Aw;
             wNew = map (\<lambda>x. jdiv x sum) Aw;
             diff = maxdiff (length A) wNew w
         in if jlt diff tol then (wNew, Suc it)
            else pi_loop A maxIter tol (Suc it) wNew)
      else (w, it))"
  by pat_completeness auto
termination
  by (relation "measure (\<lambda>(A, maxIter, tol, it, w). maxIter - it)") auto

declare pi_loop.simps [simp del]

record eig =
  weights :: "jsnum list"
  lambdaMax :: jsnum

record solve_result = eig +
  ci :: jsnum
  cr :: jsnum

definition powerIterationWeights :: "matrix \<Rightarrow> nat \<Rightarrow> jsnum \<Rightarrow> eig" where
  "powerIterationWeights A maxIter tol =
     (let n = length A;
          w = fst (pi_loop A maxIter tol 0 (replicate n (jdiv (Fin 1) (Fin (real n)))));
          Aw2 = matvec A w;
          lam = jdiv (foldl (\<lambda>a (v, i). jadd a (jdiv v (cell w i))) (Fin 0)
                        (zip Aw2 [0..<length Aw2]))
                     (Fin (real n))
      in \<lparr>weights = w, lambdaMax = lam\<rparr>)"

text \<open>The number of passes of the loop in a call of \<^verbatim>\<open>powerIterationWeights\<close>.\<close>

definition pi_passes :: "matrix \<Rightarrow> nat \<Rightarrow> jsnum \<Rightarrow> nat" where
  "pi_passes A maxIter tol =
     snd (pi_loop A maxIter tol 0 (replicate (length A) (jdiv (Fin 1) (Fin (real (length A))))))"

definition consistency :: "matrix \<Rightarrow> jsnum \<Rightarrow> jsnum \<times> jsnum" where
  "consistency A lam =
     (let n = length A;
          ci = jdiv (jsub lam (Fin (real n))) (jsub (Fin (real n)) (Fin 1));
          ri = (case RI n of Some r \<Rightarrow> r | None \<Rightarrow> 149 / 100);
          cr = (if jeq (Fin ri) (Fin 0) then Fin 0 else jdiv ci (Fin ri))
      in (ci, cr))"

text \<open>Default arguments of \<^verbatim>\<open>powerIterationWeights\<close>: \<^verbatim>\<open>maxIter=1500, tol=1e-11\<close>.\<close>

definition default_maxIter :: nat where
  "default_maxIter = 1500"

definition default_tol :: jsnum where
  "default_tol = Fin (1 / 10 ^ 11)"

definition ahpSolve :: "matrix \<Rightarrow> solve_result" where
  "ahpSolve A =
     (let e = powerIterationWeights A default_maxIter default_tol;
          (ci, cr) = consistency A (lambdaMax e)
      in \<lparr>weights = weights e, lambdaMax = lambdaMax e, ci = ci, cr = cr\<rparr>)"

section \<open>The invariants of a pairwise matrix\<close>

text \<open>
  The properties the specification asks of a pairwise-comparison matrix: square of order
  \<open>n\<close>, entries finite and strictly positive, \<open>A[i][j] = 1 / A[j][i]\<close> for \<open>i \<noteq> j\<close>,
  and a unit diagonal.
\<close>

definition is_order :: "nat \<Rightarrow> matrix \<Rightarrow> bool" where
  "is_order n A \<longleftrightarrow> length A = n \<and> (\<forall>r\<in>set A. length r = n)"

definition positive_finite :: "matrix \<Rightarrow> bool" where
  "positive_finite A \<longleftrightarrow> (\<forall>r\<in>set A. \<forall>x\<in>set r. isFinite x \<and> jlt (Fin 0) x)"

definition reciprocal :: "matrix \<Rightarrow> bool" where
  "reciprocal A \<longleftrightarrow>
     (\<forall>i<length A. \<forall>j<length A. i \<noteq> j \<longrightarrow> cell (A ! i) j = jdiv (Fin 1) (cell (A ! j) i))"

definition unit_diagonal :: "matrix \<Rightarrow> bool" where
  "unit_diagonal A \<longleftrightarrow> (\<forall>i<length A. cell (A ! i) i = Fin 1)"

text \<open>The real denoted by a finite number (0 for the others).\<close>

fun unFin :: "jsnum \<Rightarrow> real" where
  "unFin (Fin a) = a"
| "unFin _ = 0"

section \<open>Arrays in the store\<close>

text \<open>
  \<^verbatim>\<open>setPairwise\<close> writes into arrays, so for it the rows of a matrix live in a store:
  an address holds the contents of one row array, and a matrix value is the list of the
  addresses of its rows (the outer array, which no function here writes to). Two
  matrices may share a row. Allocation takes the next unused address.
\<close>

type_synonym addr = nat

record heap =
  arr :: "addr \<Rightarrow> jsnum list option"
  nxt :: addr

datatype error = TypeError

definition alloc :: "heap \<Rightarrow> jsnum list \<Rightarrow> heap \<times> addr" where
  "alloc h xs = (h\<lparr>arr := (arr h)(nxt h \<mapsto> xs), nxt := Suc (nxt h)\<rparr>, nxt h)"

text \<open>
  \<^verbatim>\<open>A.map(r=>r.slice())\<close>: a new row array for every row of \<open>A\<close>, in order. A row that is
  not an array has no \<^verbatim>\<open>slice\<close>, which raises.
\<close>

fun cloneMatrix :: "heap \<Rightarrow> addr list \<Rightarrow> error + heap \<times> addr list" where
  "cloneMatrix h [] = Inr (h, [])"
| "cloneMatrix h (a # as) =
     (case arr h a of
        None \<Rightarrow> Inl TypeError
      | Some xs \<Rightarrow>
          (case alloc h xs of (h1, b) \<Rightarrow>
             (case cloneMatrix h1 as of
                Inl e \<Rightarrow> Inl e
              | Inr (h2, bs) \<Rightarrow> Inr (h2, b # bs))))"

text \<open>
  An assignment \<^verbatim>\<open>xs[j] = v\<close> to an array: in range it replaces the element, past the
  end it extends the array, leaving holes (which read as \<^verbatim>\<open>undefined\<close>, see \<open>cell\<close>).
\<close>

definition arr_set :: "jsnum list \<Rightarrow> nat \<Rightarrow> jsnum \<Rightarrow> jsnum list" where
  "arr_set xs j v =
     (if j < length xs then xs[j := v] else xs @ replicate (j - length xs) NaN @ [v])"

text \<open>
  \<^verbatim>\<open>B[i][j] = v\<close>: when \<open>B[i]\<close> is \<^verbatim>\<open>undefined\<close> (\<open>i\<close> past the end of \<open>B\<close>) the
  assignment raises a TypeError. (The rows of a clone are all arrays, so the other error
  branch is not reached from \<open>setPairwise\<close>.)
\<close>

definition set_cell :: "heap \<Rightarrow> addr list \<Rightarrow> nat \<Rightarrow> nat \<Rightarrow> jsnum \<Rightarrow> error + heap" where
  "set_cell h B i j v =
     (if i < length B then
        (case arr h (B ! i) of
           None \<Rightarrow> Inl TypeError
         | Some xs \<Rightarrow> Inr (h\<lparr>arr := (arr h)(B ! i \<mapsto> arr_set xs j v)\<rparr>))
      else Inl TypeError)"

text \<open>\<^verbatim>\<open>for(let k=0;k<B.length;k++) B[k][k] = 1\<close>, over the indices still to visit.\<close>

fun set_diag :: "heap \<Rightarrow> addr list \<Rightarrow> nat list \<Rightarrow> error + heap" where
  "set_diag h B [] = Inr h"
| "set_diag h B (k # ks) =
     (case set_cell h B k k (Fin 1) of
        Inl e \<Rightarrow> Inl e
      | Inr h' \<Rightarrow> set_diag h' B ks)"

text \<open>
  \<^verbatim>\<open>const B = cloneMatrix(A); B[i][j] = v; B[j][i] = 1 / v;\<close>
  \<^verbatim>\<open>for(let k=0;k<B.length;k++) B[k][k] = 1; return B;\<close>
\<close>

definition setPairwise :: "heap \<Rightarrow> addr list \<Rightarrow> nat \<Rightarrow> nat \<Rightarrow> jsnum \<Rightarrow> error + heap \<times> addr list" where
  "setPairwise h A i j v =
     (case cloneMatrix h A of
        Inl e \<Rightarrow> Inl e
      | Inr (h1, B) \<Rightarrow>
          (case set_cell h1 B i j v of
             Inl e \<Rightarrow> Inl e
           | Inr h2 \<Rightarrow>
               (case set_cell h2 B j i (jdiv (Fin 1) v) of
                  Inl e \<Rightarrow> Inl e
                | Inr h3 \<Rightarrow>
                    (case set_diag h3 B [0..<length B] of
                       Inl e \<Rightarrow> Inl e
                     | Inr h4 \<Rightarrow> Inr (h4, B)))))"

text \<open>
  The store is well formed when every array lies below the next unused address; the
  matrix value \<open>A\<close> denotes the matrix \<open>M\<close> in the store when its rows hold the rows of \<open>M\<close>.
\<close>

definition heap_ok :: "heap \<Rightarrow> bool" where
  "heap_ok h \<longleftrightarrow> (\<forall>a. nxt h \<le> a \<longrightarrow> arr h a = None)"

definition denotes :: "heap \<Rightarrow> addr list \<Rightarrow> matrix \<Rightarrow> bool" where
  "denotes h A M \<longleftrightarrow> length A = length M \<and> (\<forall>p<length M. arr h (A ! p) = Some (M ! p))"

section \<open>Sorting by score\<close>

text \<open>
  Both lists the program sorts hold objects with a \<^verbatim>\<open>score\<close> field, and both are sorted
  with the comparator \<^verbatim>\<open>(a,b)=>b.score-a.score\<close>.
\<close>

record scored =
  score :: jsnum

definition cmp_desc :: "'a scored_scheme \<Rightarrow> 'a scored_scheme \<Rightarrow> jsnum" where
  "cmp_desc a b = jsub (score b) (score a)"

text \<open>
  \<^verbatim>\<open>Array.prototype.sort\<close> with a comparator is stable: \<open>x\<close> moves behind a later \<open>y\<close> only
  when the comparator is positive on \<open>(x, y)\<close>, and a NaN result counts as 0. With a
  comparator that is not a consistent order (scores that are NaN) the language leaves the
  result to the implementation; the insertion sort below is one such result.
\<close>

fun insert_cmp :: "('a \<Rightarrow> 'a \<Rightarrow> jsnum) \<Rightarrow> 'a \<Rightarrow> 'a list \<Rightarrow> 'a list" where
  "insert_cmp c x [] = [x]"
| "insert_cmp c x (y # ys) =
     (if jlt (Fin 0) (c x y) then y # insert_cmp c x ys else x # y # ys)"

definition js_sort :: "('a \<Rightarrow> 'a \<Rightarrow> jsnum) \<Rightarrow> 'a list \<Rightarrow> 'a list" where
  "js_sort c xs = foldr (insert_cmp c) xs []"

text \<open>\<^verbatim>\<open>xs.slice(0, k)\<close> for an integer \<open>k\<close>: a negative \<open>k\<close> counts from the end.\<close>

definition slice0 :: "'a list \<Rightarrow> int \<Rightarrow> 'a list" where
  "slice0 xs k = take (nat (if k < 0 then int (length xs) + k else k)) xs"

section \<open>Inconsistency diagnostics\<close>

record issue = scored +
  issue_text :: string

text \<open>\<^verbatim>\<open>A[i]\<close> as the receiver of a further index: \<^verbatim>\<open>undefined[j]\<close> raises.\<close>

definition row_at :: "matrix \<Rightarrow> nat \<Rightarrow> error + jsnum list" where
  "row_at A i = (if i < length A then Inr (A ! i) else Inl TypeError)"

text \<open>
  The loop over \<open>k\<close>, with \<open>ri\<close> the row \<open>A[i]\<close> (read before the loop for \<open>direct\<close>) and
  the pair \<open>(best, bestK)\<close> as its state.
\<close>

fun scan_k :: "matrix \<Rightarrow> jsnum list \<Rightarrow> nat \<Rightarrow> nat \<Rightarrow> jsnum \<Rightarrow> nat list \<Rightarrow> jsnum \<times> int
               \<Rightarrow> error + jsnum \<times> int" where
  "scan_k A ri i j direct [] acc = Inr acc"
| "scan_k A ri i j direct (k # ks) (best, bestK) =
     (if k = i \<or> k = j then scan_k A ri i j direct ks (best, bestK)
      else case row_at A k of
        Inl e \<Rightarrow> Inl e
      | Inr rk \<Rightarrow>
          (let via = jmul (cell ri k) (cell rk j) in
           if \<not> isFinite via \<or> jle via (Fin 0) then scan_k A ri i j direct ks (best, bestK)
           else
             (let d = jabs (jsub (jlog direct) (jlog via)) in
              if jlt best d then scan_k A ri i j direct ks (d, int k)
              else scan_k A ri i j direct ks (best, bestK))))"

text \<open>The body of the loop over \<open>j\<close>: the entry pushed for the pair \<open>(i, j)\<close>, if any.\<close>

definition pair_issue :: "string list \<Rightarrow> matrix \<Rightarrow> nat \<Rightarrow> nat \<Rightarrow> nat \<Rightarrow> error + issue option" where
  "pair_issue labels A n i j =
     (case row_at A i of
        Inl e \<Rightarrow> Inl e
      | Inr ri \<Rightarrow>
          (let direct = cell ri j in
           if \<not> isFinite direct \<or> jle direct (Fin 0) then Inr None
           else case scan_k A ri i j direct [0..<n] (Fin 0, - 1) of
             Inl e \<Rightarrow> Inl e
           | Inr (best, bestK) \<Rightarrow>
               if 0 \<le> bestK then
                 Inr (Some \<lparr>score = best,
                            issue_text = labels ! i @ '' vs '' @ labels ! j @ '' (check with ''
                                         @ labels ! nat bestK @ '')''\<rparr>)
               else Inr None))"

text \<open>The pairs \<open>i < j < n\<close> in the order the two outer loops visit them.\<close>

definition pairs :: "nat \<Rightarrow> (nat \<times> nat) list" where
  "pairs n = concat (map (\<lambda>i. map (\<lambda>j. (i, j)) [Suc i..<n]) [0..<n])"

fun collect :: "string list \<Rightarrow> matrix \<Rightarrow> nat \<Rightarrow> (nat \<times> nat) list \<Rightarrow> issue list
                \<Rightarrow> error + issue list" where
  "collect labels A n [] issues = Inr issues"
| "collect labels A n ((i, j) # ps) issues =
     (case pair_issue labels A n i j of
        Inl e \<Rightarrow> Inl e
      | Inr None \<Rightarrow> collect labels A n ps issues
      | Inr (Some e) \<Rightarrow> collect labels A n ps (issues @ [e]))"

text \<open>The list \<^verbatim>\<open>issues\<close> when the loops are done.\<close>

definition recorded :: "string list \<Rightarrow> matrix \<Rightarrow> error + issue list" where
  "recorded labels A = collect labels A (length labels) (pairs (length labels)) []"

definition inconsistencyHints :: "string list \<Rightarrow> matrix \<Rightarrow> int \<Rightarrow> error + issue list" where
  "inconsistencyHints labels A topK =
     (case recorded labels A of
        Inl e \<Rightarrow> Inl e
      | Inr issues \<Rightarrow> Inr (slice0 (js_sort cmp_desc issues) topK))"

text \<open>
  The terms of the specification of the diagnostics: the indirect estimate through \<open>k\<close>,
  the witnesses of a pair (the other indices whose estimate is finite and positive), and
  the disagreement of a witness with the direct judgment.
\<close>

definition via :: "matrix \<Rightarrow> nat \<Rightarrow> nat \<Rightarrow> nat \<Rightarrow> jsnum" where
  "via A i j k = jmul (cell (A ! i) k) (cell (A ! k) j)"




section \<open>Aggregation and ranking\<close>

text \<open>The part of the application state that \<^verbatim>\<open>computeResults\<close> reads.\<close>

record state =
  criteria :: "string list"
  alternatives :: "string list"
  criteriaMatrix :: matrix
  altMatrices :: "matrix list"

record ranked = scored +
  name :: string

record results =
  criteriaWeights :: "jsnum list"
  criteriaCR :: jsnum
  altWeightsByCriterion :: "string \<Rightarrow> jsnum list option"
  altCRByCriterion :: "string \<Rightarrow> jsnum option"
  finalScores :: "jsnum list"
  ranking :: "ranked list"

text \<open>
  The inner loop \<^verbatim>\<open>for(j=0;j<n;j++) s += crit.weights[j] * altSolves[j].weights[i]\<close>,
  with \<open>aw\<close> the weight vectors of \<^verbatim>\<open>altSolves\<close>: past the end of \<^verbatim>\<open>altSolves\<close> the
  element is \<^verbatim>\<open>undefined\<close> and reading its \<^verbatim>\<open>weights\<close> raises.
\<close>

fun score_sum :: "jsnum list \<Rightarrow> jsnum list list \<Rightarrow> nat \<Rightarrow> nat list \<Rightarrow> jsnum \<Rightarrow> error + jsnum" where
  "score_sum cw aw i [] s = Inr s"
| "score_sum cw aw i (j # js) s =
     (if j < length aw then score_sum cw aw i js (jadd s (jmul (cell cw j) (cell (aw ! j) i)))
      else Inl TypeError)"

text \<open>The outer loop \<^verbatim>\<open>for(i=0;i<m;i++)\<close>, over the alternatives still to score.\<close>

fun scores_from :: "jsnum list \<Rightarrow> jsnum list list \<Rightarrow> nat \<Rightarrow> nat list \<Rightarrow> error + jsnum list" where
  "scores_from cw aw n [] = Inr []"
| "scores_from cw aw n (i # is) =
     (case score_sum cw aw i [0..<n] (Fin 0) of
        Inl e \<Rightarrow> Inl e
      | Inr s \<Rightarrow>
          (case scores_from cw aw n is of
             Inl e \<Rightarrow> Inl e
           | Inr ss \<Rightarrow> Inr (s # ss)))"

text \<open>
  \<^verbatim>\<open>st.criteria.reduce((acc, c, i)=>{ acc[c] = f(altSolves[i]); return acc; }, {})\<close>
\<close>

fun by_criterion :: "(solve_result \<Rightarrow> 'a) \<Rightarrow> solve_result list \<Rightarrow> (string \<times> nat) list
                     \<Rightarrow> (string \<Rightarrow> 'a option) \<Rightarrow> error + (string \<Rightarrow> 'a option)" where
  "by_criterion f alts [] acc = Inr acc"
| "by_criterion f alts ((c, i) # cs) acc =
     (if i < length alts then by_criterion f alts cs (acc(c \<mapsto> f (alts ! i)))
      else Inl TypeError)"

text \<open>\<^verbatim>\<open>st.alternatives.map((name,i)=>({ name, score: scores[i] }))\<close>\<close>

definition entries :: "string list \<Rightarrow> jsnum list \<Rightarrow> ranked list" where
  "entries alts scores =
     map (\<lambda>(nm, i). \<lparr>score = cell scores i, name = nm\<rparr>) (zip alts [0..<length alts])"

text \<open>
  \<^verbatim>\<open>computeResults\<close>. The returned object also repeats \<^verbatim>\<open>problem\<close>, \<^verbatim>\<open>criteria\<close> and
  \<^verbatim>\<open>alternatives\<close> of the state; the model returns its \<^verbatim>\<open>results\<close> part.
\<close>

definition computeResults :: "state \<Rightarrow> error + results" where
  "computeResults st =
     (let crit = ahpSolve (criteriaMatrix st);
          altSolves = map ahpSolve (altMatrices st);
          m = length (alternatives st);
          n = length (criteria st)
      in case scores_from (weights crit) (map weights altSolves) n [0..<m] of
           Inl e \<Rightarrow> Inl e
         | Inr scores \<Rightarrow>
             (let rk = js_sort cmp_desc (entries (alternatives st) scores) in
              case by_criterion weights altSolves (zip (criteria st) [0..<n]) Map.empty of
                Inl e \<Rightarrow> Inl e
              | Inr aw \<Rightarrow>
                  (case by_criterion cr altSolves (zip (criteria st) [0..<n]) Map.empty of
                     Inl e \<Rightarrow> Inl e
                   | Inr ac \<Rightarrow>
                       Inr \<lparr>criteriaWeights = weights crit, criteriaCR = cr crit,
                            altWeightsByCriterion = aw, altCRByCriterion = ac,
                            finalScores = scores, ranking = rk\<rparr>)))"

text \<open>
  The hierarchy invariant of the specification: one alternative matrix per criterion,
  and every matrix a pairwise matrix of the order of its label list.
\<close>

definition pairwise_matrix :: "nat \<Rightarrow> matrix \<Rightarrow> bool" where
  "pairwise_matrix n A \<longleftrightarrow>
     1 \<le> n \<and> is_order n A \<and> positive_finite A \<and> reciprocal A \<and> unit_diagonal A"

definition hierarchy :: "state \<Rightarrow> bool" where
  "hierarchy st \<longleftrightarrow>
     pairwise_matrix (length (criteria st)) (criteriaMatrix st)
     \<and> length (altMatrices st) = length (criteria st)
     \<and> (\<forall>A\<in>set (altMatrices st). pairwise_matrix (length (alternatives st)) A)"

section \<open>Loading the persisted state\<close>

text \<open>
  The value \<^verbatim>\<open>JSON.parse\<close> returns. An object is the list of its properties; looking a
  name up that is not there gives \<^verbatim>\<open>undefined\<close> (\<open>None\<close>).
\<close>

datatype json =
    JNull
  | JBool bool
  | JNum jsnum
  | JStr string
  | JArr "json list"
  | JObj "(string \<times> json) list"

text \<open>Truthiness, for the test \<^verbatim>\<open>!st.problem\<close>.\<close>

fun truthy :: "json \<Rightarrow> bool" where
  "truthy JNull = False"
| "truthy (JBool b) = b"
| "truthy (JNum x) = (x \<noteq> Fin 0 \<and> x \<noteq> NaN)"
| "truthy (JStr s) = (s \<noteq> [])"
| "truthy (JArr xs) = True"
| "truthy (JObj kvs) = True"

text \<open>\<^verbatim>\<open>Array.isArray(v)\<close> on a property that may be missing, with the elements when it holds.\<close>

fun as_array :: "json option \<Rightarrow> json list option" where
  "as_array (Some (JArr xs)) = Some xs"
| "as_array _ = None"

text \<open>
  The state object, by the six properties the program reads (other properties of a parsed
  object stay on it and are not modelled). The names carry a prefix to keep them apart
  from the fields of \<open>state\<close>.
\<close>

record persisted =
  p_problem :: json
  p_criteria :: "json list"
  p_alternatives :: "json list"
  p_criteriaMatrix :: "json list"
  p_altMatrices :: "json list"
  p_activeCritIdx :: jsnum

definition jmatrix :: "matrix \<Rightarrow> json list" where
  "jmatrix M = map (\<lambda>r. JArr (map JNum r)) M"

text \<open>
  \<^verbatim>\<open>initMatrices(st)\<close>: it replaces both matrix properties, from the lengths of the two
  label lists.
\<close>

definition initMatrices :: "persisted \<Rightarrow> persisted" where
  "initMatrices st =
     st\<lparr>p_criteriaMatrix := jmatrix (identityMatrix (length (p_criteria st))),
        p_altMatrices :=
          map (\<lambda>_. JArr (jmatrix (identityMatrix (length (p_alternatives st))))) (p_criteria st)\<rparr>"

definition defaultState :: persisted where
  "defaultState =
     initMatrices
       \<lparr>p_problem = JObj [(''name'', JStr ''Logistics''),
                          (''goal'', JStr ''Select the best warehouse location'')],
        p_criteria = [JStr ''Transportation cost'', JStr ''Delivery lead time'',
                      JStr ''Service reliability''],
        p_alternatives = [JStr ''Location A'', JStr ''Location B'', JStr ''Location C''],
        p_criteriaMatrix = [],
        p_altMatrices = [],
        p_activeCritIdx = Fin 0\<rparr>"

text \<open>
  The test \<^verbatim>\<open>st.altMatrices.some(m => !Array.isArray(m) || m.length !== st.alternatives.length)\<close>
\<close>

definition some_bad_alt :: "persisted \<Rightarrow> bool" where
  "some_bad_alt st =
     list_ex (\<lambda>m. case m of JArr rows \<Rightarrow> length rows \<noteq> length (p_alternatives st) | _ \<Rightarrow> True)
       (p_altMatrices st)"

text \<open>
  The statements of \<^verbatim>\<open>loadState\<close> after its first \<^verbatim>\<open>return\<close>, on the properties \<open>kvs\<close> of
  the parsed object whose \<^verbatim>\<open>problem\<close>, \<^verbatim>\<open>criteria\<close> and \<^verbatim>\<open>alternatives\<close> passed the test.
\<close>

definition repair :: "(string \<times> json) list \<Rightarrow> json \<Rightarrow> json list \<Rightarrow> json list \<Rightarrow> persisted" where
  "repair kvs p crit alts =
     (let st0 = \<lparr>p_problem = p, p_criteria = crit, p_alternatives = alts,
                 p_criteriaMatrix = [], p_altMatrices = [], p_activeCritIdx = Fin 0\<rparr>;
          st1 = (case (as_array (map_of kvs ''criteriaMatrix''),
                       as_array (map_of kvs ''altMatrices'')) of
                   (Some cm, Some am) \<Rightarrow> st0\<lparr>p_criteriaMatrix := cm, p_altMatrices := am\<rparr>
                 | _ \<Rightarrow> initMatrices st0);
          idx0 = (case map_of kvs ''activeCritIdx'' of Some (JNum x) \<Rightarrow> x | _ \<Rightarrow> Fin 0);
          idx1 = (if jlt idx0 (Fin 0) then Fin 0 else idx0);
          idx2 = (if jle (Fin (real (length crit))) idx1 then Fin 0 else idx1);
          st2 = st1\<lparr>p_activeCritIdx := idx2\<rparr>;
          st3 = (if length (p_criteriaMatrix st2) \<noteq> length (p_criteria st2)
                 then initMatrices st2 else st2);
          st4 = (if length (p_altMatrices st3) \<noteq> length (p_criteria st3)
                 then initMatrices st3 else st3);
          st5 = (if some_bad_alt st4 then initMatrices st4 else st4)
      in st5)"

text \<open>
  \<^verbatim>\<open>loadState\<close>, with the stored string (\<open>None\<close> when the key is absent) and the parser
  as arguments; the parser gives \<open>None\<close> where \<^verbatim>\<open>JSON.parse\<close> raises. Every exception
  inside the \<^verbatim>\<open>try\<close> ends in \<^verbatim>\<open>defaultState()\<close>: the only one is the property read on
  \<^verbatim>\<open>null\<close>; on the other values that are not objects the properties are \<^verbatim>\<open>undefined\<close>
  and the first test returns the default state as well.
\<close>

definition loadState :: "(string \<Rightarrow> json option) \<Rightarrow> string option \<Rightarrow> persisted" where
  "loadState parse raw =
     (case raw of
        None \<Rightarrow> defaultState
      | Some s \<Rightarrow>
          if s = [] then defaultState
          else
            (case parse s of
               Some (JObj kvs) \<Rightarrow>
                 (case (map_of kvs ''problem'', as_array (map_of kvs ''criteria''),
                        as_array (map_of kvs ''alternatives'')) of
                    (Some p, Some crit, Some alts) \<Rightarrow>
                      if truthy p then repair kvs p crit alts else defaultState
                  | _ \<Rightarrow> defaultState)
             | _ \<Rightarrow> defaultState))"

text \<open>
  A square matrix of dimension \<open>n\<close> as a parsed value: \<open>n\<close> rows, each an array of \<open>n\<close>
  cells; and the weaker property the loader checks, the number of rows.
\<close>

definition square_rows :: "nat \<Rightarrow> json list \<Rightarrow> bool" where
  "square_rows n rows \<longleftrightarrow>
     length rows = n \<and> list_all (\<lambda>r. case r of JArr cells \<Rightarrow> length cells = n | _ \<Rightarrow> False) rows"

definition square_json :: "nat \<Rightarrow> json \<Rightarrow> bool" where
  "square_json n v = (case v of JArr rows \<Rightarrow> square_rows n rows | _ \<Rightarrow> False)"

definition has_rows :: "nat \<Rightarrow> json \<Rightarrow> bool" where
  "has_rows n v = (case v of JArr rows \<Rightarrow> length rows = n | _ \<Rightarrow> False)"

text \<open>
  What the loader establishes: the row counts agree with the label lists. And the state
  it resets to: both levels all-ones, square, of the dimensions of the label lists.
\<close>

definition row_counts_ok :: "persisted \<Rightarrow> bool" where
  "row_counts_ok st \<longleftrightarrow>
     length (p_criteriaMatrix st) = length (p_criteria st)
     \<and> length (p_altMatrices st) = length (p_criteria st)
     \<and> list_all (has_rows (length (p_alternatives st))) (p_altMatrices st)"

definition neutral_matrices :: "persisted \<Rightarrow> bool" where
  "neutral_matrices st \<longleftrightarrow>
     p_criteriaMatrix st = jmatrix (identityMatrix (length (p_criteria st)))
     \<and> p_altMatrices st =
         replicate (length (p_criteria st))
           (JArr (jmatrix (identityMatrix (length (p_alternatives st)))))"

section \<open>Binary64 arithmetic\<close>

text \<open>
  The results of the solver are compared with exact values (weights that sum to 1,
  \<open>lambdaMax \<ge> n\<close>, \<open>cr \<ge> 0\<close>), so for the solver the finite numbers are also modelled
  as IEEE-754 binary64 numbers: an operation returns the exact result rounded to the
  nearest double, ties to even; a result that rounds to \<open>2\<^sup>1\<^sup>0\<^sup>2\<^sup>4\<close> or beyond is the
  infinity of its sign. Zero carries no sign.

  \<open>rhe y\<close> is the integer nearest to \<open>y\<close>, the even one of the two at a tie.
\<close>

definition rhe :: "real \<Rightarrow> int" where
  "rhe y = (let f = \<lfloor>y\<rfloor>; r = y - of_int f
            in if r < 1 / 2 then f else if 1 / 2 < r then f + 1
               else if even f then f else f + 1)"

text \<open>
  Rounding of a real to binary64. With \<open>e\<close> the exponent of \<open>x\<close>, not below that of the
  subnormal numbers, the doubles around \<open>x\<close> are the multiples of \<open>q = 2\<^sup>e\<^sup>-\<^sup>5\<^sup>2\<close>.
\<close>

definition round64 :: "real \<Rightarrow> jsnum" where
  "round64 x = (if x = 0 then Fin 0 else
     (let e = max \<lfloor>log 2 \<bar>x\<bar>\<rfloor> (- 1022);
          q = 2 powi (e - 52);
          y = sgn x * of_int (rhe (\<bar>x\<bar> / q)) * q
      in if 2 ^ 1024 \<le> \<bar>y\<bar> then signed_inf x else Fin y))"

text \<open>The unit roundoff \<open>2\<^sup>-\<^sup>5\<^sup>3\<close>.\<close>

definition eps64 :: real where
  "eps64 = 1 / 2 ^ 53"

text \<open>The operators \<^verbatim>\<open>+\<close>, \<^verbatim>\<open>-\<close>, \<^verbatim>\<open>*\<close> and \<^verbatim>\<open>/\<close> on doubles.\<close>

fun add64 :: "jsnum \<Rightarrow> jsnum \<Rightarrow> jsnum" where
  "add64 (Fin a) (Fin b) = round64 (a + b)"
| "add64 x y = jadd x y"

definition sub64 :: "jsnum \<Rightarrow> jsnum \<Rightarrow> jsnum" where
  "sub64 x y = add64 x (jneg y)"

fun mul64 :: "jsnum \<Rightarrow> jsnum \<Rightarrow> jsnum" where
  "mul64 (Fin a) (Fin b) = round64 (a * b)"
| "mul64 x y = jmul x y"

fun div64 :: "jsnum \<Rightarrow> jsnum \<Rightarrow> jsnum" where
  "div64 (Fin a) (Fin b) = (if b = 0 then jdiv (Fin a) (Fin b) else round64 (a / b))"
| "div64 x y = jdiv x y"

section \<open>The solver on doubles\<close>

text \<open>
  \<^verbatim>\<open>powerIterationWeights\<close>, \<^verbatim>\<open>consistency\<close> and \<^verbatim>\<open>ahpSolve\<close> once more, statement by
  statement as above, with the four operators on doubles. \<^verbatim>\<open>Math.max\<close>, \<^verbatim>\<open>Math.abs\<close>
  and the comparisons are exact; an array length is an integer below \<open>2\<^sup>3\<^sup>2\<close> and so a
  double; a decimal literal of the source is the double nearest to it.
\<close>

definition rowdot64 :: "nat \<Rightarrow> jsnum list \<Rightarrow> jsnum list \<Rightarrow> jsnum" where
  "rowdot64 n r w = foldl (\<lambda>s j. add64 s (mul64 (cell r j) (cell w j))) (Fin 0) [0..<n]"

definition matvec64 :: "matrix \<Rightarrow> jsnum list \<Rightarrow> jsnum list" where
  "matvec64 A w = map (\<lambda>r. rowdot64 (length A) r w) A"

definition maxdiff64 :: "nat \<Rightarrow> jsnum list \<Rightarrow> jsnum list \<Rightarrow> jsnum" where
  "maxdiff64 n wNew w =
     foldl (\<lambda>d i. jmax d (jabs (sub64 (cell wNew i) (cell w i)))) (Fin 0) [0..<n]"

function pi_loop64 :: "matrix \<Rightarrow> nat \<Rightarrow> jsnum \<Rightarrow> nat \<Rightarrow> jsnum list \<Rightarrow> jsnum list \<times> nat" where
  "pi_loop64 A maxIter tol it w =
     (if it < maxIter then
        (let Aw = matvec64 A w;
             sum = foldl add64 (Fin 0) Aw;
             wNew = map (\<lambda>x. div64 x sum) Aw;
             diff = maxdiff64 (length A) wNew w
         in if jlt diff tol then (wNew, Suc it)
            else pi_loop64 A maxIter tol (Suc it) wNew)
      else (w, it))"
  by pat_completeness auto
termination
  by (relation "measure (\<lambda>(A, maxIter, tol, it, w). maxIter - it)") auto

declare pi_loop64.simps [simp del]

definition powerIterationWeights64 :: "matrix \<Rightarrow> nat \<Rightarrow> jsnum \<Rightarrow> eig" where
  "powerIterationWeights64 A maxIter tol =
     (let n = length A;
          w = fst (pi_loop64 A maxIter tol 0 (replicate n (div64 (Fin 1) (Fin (real n)))));
          Aw2 = matvec64 A w;
          lam = div64 (foldl (\<lambda>a (v, i). add64 a (div64 v (cell w i))) (Fin 0)
                         (zip Aw2 [0..<length Aw2]))
                      (Fin (real n))
      in \<lparr>weights = w, lambdaMax = lam\<rparr>)"

definition consistency64 :: "matrix \<Rightarrow> jsnum \<Rightarrow> jsnum \<times> jsnum" where
  "consistency64 A lam =
     (let n = length A;
          ci = div64 (sub64 lam (Fin (real n))) (sub64 (Fin (real n)) (Fin 1));
          ri = round64 (case RI n of Some r \<Rightarrow> r | None \<Rightarrow> 149 / 100);
          cr = (if jeq ri (Fin 0) then Fin 0 else div64 ci ri)
      in (ci, cr))"

definition default_tol64 :: jsnum where
  "default_tol64 = round64 (1 / 10 ^ 11)"

definition ahpSolve64 :: "matrix \<Rightarrow> solve_result" where
  "ahpSolve64 A =
     (let e = powerIterationWeights64 A default_maxIter default_tol64;
          (ci, cr) = consistency64 A (lambdaMax e)
      in \<lparr>weights = weights e, lambdaMax = lambdaMax e, ci = ci, cr = cr\<rparr>)"

text \<open>
  Reciprocity as \<^verbatim>\<open>setPairwise\<close> establishes it on doubles: of two mirrored entries one
  is the quotient \<^verbatim>\<open>1 / v\<close> of the other, as the division on doubles returns it.
\<close>

definition reciprocal64 :: "matrix \<Rightarrow> bool" where
  "reciprocal64 A \<longleftrightarrow>
     (\<forall>i<length A. \<forall>j<length A. i \<noteq> j \<longrightarrow>
        cell (A ! i) j = div64 (Fin 1) (cell (A ! j) i)
      \<or> cell (A ! j) i = div64 (Fin 1) (cell (A ! i) j))"

text \<open>Entries that are finite and lie between \<open>2\<^sup>-\<^sup>1\<^sup>0\<^sup>0\<close> and \<open>2\<^sup>1\<^sup>0\<^sup>0\<close>.\<close>

fun moderate :: "jsnum \<Rightarrow> bool" where
  "moderate (Fin a) \<longleftrightarrow> 1 / 2 ^ 100 \<le> a \<and> a \<le> 2 ^ 100"
| "moderate _ \<longleftrightarrow> False"

definition moderate_entries :: "matrix \<Rightarrow> bool" where
  "moderate_entries A \<longleftrightarrow> (\<forall>r\<in>set A. \<forall>x\<in>set r. moderate x)"

text \<open>
  Two non-negative reals within \<open>k\<close> roundings of each other: each is at least
  \<open>(1 - 2\<^sup>-\<^sup>5\<^sup>3)\<^sup>k\<close> times the other.
\<close>

definition nearby :: "nat \<Rightarrow> real \<Rightarrow> real \<Rightarrow> bool" where
  "nearby k x y \<longleftrightarrow>
     0 \<le> x \<and> 0 \<le> y \<and> (1 - eps64) ^ k * x \<le> y \<and> (1 - eps64) ^ k * y \<le> x"

text \<open>A positive real between \<open>2\<^sup>-\<^sup>k\<close> and \<open>2\<^sup>k\<close>.\<close>

definition mag :: "nat \<Rightarrow> real \<Rightarrow> bool" where
  "mag k x \<longleftrightarrow> 1 / 2 ^ k \<le> x \<and> x \<le> 2 ^ k"

section \<open>Arithmetic on finite numbers\<close>

lemma cell_map_Fin: "i < length xs \<Longrightarrow> cell (map Fin xs) i = Fin (xs ! i)"
  by (simp add: cell_def)

lemma rowdot_Fin:
  "n \<le> length r \<Longrightarrow> n \<le> length w \<Longrightarrow>
   rowdot n (map Fin r) (map Fin w) = Fin (\<Sum>j<n. r ! j * w ! j)"
  unfolding rowdot_def
  by (induction n) (simp_all add: cell_map_Fin)

lemma foldl_jadd_Fin: "foldl jadd (Fin a) (map Fin xs) = Fin (a + sum_list xs)"
  by (induction xs arbitrary: a) (simp_all add: add.assoc)

lemma maxdiff_Fin:
  "n \<le> length u \<Longrightarrow> n \<le> length w \<Longrightarrow> \<exists>d. maxdiff n (map Fin u) (map Fin w) = Fin d"
  unfolding maxdiff_def
  by (induction n) (auto simp add: cell_map_Fin jsub_def)

lemma maxdiff_same:
  "n \<le> length w \<Longrightarrow> maxdiff n (map Fin w) (map Fin w) = Fin 0"
  unfolding maxdiff_def
  by (induction n) (auto simp add: cell_map_Fin jsub_def)

lemma matvec_Fin:
  assumes "\<forall>r\<in>set M. length M \<le> length r" and "length M \<le> length w"
  shows "matvec (map (map Fin) M) (map Fin w) =
         map Fin (map (\<lambda>r. \<Sum>j<length M. r ! j * w ! j) M)"
  using assms by (simp add: matvec_def rowdot_Fin)

lemma lam_fold_Fin:
  "length v \<le> length w \<Longrightarrow> \<forall>i<length v. w ! i \<noteq> 0 \<Longrightarrow>
   foldl (\<lambda>a (x, i). jadd a (jdiv x (cell (map Fin w) i))) (Fin 0)
         (zip (map Fin v) [0..<length (map Fin v)])
   = Fin (\<Sum>i<length v. v ! i / w ! i)"
proof (induction v rule: rev_induct)
  case Nil
  then show ?case by simp
next
  case (snoc x xs)
  have z: "zip (map Fin (xs @ [x])) [0..<length (map Fin (xs @ [x]))] =
        zip (map Fin xs) [0..<length (map Fin xs)] @ [(Fin x, length xs)]"
    by simp
  have "(\<Sum>i<length xs. (xs @ [x]) ! i / w ! i) = (\<Sum>i<length xs. xs ! i / w ! i)"
    by (rule sum.cong) (simp_all add: nth_append)
  with snoc show ?case
    unfolding z by (simp add: cell_map_Fin)
qed

section \<open>The iteration cap\<close>

lemma pi_loop_passes: "it \<le> maxIter \<Longrightarrow> snd (pi_loop A maxIter tol it w) \<le> maxIter"
proof (induction A maxIter tol it w rule: pi_loop.induct)
  case (1 A maxIter tol it w)
  show ?case
  proof (cases "it < maxIter")
    case True
    then show ?thesis
      using "1.IH" by (subst pi_loop.simps) (auto simp add: Let_def)
  next
    case False
    then show ?thesis using "1.prems" by (subst pi_loop.simps) simp
  qed
qed

text \<open>
  C8. \<^verbatim>\<open>powerIterationWeights\<close> is a total function of any matrix (the loop is
  defined by a terminating recursion, whatever the entries), and its loop executes at
  most \<open>maxIter\<close> passes, at most 1500 with the default arguments, whether or not the
  tolerance is ever reached.
\<close>

theorem powerIteration_passes_bounded:
  "pi_passes A maxIter tol \<le> maxIter \<and> pi_passes A default_maxIter default_tol \<le> 1500"
proof -
  have "pi_passes A m t \<le> m" for m t
    unfolding pi_passes_def by (rule pi_loop_passes) simp
  from this [of maxIter tol] this [of default_maxIter default_tol]
  show ?thesis by (simp add: default_maxIter_def)
qed

section \<open>The random index\<close>

lemma RI_cases:
  "RI n = (if n = 1 \<or> n = 2 then Some 0 else if n = 3 then Some (58/100)
     else if n = 4 then Some (90/100) else if n = 5 then Some (112/100)
     else if n = 6 then Some (124/100) else if n = 7 then Some (132/100)
     else if n = 8 then Some (141/100) else if n = 9 then Some (145/100)
     else if n = 10 then Some (149/100) else None)"
  by (simp add: RI_def)

text \<open>
  C4. For a matrix of order \<open>n \<ge> 1\<close> and any \<open>lambdaMax\<close>, \<^verbatim>\<open>consistency\<close> takes the
  random index 0, 0, 0.58, 0.90, 1.12, 1.24, 1.32, 1.41, 1.45, 1.49 for \<open>n = 1..10\<close>
  and 1.49 for every \<open>n > 10\<close>; the index is 0 exactly when \<open>n \<le> 2\<close>; and \<open>cr\<close> is 0
  when the index is 0 and \<open>ci / ri\<close> otherwise.
\<close>

theorem consistency_random_index:
  assumes "1 \<le> length A"
    and "ri = (if length A = 1 then 0 else if length A = 2 then 0
               else if length A = 3 then 58 / 100 else if length A = 4 then 90 / 100
               else if length A = 5 then 112 / 100 else if length A = 6 then 124 / 100
               else if length A = 7 then 132 / 100 else if length A = 8 then 141 / 100
               else if length A = 9 then 145 / 100 else if length A = 10 then 149 / 100
               else 149 / 100)"
  shows "(case RI (length A) of Some r \<Rightarrow> r | None \<Rightarrow> 149 / 100) = ri
       \<and> (ri = 0 \<longleftrightarrow> length A \<le> 2)
       \<and> snd (consistency A lam) =
           (if ri = 0 then Fin 0 else jdiv (fst (consistency A lam)) (Fin ri))"
proof -
  have 1: "(case RI (length A) of Some r \<Rightarrow> r | None \<Rightarrow> 149 / 100) = ri"
    unfolding assms(2) by (simp add: RI_cases)
  have 2: "ri = 0 \<longleftrightarrow> length A \<le> 2"
    unfolding assms(2) using assms(1) by auto
  have 3: "snd (consistency A lam) =
           (if ri = 0 then Fin 0 else jdiv (fst (consistency A lam)) (Fin ri))"
    unfolding 1 [symmetric] by (simp add: consistency_def Let_def)
  from 1 2 3 show ?thesis by blast
qed

theorem consistency_random_index_witness:
  "1 \<le> length (identityMatrix 3)
   \<and> (case RI (length (identityMatrix 3)) of Some r \<Rightarrow> r | None \<Rightarrow> 149 / 100) = 58 / 100
   \<and> consistency (identityMatrix 3) (Fin (31 / 10)) = (Fin (1 / 20), Fin (5 / 58))"
proof -
  have len: "length (identityMatrix 3) = 3" by (simp add: identityMatrix_def)
  have ci: "fst (consistency (identityMatrix 3) (Fin (31 / 10))) = Fin (1 / 20)"
    by (simp add: consistency_def Let_def len jsub_def)
  show ?thesis
    using consistency_random_index [of "identityMatrix 3" "58 / 100" "Fin (31 / 10)"]
    by (simp add: len ci prod_eq_iff)
qed

section \<open>The neutral matrix\<close>

lemma identityMatrix_Fin: "identityMatrix n = map (map Fin) (replicate n (replicate n 1))"
  by (simp add: identityMatrix_def map_replicate_const)

section \<open>Positive reciprocal matrices\<close>

lemma finite_list_is_map_Fin: "\<forall>x\<in>set xs. isFinite x \<Longrightarrow> map Fin (map unFin xs) = xs"
proof (induction xs)
  case Nil
  then show ?case by simp
next
  case (Cons x xs)
  then show ?case by (cases x) simp_all
qed

lemma finite_matrix_is_map_Fin:
  "\<forall>r\<in>set A. \<forall>x\<in>set r. isFinite x \<Longrightarrow> map (map Fin) (map (map unFin) A) = A"
proof (induction A)
  case Nil
  then show ?case by simp
next
  case (Cons r A)
  then have "map Fin (map unFin r) = r" "map (map Fin) (map (map unFin) A) = A"
    by (simp_all add: finite_list_is_map_Fin del: map_map)
  then show ?case by (simp del: map_map)
qed

lemma positive_finite_reals:
  assumes "positive_finite A"
  obtains M where "A = map (map Fin) M" "\<forall>r\<in>set M. \<forall>x\<in>set r. 0 < x"
proof
  let ?M = "map (map unFin) A"
  show "A = map (map Fin) ?M"
    using assms finite_matrix_is_map_Fin [of A] by (simp add: positive_finite_def del: map_map)
  show "\<forall>r\<in>set ?M. \<forall>x\<in>set r. 0 < x"
  proof (intro ballI)
    fix r x assume "r \<in> set ?M" "x \<in> set r"
    then obtain r' y where "r' \<in> set A" "y \<in> set r'" "x = unFin y" by auto
    moreover from this assms have "isFinite y \<and> jlt (Fin 0) y"
      by (simp add: positive_finite_def)
    ultimately show "0 < x" by (cases y) simp_all
  qed
qed

lemma two_le_sum_of_reciprocals:
  fixes x y :: real
  assumes "0 < x" "0 < y" "x * y = 1"
  shows "2 \<le> x + y"
proof -
  have "0 \<le> (x - y)\<^sup>2" by simp
  then have "4 * (x * y) \<le> (x + y)\<^sup>2"
    by (simp add: power2_eq_square algebra_simps)
  then have "2\<^sup>2 \<le> (x + y)\<^sup>2" using assms(3) by simp
  then show ?thesis
    by (rule power2_le_imp_le) (use assms in simp)
qed

lemma reciprocal_double_sum:
  fixes f :: "nat \<Rightarrow> nat \<Rightarrow> real"
  assumes pos: "\<And>i j. i < n \<Longrightarrow> j < n \<Longrightarrow> 0 < f i j"
    and rec: "\<And>i j. i < n \<Longrightarrow> j < n \<Longrightarrow> f i j * f j i = 1"
  shows "real n * real n \<le> (\<Sum>i<n. \<Sum>j<n. f i j)"
proof -
  let ?S = "\<Sum>i<n. \<Sum>j<n. f i j"
  have sw: "(\<Sum>i<n. \<Sum>j<n. f j i) = ?S" by (rule sum.swap)
  have "(\<Sum>i<n. \<Sum>j<n. (2::real)) \<le> (\<Sum>i<n. \<Sum>j<n. f i j + f j i)"
    by (intro sum_mono two_le_sum_of_reciprocals pos rec) simp_all
  also have "\<dots> = ?S + ?S"
    by (simp add: sum.distrib sw)
  finally show ?thesis by simp
qed

lemma sum_list_pos_nonempty:
  fixes xs :: "real list"
  shows "xs \<noteq> [] \<Longrightarrow> \<forall>x\<in>set xs. 0 < x \<Longrightarrow> 0 < sum_list xs"
  by (induction xs) (auto intro: add_pos_nonneg sum_list_nonneg less_imp_le)

text \<open>One pass of the loop on a positive matrix and a positive vector.\<close>

lemma pass_positive:
  fixes M :: "real list list" and v :: "real list"
  assumes n: "0 < length M" and rows: "\<forall>r\<in>set M. length r = length M"
    and pos: "\<forall>r\<in>set M. \<forall>x\<in>set r. 0 < x"
    and v: "length v = length M" "\<forall>x\<in>set v. 0 < x"
  defines "Aw \<equiv> map (\<lambda>r. \<Sum>j<length M. r ! j * v ! j) M"
  shows "matvec (map (map Fin) M) (map Fin v) = map Fin Aw"
    and "foldl jadd (Fin 0) (map Fin Aw) = Fin (sum_list Aw)"
    and "map (\<lambda>x. jdiv x (Fin (sum_list Aw))) (map Fin Aw) = map Fin (map (\<lambda>x. x / sum_list Aw) Aw)"
    and "length (map (\<lambda>x. x / sum_list Aw) Aw) = length M"
    and "\<forall>x\<in>set (map (\<lambda>x. x / sum_list Aw) Aw). 0 < x"
    and "sum_list (map (\<lambda>x. x / sum_list Aw) Aw) = 1"
    and "\<forall>x\<in>set Aw. 0 < x"
proof -
  show 1: "matvec (map (map Fin) M) (map Fin v) = map Fin Aw"
    unfolding Aw_def by (rule matvec_Fin) (use rows v in simp_all)
  show "foldl jadd (Fin 0) (map Fin Aw) = Fin (sum_list Aw)"
    by (simp add: foldl_jadd_Fin del: map_map)
  show Awpos: "\<forall>x\<in>set Aw. 0 < x"
  proof
    fix x assume "x \<in> set Aw"
    then obtain r where r: "r \<in> set M" "x = (\<Sum>j<length M. r ! j * v ! j)"
      by (auto simp add: Aw_def)
    have "0 < r ! j * v ! j" if "j < length M" for j
    proof -
      have "r ! j \<in> set r" "v ! j \<in> set v"
        using that r(1) rows v(1) by simp_all
      then show ?thesis using pos v(2) r(1) by (intro mult_pos_pos) auto
    qed
    then show "0 < x"
      unfolding r(2) using n by (intro sum_pos) auto
  qed
  have "Aw \<noteq> []" using n by (auto simp add: Aw_def)
  then have s: "0 < sum_list Aw" using Awpos by (rule sum_list_pos_nonempty)
  then show "map (\<lambda>x. jdiv x (Fin (sum_list Aw))) (map Fin Aw) = map Fin (map (\<lambda>x. x / sum_list Aw) Aw)"
    by simp
  show "length (map (\<lambda>x. x / sum_list Aw) Aw) = length M"
    by (simp add: Aw_def)
  show "\<forall>x\<in>set (map (\<lambda>x. x / sum_list Aw) Aw). 0 < x"
    using Awpos s by auto
  have "sum_list (map (\<lambda>x. x / sum_list Aw) Aw) = sum_list (map (\<lambda>x. x * (1 / sum_list Aw)) Aw)"
    by simp
  also have "\<dots> = sum_list Aw * (1 / sum_list Aw)"
    using sum_list_mult_const [of "\<lambda>x. x" "1 / sum_list Aw" Aw] by simp
  also have "\<dots> = 1" using s by simp
  finally show "sum_list (map (\<lambda>x. x / sum_list Aw) Aw) = 1" .
qed

lemma pi_loop_positive:
  fixes M :: "real list list"
  assumes n: "0 < length M" and rows: "\<forall>r\<in>set M. length r = length M"
    and pos: "\<forall>r\<in>set M. \<forall>x\<in>set r. 0 < x"
  shows "length v = length M \<Longrightarrow> \<forall>x\<in>set v. 0 < x \<Longrightarrow> sum_list v = 1 \<Longrightarrow> A = map (map Fin) M \<Longrightarrow>
         w = map Fin v \<Longrightarrow>
         \<exists>v'. fst (pi_loop A maxIter tol it w) = map Fin v' \<and> length v' = length M
               \<and> (\<forall>x\<in>set v'. 0 < x) \<and> sum_list v' = 1"
proof (induction A maxIter tol it w arbitrary: v rule: pi_loop.induct)
  case (1 A maxIter tol it w)
  show ?case
  proof (cases "it < maxIter")
    case False
    then show ?thesis using "1.prems" by (subst pi_loop.simps) auto
  next
    case True
    define Aw where "Aw = map (\<lambda>r. \<Sum>j<length M. r ! j * v ! j) M"
    define v' where "v' = map (\<lambda>x. x / sum_list Aw) Aw"
    note P = pass_positive [OF n rows pos "1.prems"(1) "1.prems"(2), folded Aw_def, folded v'_def]
    have Aw: "matvec A w = map Fin Aw" using P(1) "1.prems" by simp
    have s: "foldl jadd (Fin 0) (map Fin Aw) = Fin (sum_list Aw)" by (rule P(2))
    have wNew: "map (\<lambda>x. jdiv x (Fin (sum_list Aw))) (map Fin Aw) = map Fin v'" by (rule P(3))
    have unfold: "pi_loop A maxIter tol it w =
        (if jlt (maxdiff (length A) (map Fin v') w) tol then (map Fin v', Suc it)
         else pi_loop A maxIter tol (Suc it) (map Fin v'))"
      by (subst pi_loop.simps) (simp only: True if_True Let_def Aw s wNew)
    show ?thesis
    proof (cases "jlt (maxdiff (length A) (map Fin v') w) tol")
      case t: True
      show ?thesis unfolding unfold using t P(4,5,6) by auto
    next
      case f: False
      note IH = "1.IH" [OF True refl refl refl refl, unfolded Aw s wNew]
      have "\<exists>v''. fst (pi_loop A maxIter tol (Suc it) (map Fin v')) = map Fin v'' \<and> length v'' = length M
               \<and> (\<forall>x\<in>set v''. 0 < x) \<and> sum_list v'' = 1"
        by (rule IH [OF f P(4) P(5) P(6) "1.prems"(4) refl])
      then show ?thesis unfolding unfold using f by simp
    qed
  qed
qed

lemma nth_nth_pos:
  fixes M :: "real list list"
  assumes "\<forall>r\<in>set M. \<forall>x\<in>set r. 0 < x" "i < length M" "j < length (M ! i)"
  shows "0 < M ! i ! j"
proof -
  have "M ! i \<in> set M" using assms(2) by (rule nth_mem)
  moreover have "M ! i ! j \<in> set (M ! i)" using assms(3) by (rule nth_mem)
  ultimately show ?thesis using assms(1) by (simp only: Ball_def)
qed

lemma reals_reciprocal:
  assumes "reciprocal (map (map Fin) M)" "unit_diagonal (map (map Fin) M)"
    and rows: "\<forall>r\<in>set M. length r = length M"
    and pos: "\<forall>r\<in>set M. \<forall>x\<in>set r. 0 < x"
    and ij: "i < length M" "j < length M"
  shows "M ! i ! j * M ! j ! i = 1"
proof -
  have len: "length (M ! i) = length M" "length (M ! j) = length M"
    using rows ij by simp_all
  have "0 < M ! j ! i" using pos ij(2) by (rule nth_nth_pos) (simp add: len ij)
  then have nz: "M ! j ! i \<noteq> 0" by simp
  have ci: "cell (map (map Fin) M ! i) j = Fin (M ! i ! j)"
       "cell (map (map Fin) M ! j) i = Fin (M ! j ! i)"
       "cell (map (map Fin) M ! i) i = Fin (M ! i ! i)"
    using ij len by (simp_all add: cell_map_Fin)
  show ?thesis
  proof (cases "i = j")
    case True
    have "cell (map (map Fin) M ! i) i = Fin 1"
      using assms(2) [unfolded unit_diagonal_def length_map, rule_format, OF ij(1)] .
    then have "M ! i ! i = 1" unfolding ci by simp
    then show ?thesis using True by simp
  next
    case False
    have "cell (map (map Fin) M ! i) j = jdiv (Fin 1) (cell (map (map Fin) M ! j) i)"
      using assms(1) [unfolded reciprocal_def length_map, rule_format, OF ij False] .
    then have "Fin (M ! i ! j) = Fin (1 / M ! j ! i)"
      unfolding ci using nz by simp
    then have "M ! i ! j = 1 / M ! j ! i" by simp
    then have "M ! i ! j * M ! j ! i = 1 / M ! j ! i * M ! j ! i" by simp
    then show ?thesis using nz by simp
  qed
qed
lemma powerIteration_positive:
  fixes M :: "real list list"
  assumes n: "0 < length M" and rows: "\<forall>r\<in>set M. length r = length M"
    and pos: "\<forall>r\<in>set M. \<forall>x\<in>set r. 0 < x"
    and rec: "\<And>i j. i < length M \<Longrightarrow> j < length M \<Longrightarrow> M ! i ! j * M ! j ! i = 1"
  shows "\<exists>v l. powerIterationWeights (map (map Fin) M) maxIter tol = \<lparr>weights = map Fin v, lambdaMax = Fin l\<rparr>
           \<and> length v = length M \<and> (\<forall>x\<in>set v. 0 < x) \<and> sum_list v = 1 \<and> real (length M) \<le> l"
proof -
  let ?n = "length M"
  let ?A = "map (map Fin) M"
  let ?w0 = "replicate ?n (1 / real ?n)"
  have w0: "replicate (length ?A) (jdiv (Fin 1) (Fin (real (length ?A)))) = map Fin ?w0"
    using n by simp
  have "sum_list ?w0 = 1" using n by (simp add: sum_list_replicate)
  then obtain v where v: "fst (pi_loop ?A maxIter tol 0 (map Fin ?w0)) = map Fin v"
      "length v = ?n" "\<forall>x\<in>set v. 0 < x" "sum_list v = 1"
    using pi_loop_positive [OF n rows pos, of ?w0 ?A "map Fin ?w0" maxIter tol 0] by auto
  define Aw where "Aw = map (\<lambda>r. \<Sum>j<?n. r ! j * v ! j) M"
  note P = pass_positive [OF n rows pos v(2) v(3), folded Aw_def]
  have vi: "0 < v ! i" if "i < ?n" for i using v(2,3) that by (simp add: all_set_conv_all_nth)
  have Mij: "0 < M ! i ! j" if "i < ?n" "j < ?n" for i j
  proof -
    have "M ! i \<in> set M" "M ! i ! j \<in> set (M ! i)" using that rows by simp_all
    then show ?thesis using pos by blast
  qed
  have lenAw: "length Aw = ?n" by (simp add: Aw_def)
  have fold: "foldl (\<lambda>a (x, i). jadd a (jdiv x (cell (map Fin v) i))) (Fin 0)
         (zip (map Fin Aw) [0..<length (map Fin Aw)]) = Fin (\<Sum>i<length Aw. Aw ! i / v ! i)"
  proof (rule lam_fold_Fin)
    show "length Aw \<le> length v" using lenAw v(2) by simp
    show "\<forall>i<length Aw. v ! i \<noteq> 0"
    proof (intro allI impI)
      fix i assume "i < length Aw"
      then have "0 < v ! i" using vi lenAw by simp
      then show "v ! i \<noteq> 0" by simp
    qed
  qed
  define S where "S = (\<Sum>i<?n. Aw ! i / v ! i)"
  have "S = (\<Sum>i<?n. \<Sum>j<?n. M ! i ! j * v ! j / v ! i)"
    unfolding S_def by (rule sum.cong) (simp_all add: Aw_def sum_divide_distrib)
  moreover have "real ?n * real ?n \<le> (\<Sum>i<?n. \<Sum>j<?n. M ! i ! j * v ! j / v ! i)"
  proof (rule reciprocal_double_sum)
    fix i j assume ij: "i < ?n" "j < ?n"
    show "0 < M ! i ! j * v ! j / v ! i"
      using Mij [OF ij] vi [OF ij(1)] vi [OF ij(2)] by simp
    have "M ! i ! j * v ! j / v ! i * (M ! j ! i * v ! i / v ! j) = M ! i ! j * M ! j ! i"
      using vi [OF ij(1)] vi [OF ij(2)] by simp
    then show "M ! i ! j * v ! j / v ! i * (M ! j ! i * v ! i / v ! j) = 1"
      using rec [OF ij] by simp
  qed
  ultimately have S: "real ?n * real ?n \<le> S" by simp
  have l: "real ?n \<le> S / real ?n"
    using S n by (simp add: pos_le_divide_eq)
  have "powerIterationWeights ?A maxIter tol =
        \<lparr>weights = map Fin v, lambdaMax = jdiv (Fin S) (Fin (real ?n))\<rparr>"
    unfolding powerIterationWeights_def Let_def w0 v(1) P(1) fold S_def lenAw
    by (simp only: length_map)
  moreover have "jdiv (Fin S) (Fin (real ?n)) = Fin (S / real ?n)" using n by simp
  ultimately have e: "powerIterationWeights ?A maxIter tol =
        \<lparr>weights = map Fin v, lambdaMax = Fin (S / real ?n)\<rparr>" by simp
  show ?thesis
    by (rule exI [of _ v], rule exI [of _ "S / real ?n"]) (intro conjI e v(2) v(3) v(4) l)
qed

subsection \<open>Evaluation on concrete matrices\<close>

lemmas eval_defs = ahpSolve_def powerIterationWeights_def pi_loop.simps matvec_def rowdot_def
  maxdiff_def consistency_def cell_def jsub_def default_maxIter_def default_tol_def Let_def
  RI_cases split_beta

lemmas invariant_defs = is_order_def positive_finite_def reciprocal_def unit_diagonal_def
  cell_def less_Suc_eq

section \<open>The update of one judgment\<close>

lemma denotes_allocated:
  assumes "heap_ok h" "denotes h A M" "a \<in> set A"
  shows "a < nxt h"
proof -
  from assms(3) obtain p where p: "p < length A" "A ! p = a"
    by (auto simp add: in_set_conv_nth)
  then have "arr h a = Some (M ! p)"
    using assms(2) by (auto simp add: denotes_def)
  then show ?thesis using assms(1) unfolding heap_ok_def by (metis not_le option.distinct(1))
qed

lemma cloneMatrix_spec:
  "heap_ok h \<Longrightarrow> denotes h A M \<Longrightarrow>
   \<exists>h1 B. cloneMatrix h A = Inr (h1, B) \<and> heap_ok h1 \<and> nxt h \<le> nxt h1
        \<and> (\<forall>a<nxt h. arr h1 a = arr h a) \<and> denotes h1 B M \<and> distinct B
        \<and> (\<forall>b\<in>set B. nxt h \<le> b)"
proof (induction A arbitrary: h M)
  case Nil
  then show ?case by (simp add: denotes_def)
next
  case (Cons a as)
  from Cons.prems(2) obtain m ms where M: "M = m # ms"
    by (cases M) (simp_all add: denotes_def)
  have am: "arr h a = Some m"
    using Cons.prems(2) unfolding M denotes_def by fastforce
  define h' where "h' = h\<lparr>arr := (arr h)(nxt h \<mapsto> m), nxt := Suc (nxt h)\<rparr>"
  have al: "alloc h m = (h', nxt h)" by (simp add: alloc_def h'_def)
  have ok': "heap_ok h'"
    using Cons.prems(1) by (simp add: heap_ok_def h'_def)
  have below: "b < nxt h" if "b \<in> set as" for b
    using denotes_allocated [OF Cons.prems(1) Cons.prems(2), of b] that by simp
  have den': "denotes h' as ms"
    unfolding denotes_def
  proof (intro conjI allI impI)
    show "length as = length ms" using Cons.prems(2) by (simp add: denotes_def M)
    fix p assume p: "p < length ms"
    then have "as ! p \<in> set as" using \<open>length as = length ms\<close> by simp
    then have "as ! p \<noteq> nxt h" using below by fastforce
    moreover have "arr h (as ! p) = Some (ms ! p)"
      using Cons.prems(2) p unfolding denotes_def M by fastforce
    ultimately show "arr h' (as ! p) = Some (ms ! p)" by (simp add: h'_def)
  qed
  from Cons.IH [OF ok' den'] obtain h1 B where
    r: "cloneMatrix h' as = Inr (h1, B)" "heap_ok h1" "nxt h' \<le> nxt h1"
      "\<forall>a<nxt h'. arr h1 a = arr h' a" "denotes h1 B ms" "distinct B" "\<forall>b\<in>set B. nxt h' \<le> b"
    by blast
  have nh': "nxt h' = Suc (nxt h)" by (simp add: h'_def)
  have c: "cloneMatrix h (a # as) = Inr (h1, nxt h # B)"
    by (simp add: am al r(1))
  have frame: "\<forall>a<nxt h. arr h1 a = arr h a"
    using r(4) by (simp add: h'_def)
  have new: "arr h1 (nxt h) = Some m"
    using r(4) by (simp add: h'_def)
  have den: "denotes h1 (nxt h # B) M"
    unfolding denotes_def M
  proof (intro conjI allI impI)
    show "length (nxt h # B) = length (m # ms)" using r(5) by (simp add: denotes_def)
    fix p assume "p < length (m # ms)"
    then show "arr h1 ((nxt h # B) ! p) = Some ((m # ms) ! p)"
      using new r(5) by (cases p) (simp_all add: denotes_def)
  qed
  have dist: "distinct (nxt h # B)" using r(6,7) nh' by fastforce
  have lower: "\<forall>b\<in>set (nxt h # B). nxt h \<le> b" using r(7) nh' by fastforce
  show ?case
    using c r(2) r(3) frame den dist lower nh'
    by (intro exI [of _ h1] exI [of _ "nxt h # B"]) simp
qed

lemma set_cell_spec:
  assumes "denotes h B M" "distinct B" "i < length M"
  shows "\<exists>h'. set_cell h B i j v = Inr h' \<and> denotes h' B (M[i := arr_set (M ! i) j v])
           \<and> (\<forall>a. a \<notin> set B \<longrightarrow> arr h' a = arr h a)"
proof -
  have len: "length B = length M" and ai: "arr h (B ! i) = Some (M ! i)"
    using assms(1,3) by (simp_all add: denotes_def)
  define h' where "h' = h\<lparr>arr := (arr h)(B ! i \<mapsto> arr_set (M ! i) j v)\<rparr>"
  have s: "set_cell h B i j v = Inr h'"
    using assms(3) len ai by (simp add: set_cell_def h'_def)
  have d: "denotes h' B (M[i := arr_set (M ! i) j v])"
    unfolding denotes_def
  proof (intro conjI allI impI)
    show "length B = length (M[i := arr_set (M ! i) j v])" using len by simp
    fix p assume p: "p < length (M[i := arr_set (M ! i) j v])"
    show "arr h' (B ! p) = Some (M[i := arr_set (M ! i) j v] ! p)"
    proof (cases "p = i")
      case True
      then show ?thesis using assms(3) by (simp add: h'_def)
    next
      case False
      then have "B ! p \<noteq> B ! i"
        using assms(2,3) p len by (simp add: nth_eq_iff_index_eq)
      moreover have "arr h (B ! p) = Some (M ! p)"
        using assms(1) p by (simp add: denotes_def)
      ultimately show ?thesis using False by (simp add: h'_def)
    qed
  qed
  have f: "\<forall>a. a \<notin> set B \<longrightarrow> arr h' a = arr h a"
    using assms(3) len by (auto simp add: h'_def)
  from s d f show ?thesis by (intro exI [of _ h']) simp
qed

lemma set_diag_spec:
  "denotes h B M \<Longrightarrow> distinct B \<Longrightarrow> \<forall>k\<in>set ks. k < length M \<and> k < length (M ! k) \<Longrightarrow>
   \<exists>h' M'. set_diag h B ks = Inr h' \<and> denotes h' B M' \<and> length M' = length M
     \<and> (\<forall>p<length M. length (M' ! p) = length (M ! p)
           \<and> (\<forall>q<length (M ! p). M' ! p ! q = (if p = q \<and> p \<in> set ks then Fin 1 else M ! p ! q)))
     \<and> (\<forall>a. a \<notin> set B \<longrightarrow> arr h' a = arr h a)"
proof (induction ks arbitrary: h M)
  case Nil
  then show ?case by (intro exI [of _ h] exI [of _ M]) simp
next
  case (Cons k ks)
  have k: "k < length M" "k < length (M ! k)" using Cons.prems(3) by simp_all
  define M1 where "M1 = M[k := (M ! k)[k := Fin 1]]"
  have as: "arr_set (M ! k) k (Fin 1) = (M ! k)[k := Fin 1]"
    using k(2) by (simp add: arr_set_def)
  from set_cell_spec [OF Cons.prems(1) Cons.prems(2) k(1), of k "Fin 1"]
  obtain h1 where h1: "set_cell h B k k (Fin 1) = Inr h1" "denotes h1 B M1"
      "\<forall>a. a \<notin> set B \<longrightarrow> arr h1 a = arr h a"
    unfolding as M1_def by blast
  have len1: "length M1 = length M" by (simp add: M1_def)
  have row1: "length (M1 ! p) = length (M ! p)" if "p < length M" for p
    using that by (cases "p = k") (simp_all add: M1_def)
  have cell1: "M1 ! p ! q = (if p = k \<and> q = k then Fin 1 else M ! p ! q)"
    if "p < length M" "q < length (M ! p)" for p q
    using that by (cases "p = k"; cases "q = k") (simp_all add: M1_def)
  have pre: "\<forall>k'\<in>set ks. k' < length M1 \<and> k' < length (M1 ! k')"
    using Cons.prems(3) len1 row1 by simp
  from Cons.IH [OF h1(2) Cons.prems(2) pre]
  obtain h' M' where r: "set_diag h1 B ks = Inr h'" "denotes h' B M'" "length M' = length M1"
    "\<forall>p<length M1. length (M' ! p) = length (M1 ! p)
        \<and> (\<forall>q<length (M1 ! p). M' ! p ! q = (if p = q \<and> p \<in> set ks then Fin 1 else M1 ! p ! q))"
    "\<forall>a. a \<notin> set B \<longrightarrow> arr h' a = arr h1 a"
    by blast
  have s: "set_diag h B (k # ks) = Inr h'" by (simp add: h1(1) r(1))
  have cells: "\<forall>p<length M. length (M' ! p) = length (M ! p)
           \<and> (\<forall>q<length (M ! p). M' ! p ! q = (if p = q \<and> p \<in> set (k # ks) then Fin 1 else M ! p ! q))"
  proof (intro allI impI conjI)
    fix p assume p: "p < length M"
    show "length (M' ! p) = length (M ! p)" using r(4) p len1 row1 by simp
    fix q assume q: "q < length (M ! p)"
    have "M' ! p ! q = (if p = q \<and> p \<in> set ks then Fin 1 else M1 ! p ! q)"
      using r(4) p q len1 row1 by simp
    then show "M' ! p ! q = (if p = q \<and> p \<in> set (k # ks) then Fin 1 else M ! p ! q)"
      using cell1 [OF p q] by auto
  qed
  have frame: "\<forall>a. a \<notin> set B \<longrightarrow> arr h' a = arr h a" using r(5) h1(3) by simp
  show ?case
    using s r(2) r(3) len1 cells frame
    by (intro exI [of _ h'] exI [of _ M']) simp
qed

lemma setPairwise_spec:
  assumes ok: "heap_ok h" and den: "denotes h A M" and ord: "is_order n M"
    and ij: "i < n" "j < n" "i \<noteq> j"
  shows "\<exists>h' B M'. setPairwise h A i j v = Inr (h', B) \<and> denotes h' B M' \<and> is_order n M'
      \<and> (\<forall>p<n. \<forall>q<n. M' ! p ! q =
            (if p = q then Fin 1 else if p = i \<and> q = j then v
             else if p = j \<and> q = i then jdiv (Fin 1) v else M ! p ! q))
      \<and> (\<forall>a<nxt h. arr h' a = arr h a)"
proof -
  have len: "length M = n" and rows: "\<And>p. p < n \<Longrightarrow> length (M ! p) = n"
    using ord by (simp_all add: is_order_def)
  from cloneMatrix_spec [OF ok den] obtain h1 B where
    c: "cloneMatrix h A = Inr (h1, B)" "\<forall>a<nxt h. arr h1 a = arr h a" "denotes h1 B M"
       "distinct B" "\<forall>b\<in>set B. nxt h \<le> b"
    by blast
  have lenB: "length B = n" using c(3) len by (simp add: denotes_def)
  define M1 where "M1 = M[i := (M ! i)[j := v]]"
  define M2 where "M2 = M1[j := (M1 ! j)[i := jdiv (Fin 1) v]]"
  have a1: "arr_set (M ! i) j v = (M ! i)[j := v]"
    using rows ij by (simp add: arr_set_def)
  have len1: "length M1 = n" by (simp add: M1_def len)
  have rows1: "length (M1 ! p) = n" if "p < n" for p
    using that rows len by (cases "p = i") (simp_all add: M1_def)
  have a2: "arr_set (M1 ! j) i (jdiv (Fin 1) v) = (M1 ! j)[i := jdiv (Fin 1) v]"
    using rows1 ij by (simp add: arr_set_def)
  have len2: "length M2 = n" by (simp add: M2_def len1)
  have rows2: "length (M2 ! p) = n" if "p < n" for p
    using that rows1 len1 by (cases "p = j") (simp_all add: M2_def)
  have cell2: "M2 ! p ! q = (if p = i \<and> q = j then v
             else if p = j \<and> q = i then jdiv (Fin 1) v else M ! p ! q)"
    if "p < n" "q < n" for p q
    using that ij len rows
    by (cases "p = i"; cases "p = j"; cases "q = i"; cases "q = j") (simp_all add: M2_def M1_def)
  from set_cell_spec [OF c(3) c(4), of i j v] ij(1) len
  obtain h2 where h2: "set_cell h1 B i j v = Inr h2" "denotes h2 B M1"
      "\<forall>a. a \<notin> set B \<longrightarrow> arr h2 a = arr h1 a"
    unfolding a1 M1_def by blast
  from set_cell_spec [OF h2(2) c(4), of j i "jdiv (Fin 1) v"] ij(2) len1
  obtain h3 where h3: "set_cell h2 B j i (jdiv (Fin 1) v) = Inr h3" "denotes h3 B M2"
      "\<forall>a. a \<notin> set B \<longrightarrow> arr h3 a = arr h2 a"
    unfolding a2 M2_def by blast
  have pre: "\<forall>k\<in>set [0..<length B]. k < length M2 \<and> k < length (M2 ! k)"
    using lenB len2 rows2 by simp
  from set_diag_spec [OF h3(2) c(4) pre]
  obtain h4 M' where h4: "set_diag h3 B [0..<length B] = Inr h4" "denotes h4 B M'"
    "length M' = length M2"
    "\<forall>p<length M2. length (M' ! p) = length (M2 ! p)
        \<and> (\<forall>q<length (M2 ! p). M' ! p ! q = (if p = q \<and> p \<in> set [0..<length B] then Fin 1 else M2 ! p ! q))"
    "\<forall>a. a \<notin> set B \<longrightarrow> arr h4 a = arr h3 a"
    by blast
  have run: "setPairwise h A i j v = Inr (h4, B)"
    by (simp add: setPairwise_def c(1) h2(1) h3(1) h4(1))
  have ord': "is_order n M'"
    unfolding is_order_def
  proof (intro conjI ballI)
    show "length M' = n" using h4(3) len2 by simp
    fix r assume "r \<in> set M'"
    then obtain p where "p < length M'" "M' ! p = r" by (auto simp add: in_set_conv_nth)
    then show "length r = n" using h4(3,4) len2 rows2 by auto
  qed
  have cells: "\<forall>p<n. \<forall>q<n. M' ! p ! q =
            (if p = q then Fin 1 else if p = i \<and> q = j then v
             else if p = j \<and> q = i then jdiv (Fin 1) v else M ! p ! q)"
  proof (intro allI impI)
    fix p q assume pq: "p < n" "q < n"
    have "M' ! p ! q = (if p = q \<and> p \<in> set [0..<length B] then Fin 1 else M2 ! p ! q)"
      using h4(4) pq len2 rows2 by simp
    then show "M' ! p ! q = (if p = q then Fin 1 else if p = i \<and> q = j then v
             else if p = j \<and> q = i then jdiv (Fin 1) v else M ! p ! q)"
      using cell2 [OF pq] pq lenB by simp
  qed
  have frame: "\<forall>a<nxt h. arr h4 a = arr h a"
  proof (intro allI impI)
    fix a assume a: "a < nxt h"
    then have "a \<notin> set B" using c(5) by fastforce
    then show "arr h4 a = arr h a" using h4(5) h3(3) h2(3) c(2) a by simp
  qed
  show ?thesis
    using run h4(2) ord' cells frame
    by (intro exI [of _ h4] exI [of _ B] exI [of _ M']) simp
qed

text \<open>
  C2. For a matrix satisfying the invariants (unit diagonal, reciprocity, strictly positive
  finite entries), indices \<open>i \<noteq> j\<close> in bounds and \<open>v > 0\<close>, \<^verbatim>\<open>setPairwise\<close> returns a matrix
  \<open>B\<close> with \<open>B[i][j] = v\<close>, \<open>B[j][i] = 1/v\<close>, a unit diagonal and every other cell equal to
  the one of \<open>A\<close>; every array that existed before the call, and so the matrix \<open>A\<close>, is
  unchanged.
\<close>

theorem setPairwise_local_and_pure:
  assumes "heap_ok h" "denotes h A M"
    and "is_order n M" "unit_diagonal M" "reciprocal M" "positive_finite M"
    and "i < n" "j < n" "i \<noteq> j" "jlt (Fin 0) v"
  shows "\<exists>h' B M'. setPairwise h A i j v = Inr (h', B) \<and> denotes h' B M' \<and> is_order n M'
      \<and> M' ! i ! j = v \<and> M' ! j ! i = jdiv (Fin 1) v \<and> (\<forall>k<n. M' ! k ! k = Fin 1)
      \<and> (\<forall>p<n. \<forall>q<n. \<not> (p = i \<and> q = j) \<and> \<not> (p = j \<and> q = i) \<longrightarrow> M' ! p ! q = M ! p ! q)
      \<and> denotes h' A M \<and> (\<forall>a<nxt h. arr h' a = arr h a)"
proof -
  from setPairwise_spec [OF assms(1) assms(2) assms(3) assms(7) assms(8) assms(9), of v]
  obtain h' B M' where r: "setPairwise h A i j v = Inr (h', B)" "denotes h' B M'" "is_order n M'"
    and cells: "\<forall>p<n. \<forall>q<n. M' ! p ! q =
            (if p = q then Fin 1 else if p = i \<and> q = j then v
             else if p = j \<and> q = i then jdiv (Fin 1) v else M ! p ! q)"
    and frame: "\<forall>a<nxt h. arr h' a = arr h a"
    by blast
  have len: "length M = n" and rows: "\<And>p. p < n \<Longrightarrow> length (M ! p) = n"
    using assms(3) by (simp_all add: is_order_def)
  have diag: "M ! p ! p = Fin 1" if "p < n" for p
    using assms(4) [unfolded unit_diagonal_def, rule_format, of p] that len rows
    by (simp add: cell_def)
  have 1: "M' ! i ! j = v" using cells assms(7,8,9) by simp
  have 2: "M' ! j ! i = jdiv (Fin 1) v" using cells assms(7,8,9) by simp
  have 3: "\<forall>k<n. M' ! k ! k = Fin 1" using cells by simp
  have 4: "\<forall>p<n. \<forall>q<n. \<not> (p = i \<and> q = j) \<and> \<not> (p = j \<and> q = i) \<longrightarrow> M' ! p ! q = M ! p ! q"
    using cells diag by auto
  have 5: "denotes h' A M"
    unfolding denotes_def
  proof (intro conjI allI impI)
    show "length A = length M" using assms(2) by (simp add: denotes_def)
    fix p assume p: "p < length M"
    then have "A ! p \<in> set A" using \<open>length A = length M\<close> by simp
    then have "A ! p < nxt h" by (rule denotes_allocated [OF assms(1) assms(2)])
    then have "arr h' (A ! p) = arr h (A ! p)" using frame by simp
    then show "arr h' (A ! p) = Some (M ! p)" using assms(2) p by (simp add: denotes_def)
  qed
  show ?thesis
    using r 1 2 3 4 5 frame
    by (intro exI [of _ h'] exI [of _ B] exI [of _ M']) simp
qed

theorem setPairwise_local_and_pure_witness:
  "heap_ok \<lparr>arr = [0 \<mapsto> [Fin 1, Fin 1], 1 \<mapsto> [Fin 1, Fin 1]], nxt = 2\<rparr>
   \<and> denotes \<lparr>arr = [0 \<mapsto> [Fin 1, Fin 1], 1 \<mapsto> [Fin 1, Fin 1]], nxt = 2\<rparr> [0, 1]
         [[Fin 1, Fin 1], [Fin 1, Fin 1]]
   \<and> is_order 2 [[Fin 1, Fin 1], [Fin 1, Fin 1]]
   \<and> unit_diagonal [[Fin 1, Fin 1], [Fin 1, Fin 1]]
   \<and> reciprocal [[Fin 1, Fin 1], [Fin 1, Fin 1]]
   \<and> positive_finite [[Fin 1, Fin 1], [Fin 1, Fin 1]]
   \<and> jlt (Fin 0) (Fin 3)
   \<and> (\<exists>h' B M'.
         setPairwise \<lparr>arr = [0 \<mapsto> [Fin 1, Fin 1], 1 \<mapsto> [Fin 1, Fin 1]], nxt = 2\<rparr> [0, 1] 0 1 (Fin 3)
           = Inr (h', B)
         \<and> denotes h' B M' \<and> M' ! 0 ! 1 = Fin 3 \<and> M' ! 1 ! 0 = Fin (1 / 3)
         \<and> M' ! 0 ! 0 = Fin 1 \<and> M' ! 1 ! 1 = Fin 1
         \<and> denotes h' [0, 1] [[Fin 1, Fin 1], [Fin 1, Fin 1]])
   \<and> (case setPairwise \<lparr>arr = [0 \<mapsto> [Fin 1, Fin 1], 1 \<mapsto> [Fin 1, Fin 1]], nxt = 2\<rparr> [0, 1] 0 1 (Fin 3) of
         Inl e \<Rightarrow> False
       | Inr (h', B) \<Rightarrow> B = [2, 3] \<and> arr h' 2 = Some [Fin 1, Fin 3]
                         \<and> arr h' 3 = Some [Fin (1 / 3), Fin 1]
                         \<and> arr h' 0 = Some [Fin 1, Fin 1] \<and> arr h' 1 = Some [Fin 1, Fin 1])"
proof -
  let ?h = "\<lparr>arr = [0 \<mapsto> [Fin 1, Fin 1], 1 \<mapsto> [Fin 1, Fin 1]], nxt = 2\<rparr>"
  let ?M = "[[Fin 1, Fin 1], [Fin 1, Fin 1]]"
  have h: "heap_ok ?h" "denotes ?h [0, 1] ?M"
    by (simp_all add: heap_ok_def denotes_def less_Suc_eq)
  have m: "is_order 2 ?M" "unit_diagonal ?M" "reciprocal ?M" "positive_finite ?M"
    by (simp_all add: invariant_defs)
  have v: "(0::nat) < 2" "(1::nat) < 2" "(0::nat) \<noteq> 1" "jlt (Fin 0) (Fin 3)"
    by simp_all
  have run: "(case setPairwise ?h [0, 1] 0 1 (Fin 3) of
         Inl e \<Rightarrow> False
       | Inr (h', B) \<Rightarrow> B = [2, 3] \<and> arr h' 2 = Some [Fin 1, Fin 3]
                         \<and> arr h' 3 = Some [Fin (1 / 3), Fin 1]
                         \<and> arr h' 0 = Some [Fin 1, Fin 1] \<and> arr h' 1 = Some [Fin 1, Fin 1])"
    by (simp add: setPairwise_def alloc_def set_cell_def arr_set_def)
  from setPairwise_local_and_pure [OF h m v]
  obtain h' B M' where r: "setPairwise ?h [0, 1] 0 1 (Fin 3) = Inr (h', B)"
    "denotes h' B M'" "M' ! 0 ! 1 = Fin 3" "M' ! 1 ! 0 = jdiv (Fin 1) (Fin 3)"
    "\<forall>k<2. M' ! k ! k = Fin 1" "denotes h' [0, 1] ?M"
    by blast
  have "M' ! 0 ! 0 = Fin 1" "M' ! 1 ! 1 = Fin 1" "M' ! 1 ! 0 = Fin (1 / 3)"
    using r(4,5) by simp_all
  with r(1,2,3,6) have "\<exists>h' B M'. setPairwise ?h [0, 1] 0 1 (Fin 3) = Inr (h', B)
         \<and> denotes h' B M' \<and> M' ! 0 ! 1 = Fin 3 \<and> M' ! 1 ! 0 = Fin (1 / 3)
         \<and> M' ! 0 ! 0 = Fin 1 \<and> M' ! 1 ! 1 = Fin 1 \<and> denotes h' [0, 1] ?M"
    by (intro exI [of _ h'] exI [of _ B] exI [of _ M']) simp
  with h m v(4) run show ?thesis by (simp only: simp_thms)
qed

section \<open>The diagnostics\<close>
















subsection \<open>The sort is a stable sort by descending score\<close>

lemma mset_insert_cmp: "mset (insert_cmp c x ys) = add_mset x (mset ys)"
  by (induction ys) simp_all

lemma mset_js_sort: "mset (js_sort c xs) = mset xs"
  unfolding js_sort_def by (induction xs) (simp_all add: mset_insert_cmp)

lemma set_insert_cmp: "set (insert_cmp c x ys) = insert x (set ys)"
  by (induction ys) auto

lemma set_js_sort: "set (js_sort c xs) = set xs"
  unfolding js_sort_def by (induction xs) (simp_all add: set_insert_cmp)

lemma cmp_desc_Fin:
  "score x = Fin a \<Longrightarrow> score y = Fin b \<Longrightarrow> jlt (Fin 0) (cmp_desc x y) \<longleftrightarrow> a < b"
  by (simp add: cmp_desc_def jsub_def)

lemma sorted_insert_cmp:
  fixes x :: "'a scored_scheme"
  assumes "\<exists>s. score x = Fin s" "\<forall>y\<in>set ys. \<exists>s. score y = Fin s"
    and "sorted_wrt (\<lambda>x y. jle (score y) (score x)) ys"
  shows "sorted_wrt (\<lambda>x y. jle (score y) (score x)) (insert_cmp cmp_desc x ys)"
  using assms(2,3)
proof (induction ys)
  case Nil
  then show ?case by simp
next
  case (Cons y ys)
  from assms(1) obtain a where a: "score x = Fin a" by blast
  from Cons.prems(1) obtain b where b: "score y = Fin b" by auto
  have IH: "sorted_wrt (\<lambda>x y. jle (score y) (score x)) (insert_cmp cmp_desc x ys)"
    using Cons by simp
  have below: "jle (score z) (score y)" if "z \<in> set ys" for z
    using Cons.prems(2) that by simp
  show ?case
  proof (cases "a < b")
    case True
    have "jle (score x) (score y)" using True a b by (simp add: jle_def)
    then show ?thesis
      using True IH below by (simp add: cmp_desc_Fin [OF a b] set_insert_cmp)
  next
    case False
    have xy: "jle (score y) (score x)" using False a b by (auto simp add: jle_def)
    have "jle (score z) (score x)" if "z \<in> set ys" for z
    proof -
      from Cons.prems(1) that obtain c where c: "score z = Fin c" by auto
      have "c \<le> b" using below [OF that] b c by (auto simp add: jle_def)
      then show ?thesis using False a c by (auto simp add: jle_def)
    qed
    then show ?thesis
      using False xy Cons.prems(2) by (simp add: cmp_desc_Fin [OF a b])
  qed
qed

lemma sorted_js_sort:
  fixes xs :: "'a scored_scheme list"
  assumes "\<forall>x\<in>set xs. \<exists>s. score x = Fin s"
  shows "sorted_wrt (\<lambda>x y. jle (score y) (score x)) (js_sort cmp_desc xs)"
  using assms
proof (induction xs)
  case Nil
  then show ?case by (simp add: js_sort_def)
next
  case (Cons x xs)
  have "sorted_wrt (\<lambda>x y. jle (score y) (score x)) (insert_cmp cmp_desc x (js_sort cmp_desc xs))"
    by (rule sorted_insert_cmp) (use Cons in \<open>simp_all add: set_js_sort\<close>)
  then show ?case by (simp add: js_sort_def)
qed

lemma filter_insert_cmp:
  fixes x :: "'a scored_scheme"
  assumes "\<exists>s. score x = Fin s" "\<forall>y\<in>set ys. \<exists>s. score y = Fin s"
  shows "filter (\<lambda>e. score e = t) (insert_cmp cmp_desc x ys) = filter (\<lambda>e. score e = t) (x # ys)"
  using assms(2)
proof (induction ys)
  case Nil
  then show ?case by simp
next
  case (Cons y ys)
  from assms(1) obtain a where a: "score x = Fin a" by blast
  from Cons.prems obtain b where b: "score y = Fin b" by auto
  have IH: "filter (\<lambda>e. score e = t) (insert_cmp cmp_desc x ys) = filter (\<lambda>e. score e = t) (x # ys)"
    using Cons by simp
  show ?case
  proof (cases "a < b")
    case True
    then have "\<not> (score x = t \<and> score y = t)" using a b by auto
    then show ?thesis using True IH by (auto simp add: cmp_desc_Fin [OF a b])
  next
    case False
    then show ?thesis by (simp add: cmp_desc_Fin [OF a b])
  qed
qed

lemma stable_js_sort:
  fixes xs :: "'a scored_scheme list"
  assumes "\<forall>x\<in>set xs. \<exists>s. score x = Fin s"
  shows "filter (\<lambda>e. score e = t) (js_sort cmp_desc xs) = filter (\<lambda>e. score e = t) xs"
  using assms
proof (induction xs)
  case Nil
  then show ?case by (simp add: js_sort_def)
next
  case (Cons x xs)
  have "filter (\<lambda>e. score e = t) (insert_cmp cmp_desc x (js_sort cmp_desc xs))
        = filter (\<lambda>e. score e = t) (x # js_sort cmp_desc xs)"
    by (rule filter_insert_cmp) (use Cons.prems in \<open>simp_all add: set_js_sort\<close>)
  then show ?case using Cons by (simp add: js_sort_def)
qed

subsection \<open>The recorded entries\<close>

text \<open>
  C10. For a label list of length \<open>n \<le> 2\<close>, a matching matrix and any \<open>topK\<close>,
  \<^verbatim>\<open>inconsistencyHints\<close> returns the empty list.
\<close>

theorem inconsistencyHints_small_order:
  assumes "length labels \<le> 2" "is_order (length labels) A"
  shows "inconsistencyHints labels A topK = Inr []"
proof -
  have len: "length A = length labels" using assms(2) by (simp add: is_order_def)
  consider "length labels = 0" | "length labels = 1" | "length labels = 2"
    using assms(1) by linarith
  then have "recorded labels A = Inr []"
  proof cases
    case 1
    then show ?thesis by (simp add: recorded_def pairs_def)
  next
    case 2
    then show ?thesis by (simp add: recorded_def pairs_def)
  next
    case 3
    have "[0..<2] = [0, Suc 0]" by (simp add: upt_rec)
    then have "scan_k A (A ! 0) 0 (Suc 0) d [0..<2] (Fin 0, - 1) = Inr (Fin 0, - 1)" for d
      by simp
    then have "pair_issue labels A 2 0 (Suc 0) = Inr None"
      using len 3 by (simp add: pair_issue_def row_at_def Let_def)
    moreover have "pairs 2 = [(0, Suc 0)]"
      by (simp add: pairs_def eval_nat_numeral upt_rec)
    ultimately show ?thesis using 3 by (simp add: recorded_def)
  qed
  then show ?thesis
    by (simp add: inconsistencyHints_def js_sort_def slice0_def)
qed

theorem inconsistencyHints_small_order_witness:
  "length [''a'', ''b''] \<le> 2
   \<and> is_order (length [''a'', ''b'']) [[Fin 1, Fin 9], [Fin (1 / 9), Fin 1]]
   \<and> inconsistencyHints [''a'', ''b''] [[Fin 1, Fin 9], [Fin (1 / 9), Fin 1]] 3 = Inr []"
proof -
  have h: "length [''a'', ''b''] \<le> 2"
    "is_order (length [''a'', ''b'']) [[Fin 1, Fin 9], [Fin (1 / 9), Fin 1]]"
    by (simp_all add: is_order_def)
  show ?thesis
    using h inconsistencyHints_small_order [OF h, of 3] by (simp only: simp_thms)
qed






section \<open>The aggregator\<close>

lemma score_sum_Fin:
  "\<forall>j\<in>set js. j < length wAs \<and> j < length wC \<and> i < length (wAs ! j) \<Longrightarrow>
   score_sum (map Fin wC) (map (map Fin) wAs) i js (Fin s)
   = Inr (Fin (s + (\<Sum>j\<leftarrow>js. wC ! j * wAs ! j ! i)))"
proof (induction js arbitrary: s)
  case Nil
  then show ?case by simp
next
  case (Cons j js)
  then show ?case by (simp add: cell_map_Fin add.assoc)
qed

lemma scores_from_Fin:
  assumes "length wC = n" "length wAs = n" "\<forall>wA\<in>set wAs. length wA = m"
  shows "\<forall>i\<in>set is. i < m \<Longrightarrow>
     scores_from (map Fin wC) (map (map Fin) wAs) n is
     = Inr (map Fin (map (\<lambda>i. \<Sum>j<n. wC ! j * wAs ! j ! i) is))"
proof (induction "is")
  case Nil
  then show ?case by simp
next
  case (Cons i "is")
  have i: "i < m" using Cons.prems by simp
  have "\<forall>j\<in>set [0..<n]. j < length wAs \<and> j < length wC \<and> i < length (wAs ! j)"
    using assms i by simp
  then have "score_sum (map Fin wC) (map (map Fin) wAs) i [0..<n] (Fin 0)
        = Inr (Fin (0 + (\<Sum>j\<leftarrow>[0..<n]. wC ! j * wAs ! j ! i)))"
    by (rule score_sum_Fin)
  also have "(\<Sum>j\<leftarrow>[0..<n]. wC ! j * wAs ! j ! i) = (\<Sum>j<n. wC ! j * wAs ! j ! i)"
    by (simp add: interv_sum_list_conv_sum_set_nat atLeast0LessThan)
  finally have s: "score_sum (map Fin wC) (map (map Fin) wAs) i [0..<n] (Fin 0)
        = Inr (Fin (\<Sum>j<n. wC ! j * wAs ! j ! i))" by simp
  show ?case using Cons s by simp
qed

lemma sum_list_nth_lessThan:
  fixes xs :: "real list"
  shows "sum_list xs = (\<Sum>i<length xs. xs ! i)"
  by (simp add: sum_list_sum_nth atLeast0LessThan)

text \<open>
  C6. For criteria weights \<open>wC\<close> of length \<open>n\<close> summing to 1 and \<open>n\<close> alternative weight
  vectors of length \<open>m\<close>, each summing to 1, the scoring loops of \<^verbatim>\<open>computeResults\<close>
  return the \<open>m\<close> scores \<open>score[i] = \<Sum>j. wC[j] * wA_j[i]\<close>, and the scores sum to 1
  (exactly, the numbers being exact).
\<close>

theorem aggregate_scores:
  assumes "length wC = n" "sum_list wC = 1"
    and "length wAs = n" "\<forall>wA\<in>set wAs. length wA = m \<and> sum_list wA = 1"
  shows "\<exists>s. scores_from (map Fin wC) (map (map Fin) wAs) n [0..<m] = Inr (map Fin s)
           \<and> length s = m \<and> (\<forall>i<m. s ! i = (\<Sum>j<n. wC ! j * wAs ! j ! i))
           \<and> sum_list s = 1"
proof -
  let ?S = "\<lambda>i. \<Sum>j<n. wC ! j * wAs ! j ! i"
  let ?s = "map ?S [0..<m]"
  have lens: "\<forall>wA\<in>set wAs. length wA = m" using assms(4) by simp
  have run: "scores_from (map Fin wC) (map (map Fin) wAs) n [0..<m] = Inr (map Fin ?s)"
    by (rule scores_from_Fin [OF assms(1) assms(3) lens]) simp
  have row: "(\<Sum>i<m. wAs ! j ! i) = 1" if "j < n" for j
  proof -
    have "wAs ! j \<in> set wAs" using that assms(3) by simp
    then have "length (wAs ! j) = m" "sum_list (wAs ! j) = 1" using assms(4) by simp_all
    then show ?thesis using sum_list_nth_lessThan [of "wAs ! j"] by simp
  qed
  have "sum_list ?s = (\<Sum>i<m. ?S i)"
    by (simp add: interv_sum_list_conv_sum_set_nat atLeast0LessThan)
  also have "\<dots> = (\<Sum>j<n. \<Sum>i<m. wC ! j * wAs ! j ! i)" by (rule sum.swap)
  also have "\<dots> = (\<Sum>j<n. wC ! j * (\<Sum>i<m. wAs ! j ! i))"
    by (simp add: sum_distrib_left)
  also have "\<dots> = (\<Sum>j<n. wC ! j)" using row by simp
  also have "\<dots> = sum_list wC" using sum_list_nth_lessThan [of wC] assms(1) by simp
  finally have total: "sum_list ?s = 1" using assms(2) by simp
  show ?thesis
    using run total by (intro exI [of _ ?s]) simp
qed

theorem aggregate_scores_witness:
  "length [1 / 2, 1 / 2 :: real] = 2 \<and> sum_list [1 / 2, 1 / 2 :: real] = 1
   \<and> length [[1 / 4, 3 / 4], [1 / 2, 1 / 2 :: real]] = 2
   \<and> length [1 / 4, 3 / 4 :: real] = 2 \<and> sum_list [1 / 4, 3 / 4 :: real] = 1
   \<and> (\<exists>s. scores_from [Fin (1 / 2), Fin (1 / 2)]
              [[Fin (1 / 4), Fin (3 / 4)], [Fin (1 / 2), Fin (1 / 2)]] 2 [0..<2] = Inr (map Fin s)
            \<and> length s = 2 \<and> sum_list s = 1)
   \<and> scores_from [Fin (1 / 2), Fin (1 / 2)]
        [[Fin (1 / 4), Fin (3 / 4)], [Fin (1 / 2), Fin (1 / 2)]] 2 [0..<2]
      = Inr [Fin (3 / 8), Fin (5 / 8)]"
proof -
  have h: "length [1 / 2, 1 / 2 :: real] = 2" "sum_list [1 / 2, 1 / 2 :: real] = 1"
    "length [[1 / 4, 3 / 4], [1 / 2, 1 / 2 :: real]] = 2"
    "\<forall>wA\<in>set [[1 / 4, 3 / 4], [1 / 2, 1 / 2 :: real]]. length wA = 2 \<and> sum_list wA = 1"
    by simp_all
  have run: "scores_from [Fin (1 / 2), Fin (1 / 2)]
        [[Fin (1 / 4), Fin (3 / 4)], [Fin (1 / 2), Fin (1 / 2)]] 2 [0..<2]
      = Inr [Fin (3 / 8), Fin (5 / 8)]"
    by (simp add: upt_rec cell_def)
  from aggregate_scores [OF h] have "\<exists>s. scores_from [Fin (1 / 2), Fin (1 / 2)]
              [[Fin (1 / 4), Fin (3 / 4)], [Fin (1 / 2), Fin (1 / 2)]] 2 [0..<2] = Inr (map Fin s)
            \<and> length s = 2 \<and> sum_list s = 1"
    by auto
  with h(1,2,3) run show ?thesis by simp
qed

subsection \<open>The ranking\<close>

lemma ahpSolve_weights_pairwise:
  assumes "pairwise_matrix n A"
  shows "\<exists>v. weights (ahpSolve A) = map Fin v \<and> length v = n \<and> (\<forall>x\<in>set v. 0 < x)
             \<and> sum_list v = 1"
proof -
  have a: "1 \<le> n" "is_order n A" "positive_finite A" "reciprocal A" "unit_diagonal A"
    using assms by (simp_all add: pairwise_matrix_def)
  from a(3) obtain M where M: "A = map (map Fin) M" "\<forall>r\<in>set M. \<forall>x\<in>set r. 0 < x"
    by (rule positive_finite_reals)
  have len: "length M = n" and rows: "\<forall>r\<in>set M. length r = length M"
    using a(2) by (auto simp add: is_order_def M(1))
  have n: "0 < length M" using a(1) len by simp
  have rec: "M ! i ! j * M ! j ! i = 1" if "i < length M" "j < length M" for i j
    using a(4,5) rows M(2) that unfolding M(1) by (rule reals_reciprocal)
  have "\<exists>v l. powerIterationWeights A default_maxIter default_tol = \<lparr>weights = map Fin v, lambdaMax = Fin l\<rparr>
           \<and> length v = length M \<and> (\<forall>x\<in>set v. 0 < x) \<and> sum_list v = 1 \<and> real (length M) \<le> l"
    unfolding M(1) using n rows M(2) rec by (rule powerIteration_positive)
  then obtain v l where vl: "powerIterationWeights A default_maxIter default_tol = \<lparr>weights = map Fin v, lambdaMax = Fin l\<rparr>"
      "length v = length M" "\<forall>x\<in>set v. 0 < x" "sum_list v = 1"
    by (elim exE conjE)
  have "weights (ahpSolve A) = map Fin v"
    by (simp add: ahpSolve_def vl(1) Let_def split_beta)
  then show ?thesis using vl(2,3,4) len by (intro exI [of _ v]) simp
qed

lemma by_criterion_total:
  "\<forall>(c, i)\<in>set cs. i < length alts \<Longrightarrow> \<exists>acc'. by_criterion f alts cs acc = Inr acc'"
proof (induction cs arbitrary: acc)
  case Nil
  then show ?case by simp
next
  case (Cons p cs)
  obtain c i where p: "p = (c, i)" by (cases p)
  show ?case using Cons unfolding p by simp
qed

lemma zip_upt_bound: "\<forall>(c, i)\<in>set (zip cs [0..<n]). i < n"
  by (auto dest: set_zip_rightD)

lemma entries_zip:
  "length scores = length alts \<Longrightarrow>
   entries alts scores = map (\<lambda>(nm, s). \<lparr>score = s, name = nm\<rparr>) (zip alts scores)"
  unfolding entries_def
  by (intro nth_equalityI) (simp_all add: cell_def)

lemma entries_finite:
  assumes "length s = length alts"
  shows "\<forall>e\<in>set (entries alts (map Fin s)). \<exists>t. score e = Fin t"
  using assms by (auto simp add: entries_zip set_zip)

text \<open>A state satisfying the hierarchy invariant gets a result, with finite scores.\<close>

lemma computeResults_hierarchy:
  assumes "hierarchy st"
  shows "\<exists>r. computeResults st = Inr r \<and> list_all isFinite (finalScores r)"
proof -
  let ?n = "length (criteria st)" and ?m = "length (alternatives st)"
  let ?alts = "map ahpSolve (altMatrices st)"
  have h: "pairwise_matrix ?n (criteriaMatrix st)" "length (altMatrices st) = ?n"
    "\<forall>A\<in>set (altMatrices st). pairwise_matrix ?m A"
    using assms by (simp_all add: hierarchy_def)
  from ahpSolve_weights_pairwise [OF h(1)] obtain c where
    c: "weights (ahpSolve (criteriaMatrix st)) = map Fin c" "length c = ?n" by blast
  define wAs where "wAs = map (\<lambda>A. map unFin (weights (ahpSolve A))) (altMatrices st)"
  have each: "weights (ahpSolve A) = map Fin (map unFin (weights (ahpSolve A)))
              \<and> length (weights (ahpSolve A)) = ?m" if "A \<in> set (altMatrices st)" for A
  proof -
    from ahpSolve_weights_pairwise [OF h(3) [rule_format, OF that]] obtain v where
      v: "weights (ahpSolve A) = map Fin v" "length v = ?m" by blast
    have "map unFin (map Fin v) = v" by (simp add: map_idI)
    then show ?thesis unfolding v(1) using v(2) by simp
  qed
  have aw: "map weights ?alts = map (map Fin) wAs"
    unfolding wAs_def using each by simp
  have lw: "length wAs = ?n" "\<forall>wA\<in>set wAs. length wA = ?m"
    using h(2) each by (auto simp add: wAs_def)
  define s where "s = map (\<lambda>i. \<Sum>j<?n. c ! j * wAs ! j ! i) [0..<?m]"
  have run: "scores_from (weights (ahpSolve (criteriaMatrix st))) (map weights ?alts) ?n [0..<?m]
             = Inr (map Fin s)"
    unfolding c(1) aw s_def by (rule scores_from_Fin [OF c(2) lw]) simp
  have bound: "\<forall>(c, i)\<in>set (zip (criteria st) [0..<?n]). i < length ?alts"
    using zip_upt_bound [of "criteria st" ?n] h(2) by simp
  from by_criterion_total [OF bound, of weights Map.empty] obtain aw' where
    aw': "by_criterion weights ?alts (zip (criteria st) [0..<?n]) Map.empty = Inr aw'" by blast
  from by_criterion_total [OF bound, of cr Map.empty] obtain ac' where
    ac': "by_criterion cr ?alts (zip (criteria st) [0..<?n]) Map.empty = Inr ac'" by blast
  let ?E = "entries (alternatives st) (map Fin s)"
  let ?r = "\<lparr>criteriaWeights = weights (ahpSolve (criteriaMatrix st)),
            criteriaCR = cr (ahpSolve (criteriaMatrix st)),
            altWeightsByCriterion = aw', altCRByCriterion = ac',
            finalScores = map Fin s, ranking = js_sort cmp_desc ?E\<rparr>"
  have res: "computeResults st = Inr ?r"
    by (simp add: computeResults_def Let_def run aw' ac' del: map_map)
  have "list_all isFinite (finalScores ?r)" by (simp add: list_all_iff)
  with res show ?thesis by (intro exI [of _ ?r] conjI)
qed

lemma scores_from_length:
  "scores_from cw aw n is = Inr ss \<Longrightarrow> length ss = length is"
proof (induction "is" arbitrary: ss)
  case Nil
  then show ?case by simp
next
  case (Cons i "is")
  then show ?case by (auto split: sum.splits)
qed

lemma computeResults_ranking:
  assumes "computeResults st = Inr r"
  shows "ranking r = js_sort cmp_desc (entries (alternatives st) (finalScores r))"
    and "length (finalScores r) = length (alternatives st)"
  using assms
  by (auto simp add: computeResults_def Let_def split: sum.splits dest: scores_from_length)

lemma entries_finite_scores:
  assumes "length scores = length alts" "list_all isFinite scores"
  shows "\<forall>e\<in>set (entries alts scores). \<exists>t. score e = Fin t"
proof -
  have "\<exists>t. x = Fin t" if "isFinite x" for x using that by (cases x) simp_all
  then show ?thesis
    using assms by (auto simp add: entries_zip set_zip list_all_length)
qed

text \<open>
  C7. Whenever \<^verbatim>\<open>computeResults\<close> returns a result whose final scores are finite, its
  ranking is the list of (alternative name, final score) pairs sorted by score in
  descending order: it is a permutation of the pairs in input order, it is sorted, and the
  pairs of any one score keep their input order.
\<close>

theorem ranking_sorted_stable:
  assumes "computeResults st = Inr r" "list_all isFinite (finalScores r)"
  shows "mset (ranking r)
         = mset (map (\<lambda>(nm, s). \<lparr>score = s, name = nm\<rparr>) (zip (alternatives st) (finalScores r)))
     \<and> sorted_wrt (\<lambda>x y. jle (score y) (score x)) (ranking r)
     \<and> (\<forall>t. filter (\<lambda>e. score e = t) (ranking r)
            = filter (\<lambda>e. score e = t)
                (map (\<lambda>(nm, s). \<lparr>score = s, name = nm\<rparr>) (zip (alternatives st) (finalScores r))))"
proof -
  let ?E = "entries (alternatives st) (finalScores r)"
  note rk = computeResults_ranking [OF assms(1)]
  have fin: "\<forall>e\<in>set ?E. \<exists>t. score e = Fin t"
    using rk(2) assms(2) by (rule entries_finite_scores)
  have E: "?E = map (\<lambda>(nm, s). \<lparr>score = s, name = nm\<rparr>) (zip (alternatives st) (finalScores r))"
    using rk(2) by (rule entries_zip)
  have 1: "mset (ranking r) = mset ?E" unfolding rk(1) by (rule mset_js_sort)
  have 2: "sorted_wrt (\<lambda>x y. jle (score y) (score x)) (ranking r)"
    unfolding rk(1) using fin by (rule sorted_js_sort)
  have 3: "\<forall>t. filter (\<lambda>e. score e = t) (ranking r) = filter (\<lambda>e. score e = t) ?E"
    unfolding rk(1) using stable_js_sort [OF fin] by simp
  from 1 2 3 show ?thesis unfolding E by (intro conjI)
qed

theorem ranking_sorted_stable_witness:
  "hierarchy \<lparr>criteria = [''cost''], alternatives = [''A'', ''B'', ''C''],
              criteriaMatrix = [[Fin 1]],
              altMatrices = [[[Fin 1, Fin (1 / 2), Fin 1], [Fin 2, Fin 1, Fin 2],
                              [Fin 1, Fin (1 / 2), Fin 1]]]\<rparr>
   \<and> (\<exists>r. computeResults \<lparr>criteria = [''cost''], alternatives = [''A'', ''B'', ''C''],
              criteriaMatrix = [[Fin 1]],
              altMatrices = [[[Fin 1, Fin (1 / 2), Fin 1], [Fin 2, Fin 1, Fin 2],
                              [Fin 1, Fin (1 / 2), Fin 1]]]\<rparr> = Inr r
         \<and> finalScores r = [Fin (1 / 4), Fin (1 / 2), Fin (1 / 4)]
         \<and> ranking r = [\<lparr>score = Fin (1 / 2), name = ''B''\<rparr>, \<lparr>score = Fin (1 / 4), name = ''A''\<rparr>,
                         \<lparr>score = Fin (1 / 4), name = ''C''\<rparr>]
         \<and> sorted_wrt (\<lambda>x y. jle (score y) (score x)) (ranking r)
         \<and> filter (\<lambda>e. score e = Fin (1 / 4)) (ranking r)
             = [\<lparr>score = Fin (1 / 4), name = ''A''\<rparr>, \<lparr>score = Fin (1 / 4), name = ''C''\<rparr>])"
proof -
  let ?M = "[[Fin 1, Fin (1 / 2), Fin 1], [Fin 2, Fin 1, Fin 2], [Fin 1, Fin (1 / 2), Fin 1]]"
  let ?st = "\<lparr>criteria = [''cost''], alternatives = [''A'', ''B'', ''C''],
              criteriaMatrix = [[Fin 1]], altMatrices = [?M]\<rparr>"
  have h: "hierarchy ?st"
    by (simp add: hierarchy_def pairwise_matrix_def invariant_defs)
  have c: "ahpSolve [[Fin 1]] = \<lparr>weights = [Fin 1], lambdaMax = Fin 1, ci = NaN, cr = Fin 0\<rparr>"
    by (simp add: eval_defs)
  have a: "ahpSolve ?M = \<lparr>weights = [Fin (1 / 4), Fin (1 / 2), Fin (1 / 4)], lambdaMax = Fin 3,
                           ci = Fin 0, cr = Fin 0\<rparr>"
    by (simp add: eval_defs)
  from computeResults_hierarchy [OF h] obtain r where
    r0: "computeResults ?st = Inr r" "list_all isFinite (finalScores r)"
    by blast
  from ranking_sorted_stable [OF r0] have
    "sorted_wrt (\<lambda>x y. jle (score y) (score x)) (ranking r)"
    by simp
  with r0 have r: "computeResults ?st = Inr r"
       "sorted_wrt (\<lambda>x y. jle (score y) (score x)) (ranking r)"
    by simp_all
  have f: "finalScores r = [Fin (1 / 4), Fin (1 / 2), Fin (1 / 4)]"
    using r(1) by (auto simp add: computeResults_def c a upt_rec cell_def Let_def)
  have k: "ranking r = [\<lparr>score = Fin (1 / 2), name = ''B''\<rparr>, \<lparr>score = Fin (1 / 4), name = ''A''\<rparr>,
                         \<lparr>score = Fin (1 / 4), name = ''C''\<rparr>]"
    using r(1)
    by (auto simp add: computeResults_def c a upt_rec cell_def Let_def entries_def js_sort_def
          cmp_desc_def jsub_def)
  have "filter (\<lambda>e. score e = Fin (1 / 4)) (ranking r)
             = [\<lparr>score = Fin (1 / 4), name = ''A''\<rparr>, \<lparr>score = Fin (1 / 4), name = ''C''\<rparr>]"
    unfolding k by simp
  with h r f k show ?thesis by (intro conjI exI [of _ r])
qed

section \<open>The loader\<close>

lemma length_identityMatrix: "length (identityMatrix n) = n"
  by (simp add: identityMatrix_def)

lemma length_jmatrix: "length (jmatrix M) = length M"
  by (simp add: jmatrix_def)

lemma initMatrices_labels:
  "p_criteria (initMatrices st) = p_criteria st"
  "p_alternatives (initMatrices st) = p_alternatives st"
  "p_problem (initMatrices st) = p_problem st"
  "p_activeCritIdx (initMatrices st) = p_activeCritIdx st"
  by (simp_all add: initMatrices_def)

lemma initMatrices_neutral: "neutral_matrices (initMatrices st)"
  by (simp add: neutral_matrices_def initMatrices_def map_replicate_const)

lemma neutral_row_counts: "neutral_matrices st \<Longrightarrow> row_counts_ok st"
  by (simp add: neutral_matrices_def row_counts_ok_def length_jmatrix length_identityMatrix
      has_rows_def list_all_length)

lemma neutral_square:
  assumes "neutral_matrices st"
  shows "square_rows (length (p_criteria st)) (p_criteriaMatrix st)
       \<and> list_all (square_json (length (p_alternatives st))) (p_altMatrices st)"
proof -
  have sq: "square_rows n (jmatrix (identityMatrix n))" for n
    by (simp add: square_rows_def jmatrix_def identityMatrix_def list_all_length)
  show ?thesis
    using assms sq by (simp add: neutral_matrices_def square_json_def list_all_length)
qed

lemma some_bad_alt_iff:
  "some_bad_alt st \<longleftrightarrow> \<not> list_all (has_rows (length (p_alternatives st))) (p_altMatrices st)"
proof -
  have "(case m of JArr rows \<Rightarrow> length rows \<noteq> n | _ \<Rightarrow> True) = (\<not> has_rows n m)" for m n
    by (cases m) (simp_all add: has_rows_def)
  then show ?thesis
    by (simp add: some_bad_alt_def list_ex_iff list_all_iff)
qed

text \<open>The stored matrices are kept exactly when they pass the three tests.\<close>

lemma repair_spec:
  fixes kvs p crit alts
  defines "st \<equiv> repair kvs p crit alts"
  shows "p_problem st = p \<and> p_criteria st = crit \<and> p_alternatives st = alts"
    and "row_counts_ok st"
    and "(as_array (map_of kvs ''criteriaMatrix'') = Some (p_criteriaMatrix st)
          \<and> as_array (map_of kvs ''altMatrices'') = Some (p_altMatrices st))
         \<or> neutral_matrices st"
proof -
  define st0 where "st0 = \<lparr>p_problem = p, p_criteria = crit, p_alternatives = alts,
                 p_criteriaMatrix = [], p_altMatrices = [], p_activeCritIdx = Fin 0\<rparr>"
  define st1 where "st1 = (case (as_array (map_of kvs ''criteriaMatrix''),
                       as_array (map_of kvs ''altMatrices'')) of
                   (Some cm, Some am) \<Rightarrow> st0\<lparr>p_criteriaMatrix := cm, p_altMatrices := am\<rparr>
                 | _ \<Rightarrow> initMatrices st0)"
  define idx where "idx = (let idx0 = (case map_of kvs ''activeCritIdx'' of Some (JNum x) \<Rightarrow> x | _ \<Rightarrow> Fin 0);
          idx1 = (if jlt idx0 (Fin 0) then Fin 0 else idx0)
       in (if jle (Fin (real (length crit))) idx1 then Fin 0 else idx1))"
  define st2 where "st2 = st1\<lparr>p_activeCritIdx := idx\<rparr>"
  define st3 where "st3 = (if length (p_criteriaMatrix st2) \<noteq> length (p_criteria st2)
                 then initMatrices st2 else st2)"
  define st4 where "st4 = (if length (p_altMatrices st3) \<noteq> length (p_criteria st3)
                 then initMatrices st3 else st3)"
  define st5 where "st5 = (if some_bad_alt st4 then initMatrices st4 else st4)"
  have st: "st = st5"
    unfolding st_def repair_def st5_def st4_def st3_def st2_def idx_def st1_def st0_def Let_def ..
  let ?kept = "\<lambda>s. as_array (map_of kvs ''criteriaMatrix'') = Some (p_criteriaMatrix s)
          \<and> as_array (map_of kvs ''altMatrices'') = Some (p_altMatrices s)"
  have l1: "p_problem st1 = p \<and> p_criteria st1 = crit \<and> p_alternatives st1 = alts"
    by (simp add: st1_def st0_def initMatrices_labels split: option.splits)
  have k1: "?kept st1 \<or> neutral_matrices st1"
    by (auto simp add: st1_def initMatrices_neutral split: option.splits)
  have l2: "p_problem st2 = p \<and> p_criteria st2 = crit \<and> p_alternatives st2 = alts"
    using l1 by (simp add: st2_def)
  have k2: "?kept st2 \<or> neutral_matrices st2"
    using k1 by (simp add: st2_def neutral_matrices_def)
  have l3: "p_problem st3 = p \<and> p_criteria st3 = crit \<and> p_alternatives st3 = alts"
    using l2 by (simp add: st3_def initMatrices_labels)
  have k3: "?kept st3 \<or> neutral_matrices st3"
    using k2 by (simp add: st3_def initMatrices_neutral)
  have c3: "length (p_criteriaMatrix st3) = length (p_criteria st3)"
    using neutral_row_counts [OF initMatrices_neutral, of st2]
    by (simp add: st3_def row_counts_ok_def)
  have l4: "p_problem st4 = p \<and> p_criteria st4 = crit \<and> p_alternatives st4 = alts"
    using l3 by (simp add: st4_def initMatrices_labels)
  have k4: "?kept st4 \<or> neutral_matrices st4"
    using k3 by (simp add: st4_def initMatrices_neutral)
  have c4: "length (p_criteriaMatrix st4) = length (p_criteria st4)
            \<and> length (p_altMatrices st4) = length (p_criteria st4)"
    using c3 neutral_row_counts [OF initMatrices_neutral, of st3]
    by (simp add: st4_def row_counts_ok_def)
  have l5: "p_problem st5 = p \<and> p_criteria st5 = crit \<and> p_alternatives st5 = alts"
    using l4 by (simp add: st5_def initMatrices_labels)
  have k5: "?kept st5 \<or> neutral_matrices st5"
    using k4 by (simp add: st5_def initMatrices_neutral)
  have c5: "row_counts_ok st5"
  proof (cases "some_bad_alt st4")
    case True
    then show ?thesis
      using neutral_row_counts [OF initMatrices_neutral, of st4] by (simp add: st5_def)
  next
    case False
    then show ?thesis
      using c4 by (simp add: st5_def row_counts_ok_def some_bad_alt_iff)
  qed
  show "p_problem st = p \<and> p_criteria st = crit \<and> p_alternatives st = alts"
    unfolding st by (rule l5)
  show "row_counts_ok st" unfolding st by (rule c5)
  show "?kept st \<or> neutral_matrices st" unfolding st by (rule k5)
qed

lemma defaultState_neutral: "neutral_matrices defaultState"
  unfolding defaultState_def by (rule initMatrices_neutral)

text \<open>Whatever is stored, the loader returns a state, and its row counts agree.\<close>

lemma loadState_any_input:
  "row_counts_ok (loadState parse raw)
   \<and> (neutral_matrices (loadState parse raw)
       \<or> (\<exists>s kvs. raw = Some s \<and> parse s = Some (JObj kvs)
             \<and> as_array (map_of kvs ''criteriaMatrix'') = Some (p_criteriaMatrix (loadState parse raw))
             \<and> as_array (map_of kvs ''altMatrices'') = Some (p_altMatrices (loadState parse raw))))"
proof -
  have d: "row_counts_ok defaultState \<and> neutral_matrices defaultState"
    using defaultState_neutral neutral_row_counts by blast
  have "loadState parse raw = defaultState
        \<or> (\<exists>s kvs p crit alts. raw = Some s \<and> parse s = Some (JObj kvs)
              \<and> loadState parse raw = repair kvs p crit alts)"
    by (auto simp add: loadState_def split: option.split json.split)
  then consider (default) "loadState parse raw = defaultState"
    | (object) s kvs p crit alts where "raw = Some s" "parse s = Some (JObj kvs)"
        "loadState parse raw = repair kvs p crit alts"
    by blast
  then show ?thesis
  proof cases
    case default
    then show ?thesis using d by simp
  next
    case object
    show ?thesis
      unfolding object(3)
      using repair_spec(2,3) [of kvs p crit alts] object(1,2) by auto
  qed
qed

text \<open>
  C9 (amended). For a stored string that parses to an object with a \<^verbatim>\<open>problem\<close> property
  and array-valued \<^verbatim>\<open>criteria\<close> and \<^verbatim>\<open>alternatives\<close>, \<^verbatim>\<open>loadState\<close> returns a state in
  which the criteria matrix has as many rows as there are criteria and the alternative
  matrices are as many as the criteria, each an array with as many rows as there are
  alternatives. The matrices are either the stored ones or, when a matrix property is not
  an array or a row count is wrong, both levels rebuilt all-ones and square. With a truthy
  \<^verbatim>\<open>problem\<close> the label lists are the stored ones. No error is raised.
\<close>

theorem loadState_row_counts:
  assumes "s \<noteq> []" "parse s = Some (JObj kvs)" "map_of kvs ''problem'' = Some p"
    and "map_of kvs ''criteria'' = Some (JArr crit)"
    and "map_of kvs ''alternatives'' = Some (JArr alts)"
  shows "row_counts_ok (loadState parse (Some s))
     \<and> ((as_array (map_of kvs ''criteriaMatrix'') = Some (p_criteriaMatrix (loadState parse (Some s)))
          \<and> as_array (map_of kvs ''altMatrices'') = Some (p_altMatrices (loadState parse (Some s))))
         \<or> (neutral_matrices (loadState parse (Some s))
             \<and> square_rows (length (p_criteria (loadState parse (Some s))))
                 (p_criteriaMatrix (loadState parse (Some s)))
             \<and> list_all (square_json (length (p_alternatives (loadState parse (Some s)))))
                 (p_altMatrices (loadState parse (Some s)))))
     \<and> (truthy p \<longrightarrow> p_criteria (loadState parse (Some s)) = crit
                      \<and> p_alternatives (loadState parse (Some s)) = alts)"
proof (cases "truthy p")
  case True
  have l: "loadState parse (Some s) = repair kvs p crit alts"
    using assms True by (simp add: loadState_def)
  show ?thesis
    unfolding l
    using repair_spec [of kvs p crit alts] neutral_square [of "repair kvs p crit alts"] True
    by auto
next
  case False
  have l: "loadState parse (Some s) = defaultState"
    using assms False by (simp add: loadState_def)
  show ?thesis
    unfolding l
    using defaultState_neutral neutral_row_counts [of defaultState] neutral_square [of defaultState]
      False
    by simp
qed

lemmas load_defs = loadState_def repair_def initMatrices_def some_bad_alt_def jmatrix_def
  identityMatrix_def jle_def Let_def upt_rec

theorem loadState_row_counts_witness:
  "''saved'' \<noteq> []
   \<and> map_of [(''problem'', JObj [(''name'', JStr ''P'')]),
             (''criteria'', JArr [JStr ''a'', JStr ''b'']),
             (''alternatives'', JArr [JStr ''x'', JStr ''y'']),
             (''criteriaMatrix'', JArr [JArr [JNum (Fin 1), JNum (Fin 3), JNum (Fin 5)],
                                       JArr [JNum (Fin (1 / 3)), JNum (Fin 1), JNum (Fin 2)],
                                       JArr [JNum (Fin (1 / 5)), JNum (Fin (1 / 2)), JNum (Fin 1)]]),
             (''altMatrices'', JArr []),
             (''activeCritIdx'', JNum (Fin 2))] ''problem'' = Some (JObj [(''name'', JStr ''P'')])
   \<and> truthy (JObj [(''name'', JStr ''P'')])
   \<and> row_counts_ok (loadState (\<lambda>s. Some (JObj
         [(''problem'', JObj [(''name'', JStr ''P'')]),
          (''criteria'', JArr [JStr ''a'', JStr ''b'']),
          (''alternatives'', JArr [JStr ''x'', JStr ''y'']),
          (''criteriaMatrix'', JArr [JArr [JNum (Fin 1), JNum (Fin 3), JNum (Fin 5)],
                                    JArr [JNum (Fin (1 / 3)), JNum (Fin 1), JNum (Fin 2)],
                                    JArr [JNum (Fin (1 / 5)), JNum (Fin (1 / 2)), JNum (Fin 1)]]),
          (''altMatrices'', JArr []),
          (''activeCritIdx'', JNum (Fin 2))])) (Some ''saved''))
   \<and> loadState (\<lambda>s. Some (JObj
         [(''problem'', JObj [(''name'', JStr ''P'')]),
          (''criteria'', JArr [JStr ''a'', JStr ''b'']),
          (''alternatives'', JArr [JStr ''x'', JStr ''y'']),
          (''criteriaMatrix'', JArr [JArr [JNum (Fin 1), JNum (Fin 3), JNum (Fin 5)],
                                    JArr [JNum (Fin (1 / 3)), JNum (Fin 1), JNum (Fin 2)],
                                    JArr [JNum (Fin (1 / 5)), JNum (Fin (1 / 2)), JNum (Fin 1)]]),
          (''altMatrices'', JArr []),
          (''activeCritIdx'', JNum (Fin 2))])) (Some ''saved'')
     = \<lparr>p_problem = JObj [(''name'', JStr ''P'')],
        p_criteria = [JStr ''a'', JStr ''b''],
        p_alternatives = [JStr ''x'', JStr ''y''],
        p_criteriaMatrix = [JArr [JNum (Fin 1), JNum (Fin 1)], JArr [JNum (Fin 1), JNum (Fin 1)]],
        p_altMatrices = [JArr [JArr [JNum (Fin 1), JNum (Fin 1)], JArr [JNum (Fin 1), JNum (Fin 1)]],
                         JArr [JArr [JNum (Fin 1), JNum (Fin 1)], JArr [JNum (Fin 1), JNum (Fin 1)]]],
        p_activeCritIdx = Fin 0\<rparr>"
proof -
  let ?kvs = "[(''problem'', JObj [(''name'', JStr ''P'')]),
          (''criteria'', JArr [JStr ''a'', JStr ''b'']),
          (''alternatives'', JArr [JStr ''x'', JStr ''y'']),
          (''criteriaMatrix'', JArr [JArr [JNum (Fin 1), JNum (Fin 3), JNum (Fin 5)],
                                    JArr [JNum (Fin (1 / 3)), JNum (Fin 1), JNum (Fin 2)],
                                    JArr [JNum (Fin (1 / 5)), JNum (Fin (1 / 2)), JNum (Fin 1)]]),
          (''altMatrices'', JArr []),
          (''activeCritIdx'', JNum (Fin 2))]"
  let ?parse = "\<lambda>s::string. Some (JObj ?kvs)"
  have h: "''saved'' \<noteq> []" "?parse ''saved'' = Some (JObj ?kvs)"
    "map_of ?kvs ''problem'' = Some (JObj [(''name'', JStr ''P'')])"
    "map_of ?kvs ''criteria'' = Some (JArr [JStr ''a'', JStr ''b''])"
    "map_of ?kvs ''alternatives'' = Some (JArr [JStr ''x'', JStr ''y''])"
    by simp_all
  have t: "truthy (JObj [(''name'', JStr ''P'')])" by simp
  have run: "loadState ?parse (Some ''saved'')
     = \<lparr>p_problem = JObj [(''name'', JStr ''P'')],
        p_criteria = [JStr ''a'', JStr ''b''],
        p_alternatives = [JStr ''x'', JStr ''y''],
        p_criteriaMatrix = [JArr [JNum (Fin 1), JNum (Fin 1)], JArr [JNum (Fin 1), JNum (Fin 1)]],
        p_altMatrices = [JArr [JArr [JNum (Fin 1), JNum (Fin 1)], JArr [JNum (Fin 1), JNum (Fin 1)]],
                         JArr [JArr [JNum (Fin 1), JNum (Fin 1)], JArr [JNum (Fin 1), JNum (Fin 1)]]],
        p_activeCritIdx = Fin 0\<rparr>"
    by (simp add: load_defs)
  from loadState_row_counts [OF h] have "row_counts_ok (loadState ?parse (Some ''saved''))"
    by (rule conjunct1)
  with h(1,3) t run show ?thesis by (intro conjI)
qed

text \<open>
  The loader compares the number of rows only. A stored criteria matrix of two rows of one
  cell each, with two criteria, is kept as it is: the returned matrix is not square.
\<close>

theorem loadState_ragged_counterexample:
  "loadState (\<lambda>s. Some (JObj
         [(''problem'', JObj [(''name'', JStr ''P'')]),
          (''criteria'', JArr [JStr ''a'', JStr ''b'']),
          (''alternatives'', JArr [JStr ''x'', JStr ''y'']),
          (''criteriaMatrix'', JArr [JArr [JNum (Fin 1)], JArr [JNum (Fin 1)]]),
          (''altMatrices'',
             JArr [JArr [JArr [JNum (Fin 1), JNum (Fin 1)], JArr [JNum (Fin 1), JNum (Fin 1)]],
                   JArr [JArr [JNum (Fin 1), JNum (Fin 1)], JArr [JNum (Fin 1), JNum (Fin 1)]]]),
          (''activeCritIdx'', JNum (Fin 0))])) (Some ''saved'')
     = \<lparr>p_problem = JObj [(''name'', JStr ''P'')],
        p_criteria = [JStr ''a'', JStr ''b''],
        p_alternatives = [JStr ''x'', JStr ''y''],
        p_criteriaMatrix = [JArr [JNum (Fin 1)], JArr [JNum (Fin 1)]],
        p_altMatrices = [JArr [JArr [JNum (Fin 1), JNum (Fin 1)], JArr [JNum (Fin 1), JNum (Fin 1)]],
                         JArr [JArr [JNum (Fin 1), JNum (Fin 1)], JArr [JNum (Fin 1), JNum (Fin 1)]]],
        p_activeCritIdx = Fin 0\<rparr>
   \<and> \<not> square_rows 2 [JArr [JNum (Fin 1)], JArr [JNum (Fin 1)]]"
  by (simp add: load_defs square_rows_def)

section \<open>Rounding to a double\<close>

lemma rhe_close: "\<bar>of_int (rhe y) - y\<bar> \<le> 1 / 2"
  unfolding rhe_def Let_def by (auto simp add: abs_le_iff)

lemma rhe_of_int: "rhe (of_int k) = k"
  by (simp add: rhe_def)

lemma rhe_ge_floor: "\<lfloor>y\<rfloor> \<le> rhe y"
  by (simp add: rhe_def Let_def)

lemma powr2_int: "2 powr (real_of_int e) = (2::real) powi e"
  by (simp add: powr_real_of_int')

lemma floor_log2_bracket:
  assumes "0 < x" "2 powi e \<le> x" "x < 2 powi (e + 1)"
  shows "\<lfloor>log 2 x\<rfloor> = e"
proof -
  have "2 powr (real_of_int e + 1) = (2::real) powi (e + 1)"
    using powr2_int [of "e + 1"] by simp
  then have "2 powr (real_of_int e) \<le> x \<and> x < 2 powr (real_of_int e + 1)"
    using assms(2,3) powr2_int [of e] by simp
  then show ?thesis using assms(1) by (simp add: floor_log_eq_powr_iff)
qed

lemma log2_bracket:
  assumes "0 < x"
  shows "2 powi \<lfloor>log 2 x\<rfloor> \<le> x \<and> x < 2 powi (\<lfloor>log 2 x\<rfloor> + 1)"
proof -
  have "2 powr (real_of_int \<lfloor>log 2 x\<rfloor>) \<le> x \<and> x < 2 powr (real_of_int \<lfloor>log 2 x\<rfloor> + 1)"
    using assms floor_log_eq_powr_iff [of x 2 "\<lfloor>log 2 x\<rfloor>"] by simp
  moreover have "2 powr (real_of_int \<lfloor>log 2 x\<rfloor> + 1) = (2::real) powi (\<lfloor>log 2 x\<rfloor> + 1)"
    using powr2_int [of "\<lfloor>log 2 x\<rfloor> + 1"] by simp
  ultimately show ?thesis using powr2_int [of "\<lfloor>log 2 x\<rfloor>"] by simp
qed



lemma rhe_nonneg: "0 \<le> y \<Longrightarrow> 0 \<le> rhe y"
  using rhe_ge_floor [of y] by (simp add: order_trans [of 0 "\<lfloor>y\<rfloor>"])

lemma pow2_less_imp: "(2::real) powi a < 2 powi b \<Longrightarrow> a < b"
  using power_int_increasing [of b a "2::real"] by (cases "a < b") simp_all

lemma round64_neg: "round64 (- x) = jneg (round64 x)"
  by (simp add: round64_def Let_def signed_inf_def)

lemma round64_pos:
  assumes "0 < x"
  shows "round64 x =
     (if (2::real) ^ 1024 \<le> of_int (rhe (x / 2 powi (max \<lfloor>log 2 x\<rfloor> (- 1022) - 52)))
                        * 2 powi (max \<lfloor>log 2 x\<rfloor> (- 1022) - 52)
      then PInf
      else Fin (of_int (rhe (x / 2 powi (max \<lfloor>log 2 x\<rfloor> (- 1022) - 52)))
                  * 2 powi (max \<lfloor>log 2 x\<rfloor> (- 1022) - 52)))"
proof -
  let ?q = "(2::real) powi (max \<lfloor>log 2 x\<rfloor> (- 1022) - 52)"
  have q: "0 < ?q" by simp
  have "0 \<le> rhe (x / ?q)" using assms q by (intro rhe_nonneg) simp
  then have "\<bar>of_int (rhe (x / ?q)) * ?q\<bar> = of_int (rhe (x / ?q)) * ?q"
    using q by (simp add: abs_mult)
  then show ?thesis
    using assms by (simp add: round64_def Let_def signed_inf_def)
qed

text \<open>A number in the normal range is rounded with relative error at most \<open>2\<^sup>-\<^sup>5\<^sup>3\<close>.\<close>

lemma round64_normal:
  assumes lo: "2 powi (- 1022) \<le> x" and hi: "x < 2 ^ 1023"
  shows "\<exists>y. round64 x = Fin y \<and> \<bar>y - x\<bar> \<le> eps64 * x \<and> 0 < y"
proof -
  have x: "0 < x" using lo by (rule less_le_trans [rotated]) simp
  define e where "e = \<lfloor>log 2 x\<rfloor>"
  have br: "2 powi e \<le> x" "x < 2 powi (e + 1)"
    using log2_bracket [OF x] by (simp_all add: e_def)
  have "(2::real) powi (- 1022) < 2 powi (e + 1)" using lo br(2) by linarith
  then have e1: "- 1022 \<le> e" using pow2_less_imp [of "- 1022" "e + 1"] by simp
  have "(2::real) powi e < 2 powi 1023" using br(1) hi by simp
  then have e2: "e \<le> 1022" using pow2_less_imp [of e 1023] by simp
  have mx: "max e (- 1022) = e" using e1 by simp
  define q where "q = (2::real) powi (e - 52)"
  have q: "0 < q" by (simp add: q_def)
  have qe: "q * 2 ^ 52 = 2 powi e"
    by (simp add: q_def power_int_diff)
  define t where "t = x / q"
  have t1: "2 ^ 52 \<le> t"
    unfolding t_def using br(1) q qe by (simp add: pos_le_divide_eq mult.commute)
  have t2: "t < 2 ^ 53"
  proof -
    have "2 powi (e + 1) = q * 2 ^ 53"
      using qe by (simp add: power_int_add)
    then show ?thesis unfolding t_def using br(2) q by (simp add: pos_divide_less_eq mult.commute)
  qed
  define m where "m = rhe t"
  have cl: "\<bar>of_int m - t\<bar> \<le> 1 / 2" unfolding m_def by (rule rhe_close)
  have cl2: "t - 1 / 2 \<le> of_int m" "of_int m \<le> t + 1 / 2" using cl by linarith+
  define y where "y = of_int m * q"
  have xt: "x = t * q" using q by (simp add: t_def)
  have ypos: "0 < y"
  proof -
    have "1 \<le> t" using t1 by simp
    then have "0 < (of_int m :: real)" using cl2 by linarith
    then show ?thesis unfolding y_def using q by simp
  qed
  have err: "\<bar>y - x\<bar> \<le> eps64 * x"
  proof -
    have "\<bar>y - x\<bar> = \<bar>of_int m - t\<bar> * q"
      unfolding y_def xt using q by (simp add: abs_mult left_diff_distrib [symmetric])
    also have "\<dots> \<le> 1 / 2 * q" using cl q by (intro mult_right_mono) simp_all
    also have "\<dots> = eps64 * 2 powi e"
      using qe by (simp add: eps64_def field_simps)
    also have "\<dots> \<le> eps64 * x" using br(1) by (simp add: eps64_def)
    finally show ?thesis .
  qed
  have small: "y < 2 ^ 1024"
  proof -
    have "(of_int m :: real) < 2 ^ 54" using cl2 t2 by simp
    then have "y < 2 ^ 54 * q" unfolding y_def using q by simp
    also have "\<dots> \<le> 2 ^ 54 * 2 powi (1022 - 52)"
      unfolding q_def using e2 by (intro mult_left_mono power_int_increasing) simp_all
    also have "\<dots> = 2 ^ 1024" by simp
    finally show ?thesis .
  qed
  have "round64 x = Fin y"
    using small by (simp add: round64_pos [OF x] e_def [symmetric] mx q_def [symmetric]
        t_def [symmetric] m_def [symmetric] y_def [symmetric])
  then show ?thesis using err ypos by blast
qed

section \<open>Relative error\<close>

lemma eps64_pos: "0 < eps64" "eps64 < 1"
  by (simp_all add: eps64_def)

lemma rk_pos: "0 < (1 - eps64) ^ k"
  using eps64_pos by simp

lemma rk_le_one: "(1 - eps64) ^ k \<le> 1"
  using eps64_pos by (intro power_le_one) simp_all

lemma rk_bernoulli: "1 - real k * eps64 \<le> (1 - eps64) ^ k"
  using Bernoulli_inequality [of "- eps64" k] eps64_pos by simp

lemma rk_half: "k \<le> 2 ^ 52 \<Longrightarrow> 1 / 2 \<le> (1 - eps64) ^ k"
proof -
  assume "k \<le> 2 ^ 52"
  then have "real k \<le> 2 ^ 52" by (metis of_nat_le_iff of_nat_numeral of_nat_power)
  then have "real k * eps64 \<le> 1 / 2" by (simp add: eps64_def)
  then show ?thesis using rk_bernoulli [of k] by linarith
qed

lemma nearby_refl: "0 \<le> x \<Longrightarrow> nearby k x x"
  using rk_le_one [of k] by (simp add: nearby_def mult_left_le_one_le rk_pos less_imp_le)

lemma nearby_sym: "nearby k x y \<Longrightarrow> nearby k y x"
  by (simp add: nearby_def)

lemma nearby_mono:
  assumes "nearby k x y" "k \<le> m"
  shows "nearby m x y"
proof -
  have le: "(1 - eps64) ^ m \<le> (1 - eps64) ^ k"
    using eps64_pos assms(2) by (intro power_decreasing) simp_all
  have "(1 - eps64) ^ m * x \<le> (1 - eps64) ^ k * x" "(1 - eps64) ^ m * y \<le> (1 - eps64) ^ k * y"
    using assms(1) le by (simp_all add: nearby_def mult_right_mono)
  then show ?thesis using assms(1) by (simp add: nearby_def)
qed

lemma nearby_trans:
  assumes "nearby k x y" "nearby m y z"
  shows "nearby (k + m) x z"
proof -
  have "(1 - eps64) ^ (k + m) * x = (1 - eps64) ^ m * ((1 - eps64) ^ k * x)"
    by (simp add: power_add)
  also have "\<dots> \<le> (1 - eps64) ^ m * y"
    using assms(1) rk_pos [of m] by (simp add: nearby_def)
  also have "\<dots> \<le> z" using assms(2) by (simp add: nearby_def)
  finally have 1: "(1 - eps64) ^ (k + m) * x \<le> z" .
  have "(1 - eps64) ^ (k + m) * z = (1 - eps64) ^ k * ((1 - eps64) ^ m * z)"
    by (simp add: power_add)
  also have "\<dots> \<le> (1 - eps64) ^ k * y"
    using assms(2) rk_pos [of k] by (simp add: nearby_def)
  also have "\<dots> \<le> x" using assms(1) by (simp add: nearby_def)
  finally have 2: "(1 - eps64) ^ (k + m) * z \<le> x" .
  from 1 2 assms show ?thesis by (simp add: nearby_def)
qed

lemma nearby_add:
  "nearby k x y \<Longrightarrow> nearby k x' y' \<Longrightarrow> nearby k (x + x') (y + y')"
  by (simp add: nearby_def distrib_left add_mono)

lemma nearby_mult:
  assumes "nearby k x y" "nearby m x' y'"
  shows "nearby (k + m) (x * x') (y * y')"
proof -
  have "(1 - eps64) ^ (k + m) * (x * x') = ((1 - eps64) ^ k * x) * ((1 - eps64) ^ m * x')"
    by (simp add: power_add)
  also have "\<dots> \<le> y * y'"
    using assms rk_pos [of k] rk_pos [of m] by (intro mult_mono) (simp_all add: nearby_def)
  finally have 1: "(1 - eps64) ^ (k + m) * (x * x') \<le> y * y'" .
  have "(1 - eps64) ^ (k + m) * (y * y') = ((1 - eps64) ^ k * y) * ((1 - eps64) ^ m * y')"
    by (simp add: power_add)
  also have "\<dots> \<le> x * x'"
    using assms rk_pos [of k] rk_pos [of m] by (intro mult_mono) (simp_all add: nearby_def)
  finally have 2: "(1 - eps64) ^ (k + m) * (y * y') \<le> x * x'" .
  from 1 2 assms show ?thesis by (simp add: nearby_def)
qed

lemma nearby_pos: "nearby k x y \<Longrightarrow> 0 < x \<Longrightarrow> 0 < y"
proof -
  assume a: "nearby k x y" "0 < x"
  have "0 < (1 - eps64) ^ k * x" using a(2) rk_pos [of k] by simp
  then show ?thesis using a(1) by (simp add: nearby_def)
qed

lemma nearby_inverse:
  assumes "nearby k x y" "0 < x"
  shows "nearby k (1 / x) (1 / y)"
proof -
  have y: "0 < y" using assms by (rule nearby_pos)
  have 1: "(1 - eps64) ^ k * (1 / x) \<le> 1 / y"
    using assms y by (simp add: nearby_def field_simps)
  have 2: "(1 - eps64) ^ k * (1 / y) \<le> 1 / x"
    using assms y by (simp add: nearby_def field_simps)
  from 1 2 assms(2) y show ?thesis by (simp add: nearby_def)
qed

lemma nearby_div:
  assumes "nearby k x y" "nearby m x' y'" "0 < x'"
  shows "nearby (k + m) (x / x') (y / y')"
  using nearby_mult [OF assms(1) nearby_inverse [OF assms(2) assms(3)]] by simp

lemma nearby_sum_list:
  "list_all2 (nearby k) xs ys \<Longrightarrow> nearby k (sum_list xs) (sum_list ys)"
proof (induction rule: list_all2_induct)
  case Nil
  then show ?case by (simp add: nearby_def)
next
  case (Cons x xs y ys)
  then show ?case by (simp add: nearby_add)
qed

lemma nearby_lower: "nearby k x y \<Longrightarrow> (1 - real k * eps64) * x \<le> y"
proof -
  assume a: "nearby k x y"
  have "(1 - real k * eps64) * x \<le> (1 - eps64) ^ k * x"
    using a rk_bernoulli [of k] by (intro mult_right_mono) (simp_all add: nearby_def)
  then show ?thesis using a by (simp add: nearby_def)
qed

lemma nearby_upper:
  assumes "nearby k x y" "2 * real k * eps64 \<le> 1"
  shows "y \<le> (1 + 2 * real k * eps64) * x"
proof -
  define t where "t = real k * eps64"
  have t: "0 \<le> t" "2 * t \<le> 1" using assms(2) eps64_pos by (simp_all add: t_def)
  have "(1 - t) * y \<le> (1 - eps64) ^ k * y"
    using assms(1) rk_bernoulli [of k] unfolding t_def
    by (intro mult_right_mono) (simp_all add: nearby_def)
  then have 1: "(1 - t) * y \<le> x" using assms(1) by (simp add: nearby_def)
  have "0 \<le> t * (1 - 2 * t)" using t by simp
  then have 2: "1 \<le> (1 + 2 * t) * (1 - t)" by (simp add: algebra_simps)
  have y: "0 \<le> y" using assms(1) by (simp add: nearby_def)
  have "y = 1 * y" by simp
  also have "\<dots> \<le> ((1 + 2 * t) * (1 - t)) * y" using 2 y by (intro mult_right_mono)
  also have "\<dots> = (1 + 2 * t) * ((1 - t) * y)" by simp
  also have "\<dots> \<le> (1 + 2 * t) * x" using 1 t by (intro mult_left_mono) simp_all
  finally show ?thesis by (simp add: t_def mult.assoc)
qed

lemma nearby_double:
  assumes "nearby k x y" "k \<le> 2 ^ 52"
  shows "y \<le> 2 * x" "x \<le> 2 * y"
proof -
  have h: "1 / 2 \<le> (1 - eps64) ^ k" using assms(2) by (rule rk_half)
  have xy: "0 \<le> x" "0 \<le> y" using assms(1) by (simp_all add: nearby_def)
  have "1 / 2 * y \<le> (1 - eps64) ^ k * y" using h xy by (intro mult_right_mono)
  then show "y \<le> 2 * x" using assms(1) by (simp add: nearby_def)
  have "1 / 2 * x \<le> (1 - eps64) ^ k * x" using h xy by (intro mult_right_mono)
  then show "x \<le> 2 * y" using assms(1) by (simp add: nearby_def)
qed

section \<open>Magnitudes\<close>

lemma mag_pos: "mag k x \<Longrightarrow> 0 < x"
  by (simp add: mag_def) (meson divide_pos_pos less_le_trans zero_less_numeral zero_less_one zero_less_power)

lemma mag_mono: "mag j x \<Longrightarrow> j \<le> k \<Longrightarrow> mag k x"
proof -
  assume a: "mag j x" "j \<le> k"
  have "(2::real) ^ j \<le> 2 ^ k" using a(2) by (intro power_increasing) simp_all
  moreover from this have "1 / (2::real) ^ k \<le> 1 / 2 ^ j" by (simp add: field_simps)
  ultimately show ?thesis using a(1) unfolding mag_def by linarith
qed

lemma mag_mult: "mag j x \<Longrightarrow> mag k y \<Longrightarrow> mag (j + k) (x * y)"
proof -
  assume a: "mag j x" "mag k y"
  have p: "0 \<le> x" "0 \<le> y" using mag_pos [OF a(1)] mag_pos [OF a(2)] by simp_all
  have b: "1 / 2 ^ j \<le> x" "x \<le> 2 ^ j" "1 / 2 ^ k \<le> y" "y \<le> 2 ^ k"
    using a by (simp_all only: mag_def)
  have "1 / 2 ^ j * (1 / 2 ^ k) \<le> x * y"
    using b(1) b(3) p by (intro mult_mono) simp_all
  moreover have "x * y \<le> 2 ^ j * 2 ^ k"
    using b(2) b(4) p by (intro mult_mono) simp_all
  ultimately show ?thesis by (simp add: mag_def power_add)
qed

lemma mag_inverse: "mag k x \<Longrightarrow> mag k (1 / x)"
  using mag_pos [of k x] by (simp add: mag_def field_simps)

lemma mag_div: "mag j x \<Longrightarrow> mag k y \<Longrightarrow> mag (j + k) (x / y)"
  using mag_mult [OF _ mag_inverse, of j x k y] by simp

lemma mag_nearby:
  assumes "mag j x" "nearby k x y" "k \<le> 2 ^ 52"
  shows "mag (Suc j) y"
proof -
  have b: "1 / 2 ^ j \<le> x" "x \<le> 2 ^ j" using assms(1) by (simp_all only: mag_def)
  have d: "y \<le> 2 * x" "x \<le> 2 * y" using nearby_double [OF assms(2,3)] .
  define c :: real where "c = 1 / 2 ^ j"
  have "c \<le> x" using b(1) by (simp only: c_def)
  then have "c / 2 \<le> y" using d(2) by linarith
  moreover have "1 / 2 ^ Suc j = c / 2" by (simp add: c_def)
  ultimately have 1: "1 / 2 ^ Suc j \<le> y" by (simp only:)
  have 2: "y \<le> 2 ^ Suc j" using b(2) d(1) by simp
  from 1 2 show ?thesis by (simp only: mag_def)
qed

lemma round64_nearby:
  assumes "1 / 2 ^ 1022 \<le> x" "x < 2 ^ 1023"
  shows "\<exists>y. round64 x = Fin y \<and> nearby 1 x y"
proof -
  have lo: "2 powi (- 1022) \<le> x"
    using assms(1) by (simp add: power_int_minus field_simps)
  from round64_normal [OF lo assms(2)] obtain y
    where y: "round64 x = Fin y" "\<bar>y - x\<bar> \<le> eps64 * x" "0 < y" by blast
  have x: "0 < x" using assms(1) by (rule less_le_trans [rotated]) simp
  have 1: "(1 - eps64) * x \<le> y" using y(2) by (simp add: abs_le_iff algebra_simps)
  have "y \<le> (1 + eps64) * x" using y(2) by (simp add: abs_le_iff algebra_simps)
  then have "(1 - eps64) * y \<le> (1 - eps64) * ((1 + eps64) * x)"
    using eps64_pos by (intro mult_left_mono) simp_all
  also have "\<dots> = x - eps64 * eps64 * x" by (simp add: algebra_simps)
  also have "\<dots> \<le> x" using x by simp
  finally have 2: "(1 - eps64) * y \<le> x" .
  from 1 2 x y show ?thesis by (simp add: nearby_def)
qed

lemma round64_mag:
  assumes "mag k x" "k \<le> 1022"
  shows "\<exists>y. round64 x = Fin y \<and> nearby 1 x y"
proof -
  have m: "mag 1022 x" using assms by (rule mag_mono)
  have "x \<le> 2 ^ 1022" using m by (simp only: mag_def)
  also have "(2::real) ^ 1022 < 2 ^ 1023" by (intro power_strict_increasing) simp_all
  finally have "x < 2 ^ 1023" .
  moreover have "1 / 2 ^ 1022 \<le> x" using m by (simp only: mag_def)
  ultimately show ?thesis by (intro round64_nearby)
qed

section \<open>Rounding without a lower bound\<close>

lemma rhe_zero: "0 \<le> y \<Longrightarrow> y < 1 / 2 \<Longrightarrow> rhe y = 0"
proof -
  assume a: "0 \<le> y" "y < 1 / 2"
  then have "\<lfloor>y\<rfloor> = 0" by (simp add: floor_eq_iff)
  then show ?thesis using a by (simp add: rhe_def Let_def)
qed

text \<open>Below \<open>2\<^sup>1\<^sup>0\<^sup>2\<^sup>3\<close> rounding returns a finite number of the same sign, at most doubled.\<close>

lemma round64_crude_pos:
  assumes "0 < x" "x < 2 ^ 1023"
  shows "\<exists>y. round64 x = Fin y \<and> 0 \<le> y \<and> y \<le> 2 * x"
proof (cases "2 powi (- 1022) \<le> x")
  case True
  from round64_normal [OF True assms(2)] obtain y
    where y: "round64 x = Fin y" "\<bar>y - x\<bar> \<le> eps64 * x" "0 < y" by blast
  have "eps64 * x \<le> 1 * x" using eps64_pos assms(1) by (intro mult_right_mono) simp_all
  then have "y \<le> 2 * x" using y(2) by (simp add: abs_le_iff)
  then show ?thesis using y by auto
next
  case False
  then have lt: "x < 2 powi (- 1022)" by simp
  have "\<lfloor>log 2 x\<rfloor> < - 1022"
    using log2_bracket [OF assms(1)] lt pow2_less_imp [of "\<lfloor>log 2 x\<rfloor>" "- 1022"] by linarith
  then have mx: "max \<lfloor>log 2 x\<rfloor> (- 1022) = - 1022" by simp
  define q :: real where "q = 2 powi (- 1074)"
  have q: "0 < q" by (simp add: q_def)
  define t where "t = x / q"
  have t: "0 < t" using assms(1) q by (simp add: t_def)
  have xt: "x = t * q" using q by (simp add: t_def)
  define m where "m = rhe t"
  define y where "y = of_int m * q"
  have m0: "0 \<le> m" unfolding m_def using t by (intro rhe_nonneg) simp
  have y0: "0 \<le> y" unfolding y_def using m0 q by simp
  have m2: "of_int m \<le> 2 * t"
  proof (cases "t < 1 / 2")
    case True
    then have "m = 0" unfolding m_def using t by (intro rhe_zero) simp_all
    then show ?thesis using t by simp
  next
    case False
    have "\<bar>of_int m - t\<bar> \<le> 1 / 2" unfolding m_def by (rule rhe_close)
    then show ?thesis using False by linarith
  qed
  have y2: "y \<le> 2 * x"
  proof -
    have "y \<le> (2 * t) * q" unfolding y_def using m2 q by (intro mult_right_mono) simp_all
    then show ?thesis by (simp add: xt)
  qed
  have "y < 2 ^ 1024"
  proof -
    have "y \<le> 2 * x" by (rule y2)
    also have "\<dots> < 2 * 2 ^ 1023" using assms(2) by simp
    finally show ?thesis by simp
  qed
  then have ny: "\<not> 2 ^ 1024 \<le> y" by simp
  have e: "(- 1022 - 52 :: int) = - 1074" by simp
  have "round64 x = Fin y"
    by (simp only: round64_pos [OF assms(1)] mx e q_def [symmetric] t_def [symmetric]
        m_def [symmetric] y_def [symmetric] ny if_False)
  then show ?thesis using y0 y2 by blast
qed

lemma round64_crude:
  assumes "\<bar>x\<bar> < 2 ^ 1023"
  shows "\<exists>y. round64 x = Fin y \<and> \<bar>y\<bar> \<le> 2 * \<bar>x\<bar> \<and> (0 \<le> x \<longrightarrow> 0 \<le> y) \<and> (x \<le> 0 \<longrightarrow> y \<le> 0)"
proof -
  consider "x = 0" | "0 < x" | "x < 0" by linarith
  then show ?thesis
  proof cases
    case 1
    then show ?thesis by (simp add: round64_def)
  next
    case 2
    from round64_crude_pos [OF 2] assms 2 obtain y
      where "round64 x = Fin y" "0 \<le> y" "y \<le> 2 * x" by auto
    then show ?thesis using 2 by auto
  next
    case 3
    then have p: "0 < - x" "- x < 2 ^ 1023" using assms by simp_all
    from round64_crude_pos [OF p] obtain y
      where y: "round64 (- x) = Fin y" "0 \<le> y" "y \<le> 2 * (- x)" by auto
    have "round64 x = jneg (round64 (- x))" using round64_neg [of "- x"] by simp
    then have "round64 x = Fin (- y)" by (simp add: y(1))
    then show ?thesis using y 3 by auto
  qed
qed

section \<open>Integers are doubles\<close>

lemma round64_nat:
  assumes "n < 2 ^ 53"
  shows "round64 (real n) = Fin (real n)"
proof (cases "n = 0")
  case True
  then show ?thesis by (simp add: round64_def)
next
  case False
  then have x: "0 < real n" by simp
  define e where "e = \<lfloor>log 2 (real n)\<rfloor>"
  have br: "2 powi e \<le> real n" "real n < 2 powi (e + 1)"
    using log2_bracket [OF x] by (simp_all add: e_def)
  have "(1::real) \<le> real n" using False by simp
  then have "(2::real) powi 0 < 2 powi (e + 1)" using br(2) by simp
  then have e0: "0 \<le> e" using pow2_less_imp [of 0 "e + 1"] by simp
  have "real n < 2 ^ 53" using assms by (metis of_nat_less_iff of_nat_numeral of_nat_power)
  then have "(2::real) powi e < 2 powi 53" using br(1) by simp
  then have e52: "e \<le> 52" using pow2_less_imp [of e 53] by simp
  have mx: "max e (- 1022) = e" using e0 by simp
  define d where "d = nat (52 - e)"
  have q: "(2::real) powi (e - 52) = 1 / 2 ^ d"
  proof -
    have "e - 52 = - int d" using e52 by (simp add: d_def)
    then show ?thesis by (simp only: power_int_minus power_int_of_nat) (simp add: field_simps)
  qed
  have t: "real n / (1 / 2 ^ d) = of_int (int n * 2 ^ d)" by simp
  have y: "of_int (rhe (real n / (1 / 2 ^ d))) * (1 / 2 ^ d) = real n"
    unfolding t rhe_of_int by simp
  have "real n < 2 ^ 1024"
    using \<open>real n < 2 ^ 53\<close> by (rule less_trans) simp
  then show ?thesis
    by (simp only: round64_pos [OF x] e_def [symmetric] mx q y) simp
qed

section \<open>Rounding a given number\<close>

text \<open>
  Once the exponent of a number is known, its rounding is a computation with \<open>rhe\<close>.
\<close>

lemma round64_eval_ge1:
  assumes "2 ^ k \<le> x" "x < 2 * 2 ^ k"
  shows "round64 x =
     (if (2::real) ^ 1024 \<le> of_int (rhe (x * 2 ^ 52 / 2 ^ k)) * 2 ^ k / 2 ^ 52 then PInf
      else Fin (of_int (rhe (x * 2 ^ 52 / 2 ^ k)) * 2 ^ k / 2 ^ 52))"
proof -
  have x: "0 < x" using assms(1) by (rule less_le_trans [rotated]) simp
  have "\<lfloor>log 2 x\<rfloor> = int k"
    using assms by (intro floor_log2_bracket [OF x]) (simp_all add: power_int_add)
  then have mx: "max \<lfloor>log 2 x\<rfloor> (- 1022) = int k" by simp
  have q: "(2::real) powi (int k - 52) = 2 ^ k / 2 ^ 52"
    by (simp add: power_int_diff)
  show ?thesis
    by (simp only: round64_pos [OF x] mx q) (simp add: field_simps)
qed

lemma round64_eval_lt1:
  assumes "1 / 2 ^ k \<le> x" "x < 2 / 2 ^ k" "k \<le> 1022"
  shows "round64 x = Fin (of_int (rhe (x * 2 ^ (k + 52))) / 2 ^ (k + 52))"
proof -
  have x: "0 < x" using assms(1) by (rule less_le_trans [rotated]) simp
  have b1: "2 powi (- int k) = 1 / (2::real) ^ k"
    by (simp only: power_int_minus power_int_of_nat) (simp add: field_simps)
  have b2: "2 powi (- int k + 1) = 2 / (2::real) ^ k"
    using power_int_add [of "2::real" "- int k" 1] by (simp only: b1) simp
  have "\<lfloor>log 2 x\<rfloor> = - int k"
    using assms(1,2) by (intro floor_log2_bracket [OF x]) (simp_all only: b1 b2)
  then have mx: "max \<lfloor>log 2 x\<rfloor> (- 1022) = - int k" using assms(3) by simp
  have q: "(2::real) powi (- int k - 52) = 1 / 2 ^ (k + 52)"
  proof -
    have "- int k - 52 = - int (k + 52)" by simp
    then show ?thesis by (simp only: power_int_minus power_int_of_nat) (simp add: field_simps)
  qed
  define y where "y = of_int (rhe (x * 2 ^ (k + 52))) / (2::real) ^ (k + 52)"
  have t: "x / (1 / 2 ^ (k + 52)) = x * 2 ^ (k + 52)" by simp
  have yy: "of_int (rhe (x * 2 ^ (k + 52))) * (1 / (2::real) ^ (k + 52)) = y" by (simp add: y_def)
  have "\<bar>of_int (rhe (x * 2 ^ (k + 52))) - x * 2 ^ (k + 52)\<bar> \<le> 1 / 2" by (rule rhe_close)
  then have "of_int (rhe (x * 2 ^ (k + 52))) \<le> x * 2 ^ (k + 52) + 1" by linarith
  then have "y \<le> (x * 2 ^ (k + 52) + 1) / 2 ^ (k + 52)"
    unfolding y_def by (intro divide_right_mono) simp_all
  also have "\<dots> = x + 1 / 2 ^ (k + 52)" by (simp add: add_divide_distrib)
  also have "\<dots> < 2 + 1"
  proof -
    have "2 / (2::real) ^ k \<le> 2" by (simp add: field_simps)
    moreover have "1 / (2::real) ^ (k + 52) \<le> 1" by (simp add: field_simps)
    ultimately show ?thesis using assms(2) by linarith
  qed
  finally have "y < 2 ^ 1024" by (rule less_trans) simp
  then have "\<not> 2 ^ 1024 \<le> y" by simp
  then show ?thesis
    by (simp only: round64_pos [OF x] mx q t yy if_False y_def)
qed

lemma round64_eval_sub:
  assumes "0 < x" "x < 1 / 2 ^ 1022"
  shows "round64 x = Fin (of_int (rhe (x * 2 ^ 1074)) / 2 ^ 1074)"
proof -
  have lt: "x < 2 powi (- 1022)" using assms(2) by (simp add: power_int_minus field_simps)
  have "\<lfloor>log 2 x\<rfloor> < - 1022"
    using log2_bracket [OF assms(1)] lt pow2_less_imp [of "\<lfloor>log 2 x\<rfloor>" "- 1022"] by linarith
  then have mx: "max \<lfloor>log 2 x\<rfloor> (- 1022) = - 1022" by simp
  from round64_crude_pos [of x] assms obtain z where z: "round64 x = Fin z"
    by (auto intro: less_trans)
  have q: "(2::real) powi (- 1022 - 52) = 1 / 2 ^ 1074"
    by (simp add: power_int_minus field_simps)
  have t: "x / (1 / 2 ^ 1074) = x * 2 ^ 1074" by simp
  have "round64 x =
     (if (2::real) ^ 1024 \<le> of_int (rhe (x * 2 ^ 1074)) * (1 / 2 ^ 1074) then PInf
      else Fin (of_int (rhe (x * 2 ^ 1074)) * (1 / 2 ^ 1074)))"
    by (simp only: round64_pos [OF assms(1)] mx q t)
  with z show ?thesis by (simp split: if_splits)
qed

section \<open>Sums of doubles\<close>

lemma real_le_pow32: "n \<le> 2 ^ 32 \<Longrightarrow> real n \<le> 2 ^ 32"
  by (metis of_nat_le_iff of_nat_numeral of_nat_power)

lemma sum_list_upper:
  fixes xs :: "real list"
  shows "\<forall>x\<in>set xs. x \<le> h \<Longrightarrow> sum_list xs \<le> real (length xs) * h"
  by (induction xs) (simp_all add: algebra_simps)

lemma sum_list_lower:
  fixes xs :: "real list"
  shows "\<forall>x\<in>set xs. l \<le> x \<Longrightarrow> real (length xs) * l \<le> sum_list xs"
  by (induction xs) (simp_all add: algebra_simps)

lemma elem_le_sum_list:
  fixes xs :: "real list"
  shows "\<forall>x\<in>set xs. 0 \<le> x \<Longrightarrow> y \<in> set xs \<Longrightarrow> y \<le> sum_list xs"
proof (induction xs)
  case Nil
  then show ?case by simp
next
  case (Cons x xs)
  have "0 \<le> sum_list xs" using Cons.prems(1) by (intro sum_list_nonneg) simp
  then show ?case using Cons by auto
qed

lemma mag_sum_list:
  assumes "xs \<noteq> []" "\<forall>x\<in>set xs. mag k x" "length xs \<le> 2 ^ 32"
  shows "mag (k + 32) (sum_list xs)"
proof -
  have nn: "\<forall>x\<in>set xs. 0 \<le> x" using assms(2) mag_pos by (auto intro: less_imp_le)
  have "hd xs \<in> set xs" using assms(1) by simp
  then have "mag k (hd xs)" "hd xs \<le> sum_list xs"
    using assms(2) elem_le_sum_list [OF nn] by simp_all
  then have "1 / 2 ^ k \<le> sum_list xs" by (simp add: mag_def)
  moreover have "1 / (2::real) ^ (k + 32) \<le> 1 / 2 ^ k"
    by (simp add: field_simps power_add)
  ultimately have lo: "1 / 2 ^ (k + 32) \<le> sum_list xs" by linarith
  have "sum_list xs \<le> real (length xs) * 2 ^ k"
    using assms(2) by (intro sum_list_upper) (simp add: mag_def)
  also have "\<dots> \<le> 2 ^ 32 * 2 ^ k"
    using real_le_pow32 [OF assms(3)] by (intro mult_right_mono) simp_all
  finally have "sum_list xs \<le> 2 ^ (k + 32)" by (simp add: power_add mult.commute)
  with lo show ?thesis by (simp only: mag_def)
qed

text \<open>
  The sum of \<open>k\<close> positive doubles, accumulated from 0 as \<^verbatim>\<open>reduce\<close> and the inner loops
  do, is within \<open>k\<close> roundings of the exact sum.
\<close>

lemma fsum64:
  assumes "\<forall>y\<in>set ys. mag 900 y" "length ys \<le> 2 ^ 32"
  shows "\<exists>s. foldl add64 (Fin 0) (map Fin ys) = Fin s \<and> nearby (length ys) (sum_list ys) s"
  using assms
proof (induction ys rule: rev_induct)
  case Nil
  then show ?case by (simp add: nearby_def)
next
  case (snoc x xs)
  from snoc obtain s where s: "foldl add64 (Fin 0) (map Fin xs) = Fin s"
    "nearby (length xs) (sum_list xs) s" by auto
  have len: "length xs \<le> 2 ^ 32" "length xs \<le> 2 ^ 52"
  proof -
    show "length xs \<le> 2 ^ 32" using snoc.prems(2) by simp
    then show "length xs \<le> 2 ^ 52" by (rule order_trans) simp
  qed
  have x: "mag 900 x" using snoc.prems(1) by simp
  then have xb: "1 / 2 ^ 900 \<le> x" "x \<le> 2 ^ 900" "0 < x"
    using mag_pos [OF x] by (simp_all only: mag_def)
  have s0: "0 \<le> s" using s(2) by (simp add: nearby_def)
  have "s \<le> 2 * sum_list xs" using nearby_double(1) [OF s(2) len(2)] .
  also have "sum_list xs \<le> real (length xs) * 2 ^ 900"
    using snoc.prems(1) by (intro sum_list_upper) (simp add: mag_def)
  also have "\<dots> \<le> 2 ^ 32 * 2 ^ 900"
    using real_le_pow32 [OF len(1)] by (intro mult_right_mono) simp_all
  finally have sb: "s \<le> 2 * (2 ^ 32 * 2 ^ 900)" by simp
  have lo: "1 / 2 ^ 1022 \<le> s + x"
  proof -
    have "1 / (2::real) ^ 1022 \<le> 1 / 2 ^ 900" by simp
    then show ?thesis using xb(1) s0 by linarith
  qed
  have hi: "s + x < 2 ^ 1023"
  proof -
    have "s + x \<le> 2 * (2 ^ 32 * 2 ^ 900) + 2 ^ 900" using sb xb(2) by linarith
    also have "\<dots> < 2 ^ 1023" by simp
    finally show ?thesis .
  qed
  from round64_nearby [OF lo hi] obtain z where z: "round64 (s + x) = Fin z"
    "nearby 1 (s + x) z" by blast
  have "nearby (length xs) x x" using xb(3) by (intro nearby_refl) simp
  then have "nearby (length xs) (sum_list xs + x) (s + x)" using s(2) by (intro nearby_add)
  then have "nearby (length xs + 1) (sum_list xs + x) z" using z(2) by (rule nearby_trans)
  then show ?case using s(1) z(1) by simp
qed

section \<open>A row times the vector\<close>

lemma rowdot64_fold:
  "rowdot64 n r w = foldl add64 (Fin 0) (map (\<lambda>j. mul64 (cell r j) (cell w j)) [0..<n])"
  by (simp add: rowdot64_def foldl_map)

lemma sum_list_upt: "sum_list (map f [0..<n]) = (\<Sum>j<n. f j)"
  by (simp add: interv_sum_list_conv_sum_set_nat atLeast0LessThan)

lemma rowdot64_nearby:
  assumes len: "length a = n" "length v = n" "n \<le> 2 ^ 32"
    and a: "\<forall>x\<in>set a. mag 100 x" and v: "\<forall>x\<in>set v. mag 300 x"
  shows "\<exists>y. rowdot64 n (map Fin a) (map Fin v) = Fin y
             \<and> nearby (Suc n) (\<Sum>j<n. a ! j * v ! j) y"
proof -
  define ps where "ps = map (\<lambda>j. unFin (round64 (a ! j * v ! j))) [0..<n]"
  have p: "round64 (a ! j * v ! j) = Fin (ps ! j) \<and> nearby 1 (a ! j * v ! j) (ps ! j)
           \<and> mag 900 (ps ! j)" if "j < n" for j
  proof -
    have "mag 100 (a ! j)" "mag 300 (v ! j)" using that len a v by simp_all
    then have m: "mag 400 (a ! j * v ! j)" using mag_mult [of 100 "a ! j" 300 "v ! j"] by simp
    from round64_mag [OF m] obtain y where y: "round64 (a ! j * v ! j) = Fin y"
      "nearby 1 (a ! j * v ! j) y" by auto
    have "mag (Suc 400) y" using m y(2) by (rule mag_nearby) simp
    then have "mag 900 y" by (rule mag_mono) simp
    then show ?thesis using y that by (simp add: ps_def)
  qed
  have lps: "length ps = n" by (simp add: ps_def)
  have 1: "map (\<lambda>j. mul64 (cell (map Fin a) j) (cell (map Fin v) j)) [0..<n] = map Fin ps"
    by (rule nth_equalityI) (simp_all add: lps cell_map_Fin len p)
  have "\<forall>y\<in>set ps. mag 900 y" using p lps by (auto simp add: in_set_conv_nth)
  from fsum64 [OF this] len(3) lps obtain s
    where s: "foldl add64 (Fin 0) (map Fin ps) = Fin s" "nearby n (sum_list ps) s" by auto
  have "list_all2 (nearby 1) (map (\<lambda>j. a ! j * v ! j) [0..<n]) ps"
    by (rule list_all2_all_nthI) (use p lps in simp_all)
  then have "nearby 1 (sum_list (map (\<lambda>j. a ! j * v ! j) [0..<n])) (sum_list ps)"
    by (rule nearby_sum_list)
  then have "nearby 1 (\<Sum>j<n. a ! j * v ! j) (sum_list ps)" by (simp only: sum_list_upt)
  then have "nearby (1 + n) (\<Sum>j<n. a ! j * v ! j) s" using s(2) by (rule nearby_trans)
  then show ?thesis using s(1) by (simp add: rowdot64_fold 1)
qed

section \<open>One pass of the iteration on doubles\<close>

lemma sum_list_div_const:
  fixes xs :: "real list"
  shows "sum_list (map (\<lambda>y. y / c) xs) = sum_list xs / c"
  by (induction xs) (simp_all add: add_divide_distrib)

lemma matvec64_nearby:
  assumes M: "length M = n" "\<forall>r\<in>set M. length r = n \<and> (\<forall>x\<in>set r. mag 100 x)"
    and n: "n \<le> 2 ^ 32"
    and v: "length v = n" "\<forall>x\<in>set v. mag 300 x"
  shows "\<exists>ys. matvec64 (map (map Fin) M) (map Fin v) = map Fin ys \<and> length ys = n
           \<and> (\<forall>i<n. nearby (Suc n) (\<Sum>j<n. M ! i ! j * v ! j) (ys ! i))"
proof -
  define ys where "ys = map (\<lambda>r. unFin (rowdot64 n (map Fin r) (map Fin v))) M"
  have r: "rowdot64 n (map Fin r) (map Fin v) = Fin (unFin (rowdot64 n (map Fin r) (map Fin v)))
         \<and> nearby (Suc n) (\<Sum>j<n. r ! j * v ! j) (unFin (rowdot64 n (map Fin r) (map Fin v)))"
    if "r \<in> set M" for r
  proof -
    have "length r = n" "\<forall>x\<in>set r. mag 100 x" using that M(2) by simp_all
    from rowdot64_nearby [OF this(1) v(1) n this(2) v(2)] show ?thesis by auto
  qed
  have 1: "matvec64 (map (map Fin) M) (map Fin v) = map Fin ys"
    unfolding matvec64_def ys_def using r by (simp add: M(1) comp_def)
  have 2: "length ys = n" by (simp add: ys_def M(1))
  have 3: "nearby (Suc n) (\<Sum>j<n. M ! i ! j * v ! j) (ys ! i)" if "i < n" for i
  proof -
    have "M ! i \<in> set M" using that M(1) by simp
    from r [OF this] show ?thesis using that by (simp add: ys_def M(1))
  qed
  from 1 2 3 show ?thesis by blast
qed

text \<open>
  A row product divided by the sum of the vector lies between the least and the greatest
  entry of the row.
\<close>

lemma row_relative:
  assumes a: "length a = n" "\<forall>x\<in>set a. mag 100 x"
    and v: "length v = n" "\<forall>x\<in>set v. 0 < x" and n: "0 < n"
  shows "mag 100 ((\<Sum>j<n. a ! j * v ! j) / sum_list v)"
proof -
  have sv: "sum_list v = (\<Sum>j<n. v ! j)"
    using v(1) by (simp add: sum_list_sum_nth atLeast0LessThan)
  have vp: "0 < v ! j" if "j < n" for j using that v by simp
  have "0 < v ! 0" using n by (rule vp)
  also have "v ! 0 \<le> (\<Sum>j<n. v ! j)"
    using n vp by (intro member_le_sum) (auto intro: less_imp_le)
  finally have sp: "0 < sum_list v" by (simp add: sv)
  have ab: "1 / 2 ^ 100 \<le> a ! j \<and> a ! j \<le> 2 ^ 100" if "j < n" for j
    using that a by (simp add: mag_def)
  have "(\<Sum>j<n. 1 / 2 ^ 100 * v ! j) \<le> (\<Sum>j<n. a ! j * v ! j)"
    using ab vp by (intro sum_mono mult_right_mono) (auto intro: less_imp_le)
  then have lo: "1 / 2 ^ 100 * sum_list v \<le> (\<Sum>j<n. a ! j * v ! j)"
    by (simp only: sv sum_distrib_left)
  have "(\<Sum>j<n. a ! j * v ! j) \<le> (\<Sum>j<n. 2 ^ 100 * v ! j)"
    using ab vp by (intro sum_mono mult_right_mono) (auto intro: less_imp_le)
  then have hi: "(\<Sum>j<n. a ! j * v ! j) \<le> 2 ^ 100 * sum_list v"
    by (simp only: sv sum_distrib_left)
  from lo hi sp show ?thesis
    by (simp only: mag_def pos_le_divide_eq pos_divide_le_eq)
qed

lemma nearby_scale:
  assumes "nearby k x y" "0 < c"
  shows "nearby k (x / c) (y / c)"
  using nearby_div [OF assms(1) nearby_refl [of c 0] assms(2)] assms(2) by simp

lemma pass64_good:
  assumes M: "length M = n" "\<forall>r\<in>set M. length r = n \<and> (\<forall>x\<in>set r. mag 100 x)"
    and n: "0 < n" "n \<le> 2 ^ 32"
    and v: "length v = n" "\<forall>x\<in>set v. mag 300 x"
    and Aw: "Aw = matvec64 (map (map Fin) M) (map Fin v)"
  shows "\<exists>v'. map (\<lambda>x. div64 x (foldl add64 (Fin 0) Aw)) Aw = map Fin v' \<and> length v' = n
           \<and> (\<forall>x\<in>set v'. mag 300 x) \<and> nearby (Suc n) 1 (sum_list v')"
proof -
  from matvec64_nearby [OF M n(2) v] Aw obtain ys
    where ys: "Aw = map Fin ys" "length ys = n"
      "\<forall>i<n. nearby (Suc n) (\<Sum>j<n. M ! i ! j * v ! j) (ys ! i)" by auto
  have n52: "n \<le> 2 ^ 52" "Suc n \<le> 2 ^ 52"
  proof -
    have "(2::nat) ^ 32 < 2 ^ 52" by (intro power_strict_increasing) simp_all
    then show "n \<le> 2 ^ 52" "Suc n \<le> 2 ^ 52" using n(2) by simp_all
  qed
  define sg where "sg = sum_list v"
  have vne: "v \<noteq> []" using v(1) n(1) by auto
  have vpos: "\<forall>x\<in>set v. 0 < x" using v(2) mag_pos by auto
  have sg: "mag (300 + 32) sg"
    unfolding sg_def using vne v(2) n(2) v(1) by (intro mag_sum_list) simp_all
  have sgp: "0 < sg" using sg by (rule mag_pos)
  have yrel: "mag 101 (ys ! i / sg)" if "i < n" for i
  proof -
    have "M ! i \<in> set M" using that M(1) by simp
    then have "length (M ! i) = n" "\<forall>x\<in>set (M ! i). mag 100 x" using M(2) by simp_all
    from row_relative [OF this v(1) vpos n(1)]
    have t: "mag 100 ((\<Sum>j<n. M ! i ! j * v ! j) / sg)" by (simp only: sg_def)
    have "nearby (Suc n) ((\<Sum>j<n. M ! i ! j * v ! j) / sg) (ys ! i / sg)"
      using ys(3) that sgp by (intro nearby_scale) simp_all
    from mag_nearby [OF t this n52(2)] show ?thesis by simp
  qed
  have yabs: "mag 900 (ys ! i)" if "i < n" for i
  proof -
    have "mag (101 + (300 + 32)) (ys ! i / sg * sg)"
      using yrel [OF that] sg by (rule mag_mult)
    then have "mag (101 + (300 + 32)) (ys ! i)" using sgp by simp
    then show ?thesis by (rule mag_mono) simp
  qed
  have y900: "\<forall>y\<in>set ys. mag 900 y" using yabs ys(2) by (auto simp add: in_set_conv_nth)
  from fsum64 [OF y900] ys(2) n(2) obtain s
    where s: "foldl add64 (Fin 0) (map Fin ys) = Fin s" "nearby n (sum_list ys) s" by auto
  have "mag (101 + 32) (sum_list (map (\<lambda>y. y / sg) ys))"
  proof (rule mag_sum_list)
    show "map (\<lambda>y. y / sg) ys \<noteq> []" using ys(2) n(1) by auto
    show "\<forall>x\<in>set (map (\<lambda>y. y / sg) ys). mag 101 x"
      using yrel ys(2) by (auto simp add: in_set_conv_nth)
    show "length (map (\<lambda>y. y / sg) ys) \<le> 2 ^ 32" using ys(2) n(2) by simp
  qed
  then have srel0: "mag (101 + 32) (sum_list ys / sg)" by (simp only: sum_list_div_const)
  have "nearby n (sum_list ys / sg) (s / sg)" using s(2) sgp by (rule nearby_scale)
  from mag_nearby [OF srel0 this n52(1)] have srel: "mag 134 (s / sg)" by simp
  have "mag (134 + (300 + 32)) (s / sg * sg)" using srel sg by (rule mag_mult)
  then have sabs: "mag 466 s" using sgp by simp
  have sp: "0 < s" using sabs by (rule mag_pos)
  define v' where "v' = map (\<lambda>y. unFin (round64 (y / s))) ys"
  have q: "round64 (ys ! i / s) = Fin (v' ! i) \<and> nearby 1 (ys ! i / s) (v' ! i)
           \<and> mag 300 (v' ! i)" if "i < n" for i
  proof -
    have "mag (101 + 134) (ys ! i / sg / (s / sg))"
      using yrel [OF that] srel by (rule mag_div)
    then have m: "mag 235 (ys ! i / s)" using sgp by simp
    from round64_mag [OF m] obtain z where z: "round64 (ys ! i / s) = Fin z"
      "nearby 1 (ys ! i / s) z" by auto
    have "mag (Suc 235) z" using m z(2) by (rule mag_nearby) simp
    then have "mag 300 z" by (rule mag_mono) simp
    then show ?thesis using z that ys(2) by (simp add: v'_def)
  qed
  have lv: "length v' = n" by (simp add: v'_def ys(2))
  have 1: "map (\<lambda>x. div64 x (foldl add64 (Fin 0) Aw)) Aw = map Fin v'"
    unfolding ys(1) s(1)
    by (rule nth_equalityI) (use sp q ys(2) lv in simp_all)
  have 3: "\<forall>x\<in>set v'. mag 300 x" using q lv by (auto simp add: in_set_conv_nth)
  have "list_all2 (nearby 1) (map (\<lambda>y. y / s) ys) v'"
    by (rule list_all2_all_nthI) (use q ys(2) lv in simp_all)
  then have "nearby 1 (sum_list (map (\<lambda>y. y / s) ys)) (sum_list v')" by (rule nearby_sum_list)
  then have a: "nearby 1 (sum_list ys / s) (sum_list v')" by (simp only: sum_list_div_const)
  have "nearby (n + 0) (sum_list ys / s) (s / s)"
    using s(2) nearby_refl [of s 0] sp by (intro nearby_div) simp_all
  then have "nearby n (sum_list ys / s) 1" using sp by simp
  then have "nearby n 1 (sum_list ys / s)" by (rule nearby_sym)
  then have "nearby (n + 1) 1 (sum_list v')" using a by (rule nearby_trans)
  then have 4: "nearby (Suc n) 1 (sum_list v')" by simp
  from 1 lv 3 4 show ?thesis by blast
qed

section \<open>The loop on doubles\<close>

lemma pi_loop64_good:
  fixes M :: "real list list"
  assumes M: "length M = n" "\<forall>r\<in>set M. length r = n \<and> (\<forall>x\<in>set r. mag 100 x)"
    and n: "0 < n" "n \<le> 2 ^ 32"
  shows "length v = n \<Longrightarrow> \<forall>x\<in>set v. mag 300 x \<Longrightarrow> nearby (Suc n) 1 (sum_list v) \<Longrightarrow>
         A = map (map Fin) M \<Longrightarrow> w = map Fin v \<Longrightarrow>
         \<exists>v'. fst (pi_loop64 A maxIter tol it w) = map Fin v' \<and> length v' = n
               \<and> (\<forall>x\<in>set v'. mag 300 x) \<and> nearby (Suc n) 1 (sum_list v')"
proof (induction A maxIter tol it w arbitrary: v rule: pi_loop64.induct)
  case (1 A maxIter tol it w)
  show ?case
  proof (cases "it < maxIter")
    case False
    then show ?thesis using "1.prems" by (subst pi_loop64.simps) auto
  next
    case True
    define Aw where "Aw = matvec64 A w"
    have Aw: "Aw = matvec64 (map (map Fin) M) (map Fin v)"
      using "1.prems" by (simp add: Aw_def)
    from pass64_good [OF M n "1.prems"(1) "1.prems"(2) Aw] obtain v'
      where v': "map (\<lambda>x. div64 x (foldl add64 (Fin 0) Aw)) Aw = map Fin v'" "length v' = n"
        "\<forall>x\<in>set v'. mag 300 x" "nearby (Suc n) 1 (sum_list v')" by blast
    have unfold: "pi_loop64 A maxIter tol it w =
        (if jlt (maxdiff64 (length A) (map Fin v') w) tol then (map Fin v', Suc it)
         else pi_loop64 A maxIter tol (Suc it) (map Fin v'))"
      by (subst pi_loop64.simps) (simp only: True if_True Let_def Aw_def [symmetric] v'(1))
    show ?thesis
    proof (cases "jlt (maxdiff64 (length A) (map Fin v') w) tol")
      case t: True
      show ?thesis unfolding unfold using t v'(2,3,4) by auto
    next
      case f: False
      note IH = "1.IH" [OF True refl refl refl refl, unfolded Aw_def [symmetric] v'(1)]
      have "\<exists>v''. fst (pi_loop64 A maxIter tol (Suc it) (map Fin v')) = map Fin v''
               \<and> length v'' = n \<and> (\<forall>x\<in>set v''. mag 300 x) \<and> nearby (Suc n) 1 (sum_list v'')"
        by (rule IH [OF f v'(2) v'(3) v'(4) "1.prems"(4) refl])
      then show ?thesis unfolding unfold using f by simp
    qed
  qed
qed

section \<open>The eigenvalue estimate on doubles\<close>

lemma real_mag32: "0 < n \<Longrightarrow> n \<le> 2 ^ 32 \<Longrightarrow> mag 32 (real n)"
proof -
  assume a: "0 < n" "n \<le> 2 ^ 32"
  have "1 / (2::real) ^ 32 \<le> 1" by simp
  also have "1 \<le> real n" using a(1) by simp
  finally show ?thesis using real_le_pow32 [OF a(2)] by (simp only: mag_def)
qed

lemma n_le_pow52: "(n::nat) \<le> 2 ^ 32 \<Longrightarrow> 2 * n + 3 \<le> 2 ^ 52"
proof -
  assume "n \<le> 2 ^ 32"
  then have "2 * n + 3 \<le> 2 * 2 ^ 32 + 3" by simp
  also have "\<dots> \<le> (2::nat) ^ 52" by simp
  finally show ?thesis .
qed

text \<open>The start vector \<^verbatim>\<open>Array(n).fill(1/n)\<close>.\<close>

lemma start64_good:
  assumes n: "0 < n" "n \<le> 2 ^ 32"
  shows "\<exists>c. div64 (Fin 1) (Fin (real n)) = Fin c \<and> mag 300 c
           \<and> nearby (Suc n) 1 (sum_list (replicate n c))"
proof -
  have "mag (0 + 32) (1 / real n)"
    using real_mag32 [OF n] by (intro mag_div) (simp_all add: mag_def)
  then have m: "mag 32 (1 / real n)" by simp
  from round64_mag [OF m] obtain c where c: "round64 (1 / real n) = Fin c"
    "nearby 1 (1 / real n) c" by auto
  have "mag (Suc 32) c" using m c(2) by (rule mag_nearby) simp
  then have 1: "mag 300 c" by (rule mag_mono) simp
  have "nearby (0 + 1) (real n * (1 / real n)) (real n * c)"
    using c(2) by (intro nearby_mult nearby_refl) simp
  then have "nearby 1 1 (real n * c)" using n(1) by simp
  then have "nearby (Suc n) 1 (real n * c)" by (rule nearby_mono) simp
  then have 2: "nearby (Suc n) 1 (sum_list (replicate n c))" by (simp add: sum_list_replicate)
  have "div64 (Fin 1) (Fin (real n)) = Fin c" using n(1) c(1) by simp
  with 1 2 show ?thesis by blast
qed

lemma matvec64_mag:
  assumes M: "length M = n" "\<forall>r\<in>set M. length r = n \<and> (\<forall>x\<in>set r. mag 100 x)"
    and n: "0 < n" "n \<le> 2 ^ 32"
    and v: "length v = n" "\<forall>x\<in>set v. mag 300 x"
    and i: "i < n"
  shows "mag 432 (\<Sum>j<n. M ! i ! j * v ! j)"
proof -
  have vne: "v \<noteq> []" using v(1) n(1) by auto
  have vpos: "\<forall>x\<in>set v. 0 < x" using v(2) mag_pos by auto
  have sg: "mag (300 + 32) (sum_list v)"
    using vne v(2) n(2) v(1) by (intro mag_sum_list) simp_all
  have sgp: "0 < sum_list v" using sg by (rule mag_pos)
  have "M ! i \<in> set M" using i M(1) by simp
  then have "length (M ! i) = n" "\<forall>x\<in>set (M ! i). mag 100 x" using M(2) by simp_all
  from row_relative [OF this v(1) vpos n(1)]
  have "mag 100 ((\<Sum>j<n. M ! i ! j * v ! j) / sum_list v)" .
  from mag_mult [OF this sg] show ?thesis using sgp by simp
qed

lemma lambda_fold64:
  "foldl (\<lambda>a (x, i). add64 a (div64 x (cell w i))) (Fin 0) xs =
   foldl add64 (Fin 0) (map (\<lambda>(x, i). div64 x (cell w i)) xs)"
  by (simp add: foldl_map split_def)

lemma lambda64_nearby:
  assumes M: "length M = n" "\<forall>r\<in>set M. length r = n \<and> (\<forall>x\<in>set r. mag 100 x)"
    and n: "0 < n" "n \<le> 2 ^ 32"
    and v: "length v = n" "\<forall>x\<in>set v. mag 300 x"
    and Aw: "Aw = matvec64 (map (map Fin) M) (map Fin v)"
  shows "\<exists>l. div64 (foldl (\<lambda>a (x, i). add64 a (div64 x (cell (map Fin v) i))) (Fin 0)
                    (zip Aw [0..<length Aw])) (Fin (real n)) = Fin l
           \<and> nearby (2 * n + 3) ((\<Sum>i<n. (\<Sum>j<n. M ! i ! j * v ! j) / v ! i) / real n) l
           \<and> mag 900 l"
proof -
  from matvec64_nearby [OF M n(2) v] Aw obtain ys
    where ys: "Aw = map Fin ys" "length ys = n"
      "\<forall>i<n. nearby (Suc n) (\<Sum>j<n. M ! i ! j * v ! j) (ys ! i)" by auto
  have n52: "n \<le> 2 ^ 52" "Suc n \<le> 2 ^ 52"
  proof -
    have "(2::nat) ^ 32 < 2 ^ 52" by (intro power_strict_increasing) simp_all
    then show "n \<le> 2 ^ 52" "Suc n \<le> 2 ^ 52" using n(2) by simp_all
  qed
  have vm: "mag 300 (v ! i)" if "i < n" for i using that v by simp
  have vp: "0 < v ! i" if "i < n" for i using vm [OF that] by (rule mag_pos)
  define T where "T i = (\<Sum>j<n. M ! i ! j * v ! j)" for i
  have ym: "mag 433 (ys ! i)" if "i < n" for i
  proof -
    have "mag 432 (T i)" unfolding T_def using M n v that by (rule matvec64_mag)
    moreover have "nearby (Suc n) (T i) (ys ! i)" using ys(3) that by (simp add: T_def)
    ultimately have "mag (Suc 432) (ys ! i)" using n52(2) by (rule mag_nearby)
    then show ?thesis by simp
  qed
  define qs where "qs = map (\<lambda>i. unFin (round64 (ys ! i / v ! i))) [0..<n]"
  have lq: "length qs = n" by (simp add: qs_def)
  have q: "round64 (ys ! i / v ! i) = Fin (qs ! i) \<and> nearby 1 (ys ! i / v ! i) (qs ! i)
           \<and> mag 734 (qs ! i)" if "i < n" for i
  proof -
    have "mag (433 + 300) (ys ! i / v ! i)" using ym [OF that] vm [OF that] by (rule mag_div)
    then have m: "mag 733 (ys ! i / v ! i)" by simp
    from round64_mag [OF m] obtain z where z: "round64 (ys ! i / v ! i) = Fin z"
      "nearby 1 (ys ! i / v ! i) z" by auto
    have "mag (Suc 733) z" using m z(2) by (rule mag_nearby) simp
    then have "mag 734 z" by simp
    then show ?thesis using z that by (simp add: qs_def)
  qed
  have 1: "map (\<lambda>(x, i). div64 x (cell (map Fin v) i)) (zip (map Fin ys) [0..<n]) = map Fin qs"
  proof (rule nth_equalityI)
    show "length (map (\<lambda>(x, i). div64 x (cell (map Fin v) i)) (zip (map Fin ys) [0..<n]))
          = length (map Fin qs)" by (simp add: ys(2) lq)
  next
    fix i assume "i < length (map (\<lambda>(x, i). div64 x (cell (map Fin v) i)) (zip (map Fin ys) [0..<n]))"
    then have i: "i < n" by (simp add: ys(2))
    have "v ! i \<noteq> 0" using vp [OF i] by simp
    then show "map (\<lambda>(x, i). div64 x (cell (map Fin v) i)) (zip (map Fin ys) [0..<n]) ! i
               = map Fin qs ! i"
      using i q [OF i] by (simp add: ys(2) lq v(1) cell_map_Fin)
  qed
  have q900: "\<forall>y\<in>set qs. mag 900 y"
  proof
    fix y assume "y \<in> set qs"
    then obtain i where "i < n" "y = qs ! i" using lq by (auto simp add: in_set_conv_nth)
    then have "mag 734 y" using q by simp
    then show "mag 900 y" by (rule mag_mono) simp
  qed
  from fsum64 [OF q900] lq n(2) obtain l0
    where l0: "foldl add64 (Fin 0) (map Fin qs) = Fin l0" "nearby n (sum_list qs) l0" by auto
  have a: "nearby (Suc n) (sum_list (map (\<lambda>i. T i / v ! i) [0..<n]))
                          (sum_list (map (\<lambda>i. ys ! i / v ! i) [0..<n]))"
  proof (rule nearby_sum_list, rule list_all2_all_nthI)
    show "length (map (\<lambda>i. T i / v ! i) [0..<n]) = length (map (\<lambda>i. ys ! i / v ! i) [0..<n])"
      by simp
  next
    fix i assume "i < length (map (\<lambda>i. T i / v ! i) [0..<n])"
    then have i: "i < n" by simp
    have "nearby (Suc n) (T i / v ! i) (ys ! i / v ! i)"
      using ys(3) i vp [OF i] by (intro nearby_scale) (simp_all add: T_def)
    then show "nearby (Suc n) (map (\<lambda>i. T i / v ! i) [0..<n] ! i)
                              (map (\<lambda>i. ys ! i / v ! i) [0..<n] ! i)"
      using i by simp
  qed
  have b: "nearby 1 (sum_list (map (\<lambda>i. ys ! i / v ! i) [0..<n])) (sum_list qs)"
    by (rule nearby_sum_list, rule list_all2_all_nthI) (use q lq in simp_all)
  have "nearby (Suc n + 1 + n) (sum_list (map (\<lambda>i. T i / v ! i) [0..<n])) l0"
    using nearby_trans [OF nearby_trans [OF a b] l0(2)] .
  moreover have "Suc n + 1 + n = 2 * n + 2" by simp
  ultimately have c: "nearby (2 * n + 2) (\<Sum>i<n. T i / v ! i) l0"
    by (simp only: sum_list_upt)
  have "mag (734 + 32) (sum_list qs)"
  proof (rule mag_sum_list)
    show "qs \<noteq> []" using lq n(1) by auto
    show "\<forall>x\<in>set qs. mag 734 x" using q lq by (auto simp add: in_set_conv_nth)
    show "length qs \<le> 2 ^ 32" using lq n(2) by simp
  qed
  from mag_nearby [OF this l0(2) n52(1)] have l0m: "mag 767 l0" by simp
  have "mag (767 + 32) (l0 / real n)" using l0m real_mag32 [OF n] by (rule mag_div)
  then have m: "mag 799 (l0 / real n)" by simp
  from round64_mag [OF m] obtain l where l: "round64 (l0 / real n) = Fin l"
    "nearby 1 (l0 / real n) l" by auto
  have "mag (Suc 799) l" using m l(2) by (rule mag_nearby) simp
  then have 3: "mag 900 l" by (rule mag_mono) simp
  have "nearby (2 * n + 2) ((\<Sum>i<n. T i / v ! i) / real n) (l0 / real n)"
    using c n(1) by (intro nearby_scale) simp_all
  then have "nearby (2 * n + 2 + 1) ((\<Sum>i<n. T i / v ! i) / real n) l"
    using l(2) by (rule nearby_trans)
  moreover have "2 * n + 2 + 1 = 2 * n + 3" by simp
  ultimately have 2:
    "nearby (2 * n + 3) ((\<Sum>i<n. (\<Sum>j<n. M ! i ! j * v ! j) / v ! i) / real n) l"
    by (simp only: T_def)
  have "div64 (foldl (\<lambda>a (x, i). add64 a (div64 x (cell (map Fin v) i))) (Fin 0)
                (zip Aw [0..<length Aw])) (Fin (real n)) = Fin l"
    unfolding lambda_fold64 ys(1) length_map ys(2) 1 l0(1) using n(1) l(1) by simp
  with 2 3 show ?thesis by blast
qed

lemma powerIterationWeights64_good:
  fixes M :: "real list list"
  assumes M: "length M = n" "\<forall>r\<in>set M. length r = n \<and> (\<forall>x\<in>set r. mag 100 x)"
    and n: "0 < n" "n \<le> 2 ^ 32"
  shows "\<exists>v l. powerIterationWeights64 (map (map Fin) M) maxIter tol
                 = \<lparr>weights = map Fin v, lambdaMax = Fin l\<rparr>
           \<and> length v = n \<and> (\<forall>x\<in>set v. mag 300 x) \<and> nearby (Suc n) 1 (sum_list v)
           \<and> nearby (2 * n + 3) ((\<Sum>i<n. (\<Sum>j<n. M ! i ! j * v ! j) / v ! i) / real n) l
           \<and> mag 900 l"
proof -
  let ?A = "map (map Fin) M"
  from start64_good [OF n] obtain c where c: "div64 (Fin 1) (Fin (real n)) = Fin c"
    "mag 300 c" "nearby (Suc n) 1 (sum_list (replicate n c))" by blast
  have w0: "replicate (length ?A) (div64 (Fin 1) (Fin (real (length ?A))))
            = map Fin (replicate n c)"
    by (simp only: length_map M(1) c(1) map_replicate)
  have "\<exists>v. fst (pi_loop64 ?A maxIter tol 0 (map Fin (replicate n c))) = map Fin v
          \<and> length v = n \<and> (\<forall>x\<in>set v. mag 300 x) \<and> nearby (Suc n) 1 (sum_list v)"
    by (rule pi_loop64_good [OF M n _ _ c(3) refl refl]) (simp_all add: c(2))
  then obtain v where v: "fst (pi_loop64 ?A maxIter tol 0 (map Fin (replicate n c))) = map Fin v"
    "length v = n" "\<forall>x\<in>set v. mag 300 x" "nearby (Suc n) 1 (sum_list v)" by blast
  from lambda64_nearby [OF M n v(2) v(3) refl] obtain l
    where l: "div64 (foldl (\<lambda>a (x, i). add64 a (div64 x (cell (map Fin v) i))) (Fin 0)
                    (zip (matvec64 ?A (map Fin v)) [0..<length (matvec64 ?A (map Fin v))]))
                (Fin (real n)) = Fin l"
      "nearby (2 * n + 3) ((\<Sum>i<n. (\<Sum>j<n. M ! i ! j * v ! j) / v ! i) / real n) l"
      "mag 900 l" by blast
  have "powerIterationWeights64 ?A maxIter tol = \<lparr>weights = map Fin v, lambdaMax = Fin l\<rparr>"
    unfolding powerIterationWeights64_def Let_def w0 v(1) using l(1) by (simp add: M(1))
  with v(2,3,4) l(2,3) show ?thesis by blast
qed

section \<open>Reciprocal matrices on doubles\<close>

lemma moderate_Fin: "moderate x \<Longrightarrow> x = Fin (unFin x) \<and> mag 100 (unFin x)"
  by (cases x) (simp_all add: mag_def)

lemma moderate_list: "\<forall>x\<in>set xs. moderate x \<Longrightarrow> map Fin (map unFin xs) = xs"
proof (induction xs)
  case Nil
  then show ?case by simp
next
  case (Cons x xs)
  then show ?case using moderate_Fin [of x] by simp
qed

lemma moderate_reals:
  assumes "moderate_entries A"
  obtains M where "A = map (map Fin) M" "\<forall>r\<in>set M. \<forall>x\<in>set r. mag 100 x"
proof
  let ?M = "map (map unFin) A"
  have "map (\<lambda>r. map Fin (map unFin r)) A = map (\<lambda>r. r) A"
    using assms by (intro map_cong refl moderate_list) (simp add: moderate_entries_def)
  then show "A = map (map Fin) ?M" by (simp add: comp_def)
  show "\<forall>r\<in>set ?M. \<forall>x\<in>set r. mag 100 x"
  proof (intro ballI)
    fix r x assume "r \<in> set ?M" "x \<in> set r"
    then obtain r' y where "r' \<in> set A" "y \<in> set r'" "x = unFin y" by auto
    moreover from this assms have "moderate y" by (simp add: moderate_entries_def)
    ultimately show "mag 100 x" using moderate_Fin [of y] by simp
  qed
qed

lemma quotient64_product:
  assumes "mag 100 b" "Fin a = div64 (Fin 1) (Fin b)"
  shows "1 - eps64 \<le> a * b"
proof -
  have b: "0 < b" using assms(1) by (rule mag_pos)
  have "mag 100 (1 / b)" using assms(1) by (rule mag_inverse)
  from round64_mag [OF this] obtain z where z: "round64 (1 / b) = Fin z" "nearby 1 (1 / b) z"
    by auto
  have "a = z" using assms(2) b z(1) by simp
  then have "(1 - eps64) * (1 / b) \<le> a" using z(2) by (simp add: nearby_def)
  then have "(1 - eps64) * (1 / b) * b \<le> a * b" using b by (intro mult_right_mono) simp_all
  then show ?thesis using b by simp
qed

lemma reals_reciprocal64:
  assumes "reciprocal64 (map (map Fin) M)" "unit_diagonal (map (map Fin) M)"
    and rows: "\<forall>r\<in>set M. length r = length M"
    and m: "\<forall>r\<in>set M. \<forall>x\<in>set r. mag 100 x"
    and ij: "i < length M" "j < length M"
  shows "1 - eps64 \<le> M ! i ! j * M ! j ! i"
proof -
  have len: "length (M ! i) = length M" "length (M ! j) = length M"
    using rows ij by simp_all
  have mm: "mag 100 (M ! i ! j)" "mag 100 (M ! j ! i)"
  proof -
    have "M ! i \<in> set M" "M ! i ! j \<in> set (M ! i)" using ij len by simp_all
    then show "mag 100 (M ! i ! j)" using m by blast
    have "M ! j \<in> set M" "M ! j ! i \<in> set (M ! j)" using ij len by simp_all
    then show "mag 100 (M ! j ! i)" using m by blast
  qed
  have ci: "cell (map (map Fin) M ! i) j = Fin (M ! i ! j)"
       "cell (map (map Fin) M ! j) i = Fin (M ! j ! i)"
       "cell (map (map Fin) M ! i) i = Fin (M ! i ! i)"
    using ij len by (simp_all add: cell_map_Fin)
  show ?thesis
  proof (cases "i = j")
    case True
    have "cell (map (map Fin) M ! i) i = Fin 1"
      using assms(2) [unfolded unit_diagonal_def length_map, rule_format, OF ij(1)] .
    then have "M ! i ! i = 1" unfolding ci by simp
    then show ?thesis using True eps64_pos by simp
  next
    case False
    have "cell (map (map Fin) M ! i) j = div64 (Fin 1) (cell (map (map Fin) M ! j) i)
        \<or> cell (map (map Fin) M ! j) i = div64 (Fin 1) (cell (map (map Fin) M ! i) j)"
      using assms(1) [unfolded reciprocal64_def length_map, rule_format, OF ij False] .
    then have "Fin (M ! i ! j) = div64 (Fin 1) (Fin (M ! j ! i))
        \<or> Fin (M ! j ! i) = div64 (Fin 1) (Fin (M ! i ! j))"
      unfolding ci .
    then show ?thesis
    proof
      assume "Fin (M ! i ! j) = div64 (Fin 1) (Fin (M ! j ! i))"
      with mm(2) show ?thesis by (rule quotient64_product)
    next
      assume "Fin (M ! j ! i) = div64 (Fin 1) (Fin (M ! i ! j))"
      with mm(1) have "1 - eps64 \<le> M ! j ! i * M ! i ! j" by (rule quotient64_product)
      then show ?thesis by (simp add: mult.commute)
    qed
  qed
qed

lemma le_sum_of_near_reciprocals:
  fixes x y :: real
  assumes "0 < x" "0 < y" "c \<le> x * y" "0 \<le> c" "c \<le> 1"
  shows "2 * c \<le> x + y"
proof -
  have "0 \<le> (x - y)\<^sup>2" by simp
  then have "4 * (x * y) \<le> (x + y)\<^sup>2"
    by (simp add: power2_eq_square algebra_simps)
  moreover have "c * c \<le> 1 * c" using assms(4,5) by (intro mult_right_mono)
  ultimately have "4 * (c * c) \<le> (x + y)\<^sup>2" using assms(3) by linarith
  then have "(2 * c)\<^sup>2 \<le> (x + y)\<^sup>2" by (simp add: power2_eq_square)
  then show ?thesis
    by (rule power2_le_imp_le) (use assms in simp)
qed

lemma near_reciprocal_double_sum:
  fixes f :: "nat \<Rightarrow> nat \<Rightarrow> real"
  assumes pos: "\<And>i j. i < n \<Longrightarrow> j < n \<Longrightarrow> 0 < f i j"
    and rec: "\<And>i j. i < n \<Longrightarrow> j < n \<Longrightarrow> c \<le> f i j * f j i"
    and c: "0 \<le> c" "c \<le> 1"
  shows "real n * real n * c \<le> (\<Sum>i<n. \<Sum>j<n. f i j)"
proof -
  let ?S = "\<Sum>i<n. \<Sum>j<n. f i j"
  have sw: "(\<Sum>i<n. \<Sum>j<n. f j i) = ?S" by (rule sum.swap)
  have "(\<Sum>i<n. \<Sum>j<n. 2 * c) \<le> (\<Sum>i<n. \<Sum>j<n. f i j + f j i)"
    by (intro sum_mono le_sum_of_near_reciprocals pos rec c) simp_all
  also have "\<dots> = ?S + ?S"
    by (simp add: sum.distrib sw)
  finally show ?thesis by simp
qed

text \<open>
  The quotient sum that \<open>lambdaMax\<close> estimates is at least \<open>n (1 - 2\<^sup>-\<^sup>5\<^sup>3)\<close> on a matrix
  that is reciprocal up to the rounding of its quotients.
\<close>

lemma eigen_quotient_lower:
  fixes M :: "real list list"
  assumes M: "length M = n" "\<forall>r\<in>set M. length r = n \<and> (\<forall>x\<in>set r. mag 100 x)"
    and n: "0 < n"
    and v: "length v = n" "\<forall>x\<in>set v. mag 300 x"
    and rec: "\<And>i j. i < n \<Longrightarrow> j < n \<Longrightarrow> 1 - eps64 \<le> M ! i ! j * M ! j ! i"
  shows "real n * (1 - eps64) \<le> (\<Sum>i<n. (\<Sum>j<n. M ! i ! j * v ! j) / v ! i) / real n"
proof -
  have vp: "0 < v ! i" if "i < n" for i
  proof -
    have "mag 300 (v ! i)" using that v by simp
    then show ?thesis by (rule mag_pos)
  qed
  have Mij: "0 < M ! i ! j" if "i < n" "j < n" for i j
  proof -
    have "M ! i \<in> set M" using that M(1) by simp
    moreover from this have "M ! i ! j \<in> set (M ! i)" using that M(2) by simp
    ultimately have "mag 100 (M ! i ! j)" using M(2) by blast
    then show ?thesis by (rule mag_pos)
  qed
  define S where "S = (\<Sum>i<n. (\<Sum>j<n. M ! i ! j * v ! j) / v ! i)"
  have "S = (\<Sum>i<n. \<Sum>j<n. M ! i ! j * v ! j / v ! i)"
    unfolding S_def by (rule sum.cong) (simp_all add: sum_divide_distrib)
  moreover have "real n * real n * (1 - eps64) \<le> (\<Sum>i<n. \<Sum>j<n. M ! i ! j * v ! j / v ! i)"
  proof (rule near_reciprocal_double_sum)
    fix i j assume ij: "i < n" "j < n"
    show "0 < M ! i ! j * v ! j / v ! i"
      using Mij [OF ij] vp [OF ij(1)] vp [OF ij(2)] by simp
    have "M ! i ! j * v ! j / v ! i * (M ! j ! i * v ! i / v ! j) = M ! i ! j * M ! j ! i"
      using vp [OF ij(1)] vp [OF ij(2)] by simp
    then show "1 - eps64 \<le> M ! i ! j * v ! j / v ! i * (M ! j ! i * v ! i / v ! j)"
      using rec [OF ij] by simp
  next
    show "0 \<le> 1 - eps64" "1 - eps64 \<le> 1" using eps64_pos by simp_all
  qed
  ultimately have "real n * (real n * (1 - eps64)) \<le> S" by (simp add: mult.assoc)
  then have "real n * (1 - eps64) \<le> S / real n"
    using n by (simp add: pos_le_divide_eq mult.commute)
  then show ?thesis by (simp only: S_def)
qed

section \<open>The consistency ratio on doubles\<close>

lemma RI_ge_3:
  assumes "3 \<le> n"
  shows "29 / 50 \<le> (case RI n of Some r \<Rightarrow> r | None \<Rightarrow> 149 / 100)"
    and "(case RI n of Some r \<Rightarrow> r | None \<Rightarrow> 149 / 100) \<le> 2"
  using assms by (simp_all add: RI_def)

lemma RI64_ge_3:
  assumes "3 \<le> n"
  shows "\<exists>r. round64 (case RI n of Some r \<Rightarrow> r | None \<Rightarrow> 149 / 100) = Fin r \<and> 1 / 2 \<le> r"
proof -
  define x where "x = (case RI n of Some r \<Rightarrow> r | None \<Rightarrow> 149 / 100)"
  have x: "29 / 50 \<le> x" "x \<le> 2" using RI_ge_3 [OF assms] by (simp_all add: x_def)
  then have "mag 1 x" by (simp add: mag_def)
  from round64_mag [OF this] obtain r where r: "round64 x = Fin r" "nearby 1 x r" by auto
  have "(1 - eps64) * (29 / 50) \<le> (1 - eps64) * x"
    using x(1) eps64_pos by (intro mult_left_mono) simp_all
  also have "\<dots> \<le> r" using r(2) by (simp add: nearby_def)
  finally have "1 / 2 \<le> r" by (simp add: eps64_def)
  then show ?thesis using r(1) by (auto simp add: x_def)
qed

text \<open>
  The three roundings from \<open>lambdaMax - n\<close> to \<open>cr\<close>: each keeps the sign and at most
  doubles the magnitude.
\<close>

lemma ratio_chain64:
  assumes x: "\<bar>x\<bar> \<le> 2 ^ 1000" and m: "1 \<le> m" and r: "1 / 2 \<le> r"
  shows "\<exists>d c e. round64 x = Fin d \<and> round64 (d / m) = Fin c \<and> round64 (c / r) = Fin e
           \<and> \<bar>c\<bar> \<le> 4 * \<bar>x\<bar> / m \<and> \<bar>e\<bar> \<le> 16 * \<bar>x\<bar> / m
           \<and> (0 \<le> x \<longrightarrow> 0 \<le> c \<and> 0 \<le> e)"
proof -
  have p1000: "(2::real) ^ 1000 * 16 < 2 ^ 1023" by simp
  have "\<bar>x\<bar> < 2 ^ 1023" using x p1000 by linarith
  from round64_crude [OF this] obtain d where d: "round64 x = Fin d" "\<bar>d\<bar> \<le> 2 * \<bar>x\<bar>"
    "0 \<le> x \<longrightarrow> 0 \<le> d" by blast
  have dm: "\<bar>d / m\<bar> \<le> 2 * \<bar>x\<bar> / m"
    using d(2) m by (simp add: divide_right_mono)
  have xm: "\<bar>x\<bar> / m \<le> \<bar>x\<bar>"
  proof -
    have "\<bar>x\<bar> / m \<le> \<bar>x\<bar> / 1" using m by (intro divide_left_mono) simp_all
    then show ?thesis by simp
  qed
  have "\<bar>d / m\<bar> < 2 ^ 1023" using dm xm x p1000 by linarith
  from round64_crude [OF this] obtain c where c: "round64 (d / m) = Fin c"
    "\<bar>c\<bar> \<le> 2 * \<bar>d / m\<bar>" "0 \<le> d / m \<longrightarrow> 0 \<le> c" by blast
  have c4: "\<bar>c\<bar> \<le> 4 * \<bar>x\<bar> / m" using c(2) dm by simp
  have "\<bar>c / r\<bar> = \<bar>c\<bar> / r" using r by simp
  also have "\<dots> \<le> \<bar>c\<bar> / (1 / 2)" using r by (intro divide_left_mono) simp_all
  finally have cr: "\<bar>c / r\<bar> \<le> 2 * \<bar>c\<bar>" by simp
  then have "\<bar>c / r\<bar> < 2 ^ 1023" using c4 xm x p1000 by linarith
  from round64_crude [OF this] obtain e where e: "round64 (c / r) = Fin e"
    "\<bar>e\<bar> \<le> 2 * \<bar>c / r\<bar>" "0 \<le> c / r \<longrightarrow> 0 \<le> e" by blast
  have e16: "\<bar>e\<bar> \<le> 16 * \<bar>x\<bar> / m" using e(2) cr c4 by simp
  have sg: "0 \<le> x \<longrightarrow> 0 \<le> c \<and> 0 \<le> e"
  proof
    assume "0 \<le> x"
    then have "0 \<le> d" using d(3) by simp
    then have "0 \<le> d / m" using m by simp
    then have c0: "0 \<le> c" using c(3) by simp
    then have "0 \<le> c / r" using r by simp
    then show "0 \<le> c \<and> 0 \<le> e" using c0 e(3) by simp
  qed
  from d(1) c(1) e(1) c4 e16 sg show ?thesis by blast
qed

lemma consistency64_unfold:
  assumes n: "2 \<le> length A" "length A < 2 ^ 32"
  shows "fst (consistency64 A (Fin l))
           = div64 (round64 (l - real (length A))) (Fin (real (length A) - 1))"
proof -
  have "length A - 1 < 2 ^ 53" using n(2) by (simp add: less_imp_diff_less order_less_trans [of _ "2 ^ 32"])
  from round64_nat [OF this] have "round64 (real (length A) - 1) = Fin (real (length A) - 1)"
    using n(1) by (simp add: of_nat_diff)
  then show ?thesis by (simp add: consistency64_def Let_def sub64_def)
qed

lemma consistency64_small:
  assumes "1 \<le> length A" "length A \<le> 2"
  shows "snd (consistency64 A lam) = Fin 0"
proof -
  have "length A = 1 \<or> length A = 2" using assms by linarith
  then have "(case RI (length A) of Some r \<Rightarrow> r | None \<Rightarrow> 149 / 100) = 0"
    by (auto simp add: RI_def)
  then show ?thesis by (simp add: consistency64_def Let_def round64_def)
qed

lemma consistency64_chain:
  assumes n: "3 \<le> length A" "length A < 2 ^ 32" and l: "\<bar>l - real (length A)\<bar> \<le> 2 ^ 1000"
  shows "\<exists>c e. fst (consistency64 A (Fin l)) = Fin c \<and> snd (consistency64 A (Fin l)) = Fin e
           \<and> \<bar>c\<bar> \<le> 4 * \<bar>l - real (length A)\<bar> / (real (length A) - 1)
           \<and> \<bar>e\<bar> \<le> 16 * \<bar>l - real (length A)\<bar> / (real (length A) - 1)
           \<and> (real (length A) \<le> l \<longrightarrow> 0 \<le> c \<and> 0 \<le> e)"
proof -
  from RI64_ge_3 [OF n(1)] obtain r
    where r: "round64 (case RI (length A) of Some r \<Rightarrow> r | None \<Rightarrow> 149 / 100) = Fin r"
      "1 / 2 \<le> r" by blast
  have m: "1 \<le> real (length A) - 1" using n(1) by simp
  from ratio_chain64 [OF l m r(2)] obtain d c e
    where ch: "round64 (l - real (length A)) = Fin d"
      "round64 (d / (real (length A) - 1)) = Fin c" "round64 (c / r) = Fin e"
      "\<bar>c\<bar> \<le> 4 * \<bar>l - real (length A)\<bar> / (real (length A) - 1)"
      "\<bar>e\<bar> \<le> 16 * \<bar>l - real (length A)\<bar> / (real (length A) - 1)"
      "0 \<le> l - real (length A) \<longrightarrow> 0 \<le> c \<and> 0 \<le> e" by blast
  have n2: "2 \<le> length A" using n(1) by simp
  have ci: "fst (consistency64 A (Fin l)) = Fin c"
    using consistency64_unfold [OF n2 n(2), of l] ch(1,2) m by simp
  have r0: "r \<noteq> 0" using r(2) by simp
  have "snd (consistency64 A (Fin l)) = div64 (fst (consistency64 A (Fin l))) (Fin r)"
    using r(1) r0 by (simp add: consistency64_def Let_def)
  then have cr: "snd (consistency64 A (Fin l)) = Fin e"
    using ci ch(3) r0 by simp
  from ci cr ch(4,5,6) show ?thesis by auto
qed

section \<open>The result of the solver on doubles\<close>

lemma nearby_one_tolerance:
  assumes "nearby k 1 s" "k \<le> 2 ^ 52"
  shows "\<bar>s - 1\<bar> \<le> 2 * real k * eps64"
proof -
  have "real k \<le> 2 ^ 52" using assms(2) by (metis of_nat_le_iff of_nat_numeral of_nat_power)
  then have k: "2 * real k * eps64 \<le> 1" by (simp add: eps64_def)
  have "(1 - real k * eps64) * 1 \<le> s" using assms(1) by (rule nearby_lower)
  moreover have "s \<le> (1 + 2 * real k * eps64) * 1" using assms(1) k by (rule nearby_upper)
  moreover have "0 \<le> real k * eps64" using eps64_pos by simp
  ultimately show ?thesis by (simp add: abs_le_iff)
qed

lemma weights_sum_tolerance:
  assumes "nearby (Suc n) 1 s" "n \<le> 2 ^ 32"
  shows "\<bar>s - 1\<bar> \<le> (real n + 1) / 2 ^ 52"
proof -
  have "Suc n \<le> 2 * n + 3" by simp
  also have "\<dots> \<le> 2 ^ 52" using assms(2) by (rule n_le_pow52)
  finally have "\<bar>s - 1\<bar> \<le> 2 * real (Suc n) * eps64" using assms(1) by (intro nearby_one_tolerance)
  also have "\<dots> = (real n + 1) / 2 ^ 52" by (simp add: eps64_def)
  finally show ?thesis .
qed

lemma lambda_lower:
  assumes near: "nearby (2 * n + 3) q l" and q: "real n * (1 - eps64) \<le> q" and n: "n \<le> 2 ^ 32"
  shows "real n - real n * (real n + 2) / 2 ^ 52 \<le> l"
proof -
  define a where "a = real (2 * n + 3) * eps64"
  have "real (2 * n + 3) \<le> 2 ^ 52"
    using n_le_pow52 [OF n] by (metis of_nat_le_iff of_nat_numeral of_nat_power)
  then have a1: "a \<le> 1" by (simp add: a_def eps64_def)
  have a0: "0 \<le> a" using eps64_pos by (simp add: a_def)
  have "(1 - a) * (real n * (1 - eps64)) \<le> (1 - a) * q"
    using q a1 by (intro mult_left_mono) simp_all
  also have "\<dots> \<le> l" unfolding a_def using near by (rule nearby_lower)
  finally have 1: "(1 - a) * (real n * (1 - eps64)) \<le> l" .
  have "0 \<le> a * eps64 * real n" using a0 eps64_pos by simp
  then have "real n * (1 - a - eps64) \<le> (1 - a) * (real n * (1 - eps64))"
    by (simp add: algebra_simps)
  moreover have "real n * (1 - a - eps64) = real n - real n * (real n + 2) / 2 ^ 52"
    by (simp add: a_def eps64_def field_simps)
  ultimately show ?thesis using 1 by linarith
qed

lemma lambda_magnitude:
  assumes "mag 900 l" "n \<le> 2 ^ 32"
  shows "\<bar>l - real n\<bar> \<le> 2 ^ 1000"
proof -
  have "0 < l" "l \<le> 2 ^ 900" using assms(1) mag_pos [OF assms(1)] by (simp_all add: mag_def)
  moreover have "real n \<le> 2 ^ 32" using assms(2) by (rule real_le_pow32)
  moreover have "(2::real) ^ 900 + 2 ^ 32 \<le> 2 ^ 1000" by simp
  ultimately show ?thesis by (simp add: abs_le_iff)
qed

lemma ratio_lower:
  assumes n: "3 \<le> n" and l: "real n - real n * (real n + 2) / 2 ^ 52 \<le> l"
    and e: "\<bar>e\<bar> \<le> 16 * \<bar>l - real n\<bar> / (real n - 1)" "real n \<le> l \<longrightarrow> 0 \<le> e"
  shows "- (real n + 5) / 2 ^ 48 \<le> e"
proof (cases "real n \<le> l")
  case True
  then have "0 \<le> e" using e(2) by simp
  moreover have "- (real n + 5) / 2 ^ 48 \<le> 0" by simp
  ultimately show ?thesis by linarith
next
  case False
  have m: "0 < real n - 1" using n by simp
  have "\<bar>l - real n\<bar> \<le> real n * (real n + 2) / 2 ^ 52" using False l by simp
  then have "16 * \<bar>l - real n\<bar> / (real n - 1)
      \<le> 16 * (real n * (real n + 2) / 2 ^ 52) / (real n - 1)"
    using m by (intro divide_right_mono mult_left_mono) simp_all
  also have "\<dots> = (real n * (real n + 2)) / (real n - 1) / 2 ^ 48" by simp
  also have "\<dots> \<le> (real n + 5) / 2 ^ 48"
  proof -
    have "real n * 2 \<ge> 5" using n by simp
    then have "real n * (real n + 2) \<le> (real n + 5) * (real n - 1)"
      by (simp add: algebra_simps)
    then have "(real n * (real n + 2)) / (real n - 1) \<le> real n + 5"
      using m by (simp add: pos_divide_le_eq)
    then show ?thesis by (intro divide_right_mono) simp_all
  qed
  finally show ?thesis using e(1) by (simp add: abs_le_iff)
qed

section \<open>Evaluation of the solver on doubles\<close>

lemma round64_zero: "round64 0 = Fin 0"
  by (simp add: round64_def)

lemmas eval64_defs = ahpSolve64_def powerIterationWeights64_def matvec64_def rowdot64_def
  maxdiff64_def consistency64_def cell_def sub64_def default_maxIter_def default_tol64_def
  Let_def RI_def split_beta round64_zero

lemmas invariant64_defs = is_order_def moderate_entries_def reciprocal64_def unit_diagonal_def
  positive_finite_def reciprocal_def cell_def less_Suc_eq round64_zero

lemma mul64_NaN: "mul64 x NaN = NaN"
  by (cases x) simp_all

lemma add64_NaN: "add64 x NaN = NaN"
  by (cases x) simp_all

lemma div64_NaN: "div64 x NaN = NaN"
  by (cases x) simp_all

lemma jmax_NaN: "jmax d NaN = NaN"
  by (cases d) simp_all

lemma sub64_NaN: "sub64 NaN y = NaN"
  by (simp add: sub64_def)

lemma cell_NaN: "cell (replicate n NaN) j = NaN"
  by (simp add: cell_def)

lemma rowdot64_NaN:
  assumes "0 < n"
  shows "rowdot64 n r (replicate n NaN) = NaN"
proof -
  from assms obtain m where n: "n = Suc m" by (cases n) auto
  have "rowdot64 (Suc m) r w = add64 (rowdot64 m r w) (mul64 (cell r m) (cell w m))" for w
    by (simp add: rowdot64_def)
  then show ?thesis unfolding n by (simp only: cell_NaN mul64_NaN add64_NaN)
qed

lemma matvec64_NaN: "A \<noteq> [] \<Longrightarrow> matvec64 A (replicate (length A) NaN) = replicate (length A) NaN"
  by (simp add: matvec64_def rowdot64_NaN map_replicate_const)

lemma foldl_add64_NaN:
  assumes "0 < n"
  shows "foldl add64 a (replicate n NaN) = NaN"
proof -
  from assms obtain m where n: "n = Suc m" by (cases n) auto
  have "foldl add64 a (replicate m NaN @ [NaN]) = NaN"
    by (simp only: foldl_append foldl.simps add64_NaN)
  then show ?thesis unfolding n by (simp only: replicate_append_same replicate.simps)
qed

lemma maxdiff64_NaN:
  assumes "0 < n"
  shows "maxdiff64 n (replicate n NaN) w = NaN"
proof -
  from assms obtain m where n: "n = Suc m" by (cases n) auto
  have "maxdiff64 (Suc m) u w
      = jmax (maxdiff64 m u w) (jabs (sub64 (cell u m) (cell w m)))" for u
    by (simp add: maxdiff64_def)
  then show ?thesis unfolding n by (simp only: cell_NaN sub64_NaN jabs.simps jmax_NaN)
qed

text \<open>Once the vector is NaN the test \<^verbatim>\<open>diff < tol\<close> fails in every pass.\<close>

lemma pi_loop64_NaN:
  "A \<noteq> [] \<Longrightarrow> it \<le> maxIter \<Longrightarrow> w = replicate (length A) NaN \<Longrightarrow>
   pi_loop64 A maxIter tol it w = (replicate (length A) NaN, maxIter)"
proof (induction A maxIter tol it w rule: pi_loop64.induct)
  case (1 A maxIter tol it w)
  show ?case
  proof (cases "it < maxIter")
    case False
    then show ?thesis using "1.prems" by (subst pi_loop64.simps) simp
  next
    case True
    have n: "0 < length A" using "1.prems"(1) by simp
    have Aw: "matvec64 A w = replicate (length A) NaN"
      using "1.prems" by (simp add: matvec64_NaN)
    have s: "foldl add64 (Fin 0) (replicate (length A) NaN) = NaN"
      using n by (rule foldl_add64_NaN)
    have wNew: "map (\<lambda>x. div64 x NaN) (replicate (length A) NaN) = replicate (length A) NaN"
      by (simp add: div64_NaN)
    have d: "maxdiff64 (length A) (replicate (length A) NaN) w = NaN"
      using n by (rule maxdiff64_NaN)
    have f: "\<not> jlt NaN tol" by simp
    have unfold: "pi_loop64 A maxIter tol it w
        = pi_loop64 A maxIter tol (Suc it) (replicate (length A) NaN)"
      by (subst pi_loop64.simps) (simp only: True if_True Let_def Aw s wNew d f if_False)
    have "pi_loop64 A maxIter tol (Suc it) (replicate (length A) NaN)
        = (replicate (length A) NaN, maxIter)"
      using "1.IH" [OF True refl refl refl refl, unfolded Aw s wNew d] "1.prems"(1) True f
      by simp
    then show ?thesis by (simp only: unfold)
  qed
qed

text \<open>The all-ones matrix of order 1.\<close>

lemma double_r1: "round64 (1 / 100000000000) = Fin (6189700196426901 / 618970019642690137449562112)"
  using round64_eval_lt1 [of 37 "(1 / 100000000000)"]
  by (simp add: rhe_def Let_def)

lemma double_r2: "round64 1 = Fin 1"
  using round64_eval_ge1 [of 0 "1"]
  by (simp add: rhe_def Let_def)

lemmas n1_rounds = double_r1 double_r2

lemma n1_pass1:
  "pi_loop64 [[Fin 1]] 1500 (Fin (6189700196426901 / 618970019642690137449562112)) 0 [Fin 1]
   = ([Fin 1], (Suc 0))"
  by (subst pi_loop64.simps) (simp add: eval64_defs n1_rounds)

lemma n1_matrix: "identityMatrix 1 = [[Fin 1]]"
  by (simp add: identityMatrix_def upt_rec)

lemma n1_solve:
  "ahpSolve64 (identityMatrix 1)
   = \<lparr>weights = [Fin 1],
      lambdaMax = Fin 1, ci = NaN, cr = Fin 0\<rparr>"
  unfolding n1_matrix by (simp add: eval64_defs n1_pass1 n1_rounds)

text \<open>The all-ones matrix of order 6.\<close>

lemma double_r3: "round64 (1 / 6) = Fin (6004799503160661 / 36028797018963968)"
  using round64_eval_lt1 [of 3 "(1 / 6)"]
  by (simp add: rhe_def Let_def)

lemma double_r4: "round64 (6004799503160661 / 36028797018963968) = Fin (6004799503160661 / 36028797018963968)"
  using round64_eval_lt1 [of 3 "(6004799503160661 / 36028797018963968)"]
  by (simp add: rhe_def Let_def)

lemma double_r5: "round64 (6004799503160661 / 18014398509481984) = Fin (6004799503160661 / 18014398509481984)"
  using round64_eval_lt1 [of 2 "(6004799503160661 / 18014398509481984)"]
  by (simp add: rhe_def Let_def)

lemma double_r6: "round64 (18014398509481983 / 36028797018963968) = Fin (1 / 2)"
  using round64_eval_lt1 [of 2 "(18014398509481983 / 36028797018963968)"]
  by (simp add: rhe_def Let_def)

lemma double_r7: "round64 (24019198012642645 / 36028797018963968) = Fin (6004799503160661 / 9007199254740992)"
  using round64_eval_lt1 [of 1 "(24019198012642645 / 36028797018963968)"]
  by (simp add: rhe_def Let_def)

lemma double_r8: "round64 (30023997515803305 / 36028797018963968) = Fin (3752999689475413 / 4503599627370496)"
  using round64_eval_lt1 [of 1 "(30023997515803305 / 36028797018963968)"]
  by (simp add: rhe_def Let_def)

lemma double_r9: "round64 (36028797018963965 / 36028797018963968) = Fin (9007199254740991 / 9007199254740992)"
  using round64_eval_lt1 [of 1 "(36028797018963965 / 36028797018963968)"]
  by (simp add: rhe_def Let_def)

lemma double_r10: "round64 (9007199254740991 / 9007199254740992) = Fin (9007199254740991 / 9007199254740992)"
  using round64_eval_lt1 [of 1 "(9007199254740991 / 9007199254740992)"]
  by (simp add: rhe_def Let_def)

lemma double_r11: "round64 (9007199254740991 / 4503599627370496) = Fin (9007199254740991 / 4503599627370496)"
  using round64_eval_ge1 [of 0 "(9007199254740991 / 4503599627370496)"]
  by (simp add: rhe_def Let_def)

lemma double_r12: "round64 (27021597764222973 / 9007199254740992) = Fin (6755399441055743 / 2251799813685248)"
  using round64_eval_ge1 [of 1 "(27021597764222973 / 9007199254740992)"]
  by (simp add: rhe_def Let_def)

lemma double_r13: "round64 (36028797018963963 / 9007199254740992) = Fin (9007199254740991 / 2251799813685248)"
  using round64_eval_ge1 [of 1 "(36028797018963963 / 9007199254740992)"]
  by (simp add: rhe_def Let_def)

lemma double_r14: "round64 (45035996273704955 / 9007199254740992) = Fin (5629499534213119 / 1125899906842624)"
  using round64_eval_ge1 [of 2 "(45035996273704955 / 9007199254740992)"]
  by (simp add: rhe_def Let_def)

lemma double_r15: "round64 (54043195528445943 / 9007199254740992) = Fin (6755399441055743 / 1125899906842624)"
  using round64_eval_ge1 [of 2 "(54043195528445943 / 9007199254740992)"]
  by (simp add: rhe_def Let_def)

lemma double_r16: "round64 (9007199254740991 / 54043195528445944) = Fin (3002399751580331 / 18014398509481984)"
  using round64_eval_lt1 [of 3 "(9007199254740991 / 54043195528445944)"]
  by (simp add: rhe_def Let_def)

lemma double_r17: "round64 (1 / 36028797018963968) = Fin (1 / 36028797018963968)"
  using round64_eval_lt1 [of 55 "(1 / 36028797018963968)"]
  by (simp add: rhe_def Let_def)

lemma double_r18: "round64 (3002399751580331 / 18014398509481984) = Fin (3002399751580331 / 18014398509481984)"
  using round64_eval_lt1 [of 3 "(3002399751580331 / 18014398509481984)"]
  by (simp add: rhe_def Let_def)

lemma double_r19: "round64 (3002399751580331 / 9007199254740992) = Fin (3002399751580331 / 9007199254740992)"
  using round64_eval_lt1 [of 2 "(3002399751580331 / 9007199254740992)"]
  by (simp add: rhe_def Let_def)

lemma double_r20: "round64 (9007199254740993 / 18014398509481984) = Fin (1 / 2)"
  using round64_eval_lt1 [of 1 "(9007199254740993 / 18014398509481984)"]
  by (simp add: rhe_def Let_def)

lemma double_r21: "round64 (12009599006321323 / 18014398509481984) = Fin (3002399751580331 / 4503599627370496)"
  using round64_eval_lt1 [of 1 "(12009599006321323 / 18014398509481984)"]
  by (simp add: rhe_def Let_def)

lemma double_r22: "round64 (15011998757901655 / 18014398509481984) = Fin (1876499844737707 / 2251799813685248)"
  using round64_eval_lt1 [of 1 "(15011998757901655 / 18014398509481984)"]
  by (simp add: rhe_def Let_def)

lemma double_r23: "round64 (18014398509481987 / 18014398509481984) = Fin (4503599627370497 / 4503599627370496)"
  using round64_eval_ge1 [of 0 "(18014398509481987 / 18014398509481984)"]
  by (simp add: rhe_def Let_def)

lemma double_r24: "round64 (18014398509481988 / 3002399751580331) = Fin (6755399441055745 / 1125899906842624)"
  using round64_eval_ge1 [of 2 "(18014398509481988 / 3002399751580331)"]
  by (simp add: rhe_def Let_def)

lemma double_r25: "round64 (6755399441055745 / 1125899906842624) = Fin (6755399441055745 / 1125899906842624)"
  using round64_eval_ge1 [of 2 "(6755399441055745 / 1125899906842624)"]
  by (simp add: rhe_def Let_def)

lemma double_r26: "round64 (6755399441055745 / 562949953421312) = Fin (6755399441055745 / 562949953421312)"
  using round64_eval_ge1 [of 3 "(6755399441055745 / 562949953421312)"]
  by (simp add: rhe_def Let_def)

lemma double_r27: "round64 (20266198323167235 / 1125899906842624) = Fin (5066549580791809 / 281474976710656)"
  using round64_eval_ge1 [of 4 "(20266198323167235 / 1125899906842624)"]
  by (simp add: rhe_def Let_def)

lemma double_r28: "round64 (27021597764222981 / 1125899906842624) = Fin (6755399441055745 / 281474976710656)"
  using round64_eval_ge1 [of 4 "(27021597764222981 / 1125899906842624)"]
  by (simp add: rhe_def Let_def)

lemma double_r29: "round64 (33776997205278725 / 1125899906842624) = Fin (8444249301319681 / 281474976710656)"
  using round64_eval_ge1 [of 4 "(33776997205278725 / 1125899906842624)"]
  by (simp add: rhe_def Let_def)

lemma double_r30: "round64 (40532396646334469 / 1125899906842624) = Fin (5066549580791809 / 140737488355328)"
  using round64_eval_ge1 [of 5 "(40532396646334469 / 1125899906842624)"]
  by (simp add: rhe_def Let_def)

lemma double_r31: "round64 (5066549580791809 / 844424930131968) = Fin (6755399441055745 / 1125899906842624)"
  using round64_eval_ge1 [of 2 "(5066549580791809 / 844424930131968)"]
  by (simp add: rhe_def Let_def)

lemma double_r32: "round64 (1 / 1125899906842624) = Fin (1 / 1125899906842624)"
  using round64_eval_lt1 [of 50 "(1 / 1125899906842624)"]
  by (simp add: rhe_def Let_def)

lemma double_r33: "round64 5 = Fin 5"
  using round64_eval_ge1 [of 2 "5"]
  by (simp add: rhe_def Let_def)

lemma double_r34: "round64 (1 / 5629499534213120) = Fin (3602879701896397 / 20282409603651670423947251286016)"
  using round64_eval_lt1 [of 53 "(1 / 5629499534213120)"]
  by (simp add: rhe_def Let_def)

lemma double_r35: "round64 (31 / 25) = Fin (5584463537939415 / 4503599627370496)"
  using round64_eval_ge1 [of 0 "(31 / 25)"]
  by (simp add: rhe_def Let_def)

lemma double_r36: "round64 (3602879701896397 / 25150187908528071145550606499840) = Fin (2905548146690643 / 20282409603651670423947251286016)"
  using round64_eval_lt1 [of 53 "(3602879701896397 / 25150187908528071145550606499840)"]
  by (simp add: rhe_def Let_def)

lemmas n6_rounds = double_r1 double_r3 double_r4 double_r5 double_r6 double_r7 double_r8 double_r9 double_r10 double_r11 double_r12 double_r13 double_r14 double_r15 double_r16 double_r17 double_r18 double_r19 double_r20 double_r21 double_r22 double_r23 double_r24 double_r25 double_r26 double_r27 double_r28 double_r29 double_r30 double_r31 double_r32 double_r33 double_r34 double_r35 double_r36

lemma n6_pass1:
  "pi_loop64 [[Fin 1, Fin 1, Fin 1, Fin 1, Fin 1, Fin 1],
      [Fin 1, Fin 1, Fin 1, Fin 1, Fin 1, Fin 1],
      [Fin 1, Fin 1, Fin 1, Fin 1, Fin 1, Fin 1],
      [Fin 1, Fin 1, Fin 1, Fin 1, Fin 1, Fin 1],
      [Fin 1, Fin 1, Fin 1, Fin 1, Fin 1, Fin 1],
      [Fin 1, Fin 1, Fin 1, Fin 1, Fin 1, Fin 1]] 1500 (Fin (6189700196426901 / 618970019642690137449562112)) 0 [Fin (6004799503160661 / 36028797018963968), Fin (6004799503160661 / 36028797018963968), Fin (6004799503160661 / 36028797018963968), Fin (6004799503160661 / 36028797018963968), Fin (6004799503160661 / 36028797018963968), Fin (6004799503160661 / 36028797018963968)]
   = ([Fin (3002399751580331 / 18014398509481984), Fin (3002399751580331 / 18014398509481984), Fin (3002399751580331 / 18014398509481984), Fin (3002399751580331 / 18014398509481984), Fin (3002399751580331 / 18014398509481984), Fin (3002399751580331 / 18014398509481984)], (Suc 0))"
  by (subst pi_loop64.simps) (simp add: eval64_defs n6_rounds)

lemma n6_matrix: "identityMatrix 6 = [[Fin 1, Fin 1, Fin 1, Fin 1, Fin 1, Fin 1],
      [Fin 1, Fin 1, Fin 1, Fin 1, Fin 1, Fin 1],
      [Fin 1, Fin 1, Fin 1, Fin 1, Fin 1, Fin 1],
      [Fin 1, Fin 1, Fin 1, Fin 1, Fin 1, Fin 1],
      [Fin 1, Fin 1, Fin 1, Fin 1, Fin 1, Fin 1],
      [Fin 1, Fin 1, Fin 1, Fin 1, Fin 1, Fin 1]]"
  by (simp add: identityMatrix_def upt_rec)

lemma n6_solve:
  "ahpSolve64 (identityMatrix 6)
   = \<lparr>weights = [Fin (3002399751580331 / 18014398509481984), Fin (3002399751580331 / 18014398509481984), Fin (3002399751580331 / 18014398509481984), Fin (3002399751580331 / 18014398509481984), Fin (3002399751580331 / 18014398509481984), Fin (3002399751580331 / 18014398509481984)],
      lambdaMax = Fin (6755399441055745 / 1125899906842624), ci = Fin (3602879701896397 / 20282409603651670423947251286016), cr = Fin (2905548146690643 / 20282409603651670423947251286016)\<rparr>"
  unfolding n6_matrix by (simp add: eval64_defs n6_pass1 n6_rounds)

text \<open>The all-ones matrix of order 3.\<close>

lemma double_r37: "round64 (1 / 3) = Fin (6004799503160661 / 18014398509481984)"
  using round64_eval_lt1 [of 2 "(1 / 3)"]
  by (simp add: rhe_def Let_def)

lemma double_r38: "round64 (6004799503160661 / 9007199254740992) = Fin (6004799503160661 / 9007199254740992)"
  using round64_eval_lt1 [of 1 "(6004799503160661 / 9007199254740992)"]
  by (simp add: rhe_def Let_def)

lemma double_r39: "round64 (18014398509481983 / 18014398509481984) = Fin 1"
  using round64_eval_lt1 [of 1 "(18014398509481983 / 18014398509481984)"]
  by (simp add: rhe_def Let_def)

lemma double_r40: "round64 2 = Fin 2"
  using round64_eval_ge1 [of 1 "2"]
  by (simp add: rhe_def Let_def)

lemma double_r41: "round64 3 = Fin 3"
  using round64_eval_ge1 [of 1 "3"]
  by (simp add: rhe_def Let_def)

lemma double_r42: "round64 (18014398509481984 / 6004799503160661) = Fin 3"
  using round64_eval_ge1 [of 1 "(18014398509481984 / 6004799503160661)"]
  by (simp add: rhe_def Let_def)

lemma double_r43: "round64 6 = Fin 6"
  using round64_eval_ge1 [of 2 "6"]
  by (simp add: rhe_def Let_def)

lemma double_r44: "round64 9 = Fin 9"
  using round64_eval_ge1 [of 3 "9"]
  by (simp add: rhe_def Let_def)

lemma double_r45: "round64 (29 / 50) = Fin (5224175567749775 / 9007199254740992)"
  using round64_eval_lt1 [of 1 "(29 / 50)"]
  by (simp add: rhe_def Let_def)

lemmas n3_rounds = double_r1 double_r37 double_r5 double_r38 double_r39 double_r2 double_r40 double_r41 double_r42 double_r43 double_r44 double_r45

lemma n3_pass1:
  "pi_loop64 [[Fin 1, Fin 1, Fin 1],
      [Fin 1, Fin 1, Fin 1],
      [Fin 1, Fin 1, Fin 1]] 1500 (Fin (6189700196426901 / 618970019642690137449562112)) 0 [Fin (6004799503160661 / 18014398509481984), Fin (6004799503160661 / 18014398509481984), Fin (6004799503160661 / 18014398509481984)]
   = ([Fin (6004799503160661 / 18014398509481984), Fin (6004799503160661 / 18014398509481984), Fin (6004799503160661 / 18014398509481984)], (Suc 0))"
  by (subst pi_loop64.simps) (simp add: eval64_defs n3_rounds)

lemma n3_matrix: "identityMatrix 3 = [[Fin 1, Fin 1, Fin 1],
      [Fin 1, Fin 1, Fin 1],
      [Fin 1, Fin 1, Fin 1]]"
  by (simp add: identityMatrix_def upt_rec)

lemma n3_solve:
  "ahpSolve64 (identityMatrix 3)
   = \<lparr>weights = [Fin (6004799503160661 / 18014398509481984), Fin (6004799503160661 / 18014398509481984), Fin (6004799503160661 / 18014398509481984)],
      lambdaMax = Fin 3, ci = Fin 0, cr = Fin 0\<rparr>"
  unfolding n3_matrix by (simp add: eval64_defs n3_pass1 n3_rounds)

text \<open>The all-ones matrix of order 7.\<close>

lemma double_r46: "round64 (1 / 7) = Fin (2573485501354569 / 18014398509481984)"
  using round64_eval_lt1 [of 3 "(1 / 7)"]
  by (simp add: rhe_def Let_def)

lemma double_r47: "round64 (2573485501354569 / 18014398509481984) = Fin (2573485501354569 / 18014398509481984)"
  using round64_eval_lt1 [of 3 "(2573485501354569 / 18014398509481984)"]
  by (simp add: rhe_def Let_def)

lemma double_r48: "round64 (2573485501354569 / 9007199254740992) = Fin (2573485501354569 / 9007199254740992)"
  using round64_eval_lt1 [of 2 "(2573485501354569 / 9007199254740992)"]
  by (simp add: rhe_def Let_def)

lemma double_r49: "round64 (7720456504063707 / 18014398509481984) = Fin (7720456504063707 / 18014398509481984)"
  using round64_eval_lt1 [of 2 "(7720456504063707 / 18014398509481984)"]
  by (simp add: rhe_def Let_def)

lemma double_r50: "round64 (2573485501354569 / 4503599627370496) = Fin (2573485501354569 / 4503599627370496)"
  using round64_eval_lt1 [of 1 "(2573485501354569 / 4503599627370496)"]
  by (simp add: rhe_def Let_def)

lemma double_r51: "round64 (12867427506772845 / 18014398509481984) = Fin (3216856876693211 / 4503599627370496)"
  using round64_eval_lt1 [of 1 "(12867427506772845 / 18014398509481984)"]
  by (simp add: rhe_def Let_def)

lemma double_r52: "round64 (15440913008127413 / 18014398509481984) = Fin (3860228252031853 / 4503599627370496)"
  using round64_eval_lt1 [of 1 "(15440913008127413 / 18014398509481984)"]
  by (simp add: rhe_def Let_def)

lemma double_r53: "round64 (18014398509481981 / 18014398509481984) = Fin (4503599627370495 / 4503599627370496)"
  using round64_eval_lt1 [of 1 "(18014398509481981 / 18014398509481984)"]
  by (simp add: rhe_def Let_def)

lemma double_r54: "round64 (4503599627370495 / 4503599627370496) = Fin (4503599627370495 / 4503599627370496)"
  using round64_eval_lt1 [of 1 "(4503599627370495 / 4503599627370496)"]
  by (simp add: rhe_def Let_def)

lemma double_r55: "round64 (4503599627370495 / 2251799813685248) = Fin (4503599627370495 / 2251799813685248)"
  using round64_eval_ge1 [of 0 "(4503599627370495 / 2251799813685248)"]
  by (simp add: rhe_def Let_def)

lemma double_r56: "round64 (13510798882111485 / 4503599627370496) = Fin (3377699720527871 / 1125899906842624)"
  using round64_eval_ge1 [of 1 "(13510798882111485 / 4503599627370496)"]
  by (simp add: rhe_def Let_def)

lemma double_r57: "round64 (18014398509481979 / 4503599627370496) = Fin (4503599627370495 / 1125899906842624)"
  using round64_eval_ge1 [of 1 "(18014398509481979 / 4503599627370496)"]
  by (simp add: rhe_def Let_def)

lemma double_r58: "round64 (22517998136852475 / 4503599627370496) = Fin (5629499534213119 / 1125899906842624)"
  using round64_eval_ge1 [of 2 "(22517998136852475 / 4503599627370496)"]
  by (simp add: rhe_def Let_def)

lemma double_r59: "round64 (27021597764222971 / 4503599627370496) = Fin (6755399441055743 / 1125899906842624)"
  using round64_eval_ge1 [of 2 "(27021597764222971 / 4503599627370496)"]
  by (simp add: rhe_def Let_def)

lemma double_r60: "round64 (31525197391593467 / 4503599627370496) = Fin (7881299347898367 / 1125899906842624)"
  using round64_eval_ge1 [of 2 "(31525197391593467 / 4503599627370496)"]
  by (simp add: rhe_def Let_def)

lemma double_r61: "round64 (1501199875790165 / 10508399130531156) = Fin (2573485501354569 / 18014398509481984)"
  using round64_eval_lt1 [of 3 "(1501199875790165 / 10508399130531156)"]
  by (simp add: rhe_def Let_def)

lemma double_r62: "round64 (6004799503160660 / 857828500451523) = Fin (7881299347898367 / 1125899906842624)"
  using round64_eval_ge1 [of 2 "(6004799503160660 / 857828500451523)"]
  by (simp add: rhe_def Let_def)

lemma double_r63: "round64 (7881299347898367 / 1125899906842624) = Fin (7881299347898367 / 1125899906842624)"
  using round64_eval_ge1 [of 2 "(7881299347898367 / 1125899906842624)"]
  by (simp add: rhe_def Let_def)

lemma double_r64: "round64 (7881299347898367 / 562949953421312) = Fin (7881299347898367 / 562949953421312)"
  using round64_eval_ge1 [of 3 "(7881299347898367 / 562949953421312)"]
  by (simp add: rhe_def Let_def)

lemma double_r65: "round64 (23643898043695101 / 1125899906842624) = Fin (5910974510923775 / 281474976710656)"
  using round64_eval_ge1 [of 4 "(23643898043695101 / 1125899906842624)"]
  by (simp add: rhe_def Let_def)

lemma double_r66: "round64 (31525197391593467 / 1125899906842624) = Fin (7881299347898367 / 281474976710656)"
  using round64_eval_ge1 [of 4 "(31525197391593467 / 1125899906842624)"]
  by (simp add: rhe_def Let_def)

lemma double_r67: "round64 (39406496739491835 / 1125899906842624) = Fin (4925812092436479 / 140737488355328)"
  using round64_eval_ge1 [of 5 "(39406496739491835 / 1125899906842624)"]
  by (simp add: rhe_def Let_def)

lemma double_r68: "round64 (47287796087390199 / 1125899906842624) = Fin (5910974510923775 / 140737488355328)"
  using round64_eval_ge1 [of 5 "(47287796087390199 / 1125899906842624)"]
  by (simp add: rhe_def Let_def)

lemma double_r69: "round64 (55169095435288567 / 1125899906842624) = Fin (6896136929411071 / 140737488355328)"
  using round64_eval_ge1 [of 5 "(55169095435288567 / 1125899906842624)"]
  by (simp add: rhe_def Let_def)

lemma double_r70: "round64 (6896136929411071 / 985162418487296) = Fin (7881299347898367 / 1125899906842624)"
  using round64_eval_ge1 [of 2 "(6896136929411071 / 985162418487296)"]
  by (simp add: rhe_def Let_def)

lemma double_r71: "round64 (- (1 / 1125899906842624)) = Fin (- (1 / 1125899906842624))"
  using round64_eval_lt1 [of 50 "(1 / 1125899906842624)"] round64_neg [of "(1 / 1125899906842624)"]
  by (simp add: rhe_def Let_def)

lemma double_r72: "round64 (- (1 / 6755399441055744)) = Fin (- (6004799503160661 / 40564819207303340847894502572032))"
  using round64_eval_lt1 [of 53 "(1 / 6755399441055744)"] round64_neg [of "(1 / 6755399441055744)"]
  by (simp add: rhe_def Let_def)

lemma double_r73: "round64 (33 / 25) = Fin (5944751508129055 / 4503599627370496)"
  using round64_eval_ge1 [of 0 "(33 / 25)"]
  by (simp add: rhe_def Let_def)

lemma double_r74: "round64 (- (6004799503160661 / 53545561353640412441236534722560)) = Fin (- (2274545266348735 / 20282409603651670423947251286016))"
  using round64_eval_lt1 [of 53 "(6004799503160661 / 53545561353640412441236534722560)"] round64_neg [of "(6004799503160661 / 53545561353640412441236534722560)"]
  by (simp add: rhe_def Let_def)

lemmas n7_rounds = double_r1 double_r46 double_r47 double_r48 double_r49 double_r50 double_r51 double_r52 double_r53 double_r54 double_r55 double_r56 double_r57 double_r58 double_r59 double_r60 double_r61 double_r62 double_r63 double_r64 double_r65 double_r66 double_r67 double_r68 double_r69 double_r70 double_r71 double_r43 double_r72 double_r73 double_r74

lemma n7_pass1:
  "pi_loop64 [[Fin 1, Fin 1, Fin 1, Fin 1, Fin 1, Fin 1, Fin 1],
      [Fin 1, Fin 1, Fin 1, Fin 1, Fin 1, Fin 1, Fin 1],
      [Fin 1, Fin 1, Fin 1, Fin 1, Fin 1, Fin 1, Fin 1],
      [Fin 1, Fin 1, Fin 1, Fin 1, Fin 1, Fin 1, Fin 1],
      [Fin 1, Fin 1, Fin 1, Fin 1, Fin 1, Fin 1, Fin 1],
      [Fin 1, Fin 1, Fin 1, Fin 1, Fin 1, Fin 1, Fin 1],
      [Fin 1, Fin 1, Fin 1, Fin 1, Fin 1, Fin 1, Fin 1]] 1500 (Fin (6189700196426901 / 618970019642690137449562112)) 0 [Fin (2573485501354569 / 18014398509481984), Fin (2573485501354569 / 18014398509481984), Fin (2573485501354569 / 18014398509481984), Fin (2573485501354569 / 18014398509481984), Fin (2573485501354569 / 18014398509481984), Fin (2573485501354569 / 18014398509481984), Fin (2573485501354569 / 18014398509481984)]
   = ([Fin (2573485501354569 / 18014398509481984), Fin (2573485501354569 / 18014398509481984), Fin (2573485501354569 / 18014398509481984), Fin (2573485501354569 / 18014398509481984), Fin (2573485501354569 / 18014398509481984), Fin (2573485501354569 / 18014398509481984), Fin (2573485501354569 / 18014398509481984)], (Suc 0))"
  by (subst pi_loop64.simps) (simp add: eval64_defs n7_rounds)

lemma n7_matrix: "identityMatrix 7 = [[Fin 1, Fin 1, Fin 1, Fin 1, Fin 1, Fin 1, Fin 1],
      [Fin 1, Fin 1, Fin 1, Fin 1, Fin 1, Fin 1, Fin 1],
      [Fin 1, Fin 1, Fin 1, Fin 1, Fin 1, Fin 1, Fin 1],
      [Fin 1, Fin 1, Fin 1, Fin 1, Fin 1, Fin 1, Fin 1],
      [Fin 1, Fin 1, Fin 1, Fin 1, Fin 1, Fin 1, Fin 1],
      [Fin 1, Fin 1, Fin 1, Fin 1, Fin 1, Fin 1, Fin 1],
      [Fin 1, Fin 1, Fin 1, Fin 1, Fin 1, Fin 1, Fin 1]]"
  by (simp add: identityMatrix_def upt_rec)

lemma n7_solve:
  "ahpSolve64 (identityMatrix 7)
   = \<lparr>weights = [Fin (2573485501354569 / 18014398509481984), Fin (2573485501354569 / 18014398509481984), Fin (2573485501354569 / 18014398509481984), Fin (2573485501354569 / 18014398509481984), Fin (2573485501354569 / 18014398509481984), Fin (2573485501354569 / 18014398509481984), Fin (2573485501354569 / 18014398509481984)],
      lambdaMax = Fin (7881299347898367 / 1125899906842624), ci = Fin (- (6004799503160661 / 40564819207303340847894502572032)), cr = Fin (- (2274545266348735 / 20282409603651670423947251286016))\<rparr>"
  unfolding n7_matrix by (simp add: eval64_defs n7_pass1 n7_rounds)

text \<open>The matrix of order 4 with 1/2 on the diagonal and 1 elsewhere.\<close>

lemma double_r75: "round64 (1 / 4) = Fin (1 / 4)"
  using round64_eval_lt1 [of 2 "(1 / 4)"]
  by (simp add: rhe_def Let_def)

lemma double_r76: "round64 (1 / 8) = Fin (1 / 8)"
  using round64_eval_lt1 [of 3 "(1 / 8)"]
  by (simp add: rhe_def Let_def)

lemma double_r77: "round64 (3 / 8) = Fin (3 / 8)"
  using round64_eval_lt1 [of 2 "(3 / 8)"]
  by (simp add: rhe_def Let_def)

lemma double_r78: "round64 (5 / 8) = Fin (5 / 8)"
  using round64_eval_lt1 [of 1 "(5 / 8)"]
  by (simp add: rhe_def Let_def)

lemma double_r79: "round64 (7 / 8) = Fin (7 / 8)"
  using round64_eval_lt1 [of 1 "(7 / 8)"]
  by (simp add: rhe_def Let_def)

lemma double_r80: "round64 (1 / 2) = Fin (1 / 2)"
  using round64_eval_lt1 [of 1 "(1 / 2)"]
  by (simp add: rhe_def Let_def)

lemma double_r81: "round64 (3 / 4) = Fin (3 / 4)"
  using round64_eval_lt1 [of 1 "(3 / 4)"]
  by (simp add: rhe_def Let_def)

lemma double_r82: "round64 (7 / 4) = Fin (7 / 4)"
  using round64_eval_ge1 [of 0 "(7 / 4)"]
  by (simp add: rhe_def Let_def)

lemma double_r83: "round64 (21 / 8) = Fin (21 / 8)"
  using round64_eval_ge1 [of 1 "(21 / 8)"]
  by (simp add: rhe_def Let_def)

lemma double_r84: "round64 (7 / 2) = Fin (7 / 2)"
  using round64_eval_ge1 [of 1 "(7 / 2)"]
  by (simp add: rhe_def Let_def)

lemma double_r85: "round64 7 = Fin 7"
  using round64_eval_ge1 [of 2 "7"]
  by (simp add: rhe_def Let_def)

lemma double_r86: "round64 (21 / 2) = Fin (21 / 2)"
  using round64_eval_ge1 [of 3 "(21 / 2)"]
  by (simp add: rhe_def Let_def)

lemma double_r87: "round64 14 = Fin 14"
  using round64_eval_ge1 [of 3 "14"]
  by (simp add: rhe_def Let_def)

lemma double_r88: "round64 (- (1 / 2)) = Fin (- (1 / 2))"
  using round64_eval_lt1 [of 1 "(1 / 2)"] round64_neg [of "(1 / 2)"]
  by (simp add: rhe_def Let_def)

lemma double_r89: "round64 (- (1 / 6)) = Fin (- (6004799503160661 / 36028797018963968))"
  using round64_eval_lt1 [of 3 "(1 / 6)"] round64_neg [of "(1 / 6)"]
  by (simp add: rhe_def Let_def)

lemma double_r90: "round64 (9 / 10) = Fin (8106479329266893 / 9007199254740992)"
  using round64_eval_lt1 [of 1 "(9 / 10)"]
  by (simp add: rhe_def Let_def)

lemma double_r91: "round64 (- (6004799503160661 / 32425917317067572)) = Fin (- (3335999723978145 / 18014398509481984))"
  using round64_eval_lt1 [of 3 "(6004799503160661 / 32425917317067572)"] round64_neg [of "(6004799503160661 / 32425917317067572)"]
  by (simp add: rhe_def Let_def)

lemmas diag_rounds = double_r1 double_r75 double_r76 double_r77 double_r78 double_r79 double_r80 double_r81 double_r82 double_r83 double_r84 double_r85 double_r86 double_r87 double_r88 double_r41 double_r89 double_r90 double_r91

lemma diag_pass1:
  "pi_loop64 [[Fin (1 / 2), Fin 1, Fin 1, Fin 1],
      [Fin 1, Fin (1 / 2), Fin 1, Fin 1],
      [Fin 1, Fin 1, Fin (1 / 2), Fin 1],
      [Fin 1, Fin 1, Fin 1, Fin (1 / 2)]] 1500 (Fin (6189700196426901 / 618970019642690137449562112)) 0 [Fin (1 / 4), Fin (1 / 4), Fin (1 / 4), Fin (1 / 4)]
   = ([Fin (1 / 4), Fin (1 / 4), Fin (1 / 4), Fin (1 / 4)], (Suc 0))"
  by (subst pi_loop64.simps) (simp add: eval64_defs diag_rounds)

lemma diag_solve:
  "ahpSolve64 [[Fin (1 / 2), Fin 1, Fin 1, Fin 1],
      [Fin 1, Fin (1 / 2), Fin 1, Fin 1],
      [Fin 1, Fin 1, Fin (1 / 2), Fin 1],
      [Fin 1, Fin 1, Fin 1, Fin (1 / 2)]]
   = \<lparr>weights = [Fin (1 / 4), Fin (1 / 4), Fin (1 / 4), Fin (1 / 4)],
      lambdaMax = Fin (7 / 2), ci = Fin (- (6004799503160661 / 36028797018963968)), cr = Fin (- (3335999723978145 / 18014398509481984))\<rparr>"
  by (simp add: eval64_defs diag_pass1 diag_rounds)

text \<open>The matrix of order 5 with \<open>2\<^sup>1\<^sup>0\<^sup>2\<^sup>3\<close> above the diagonal and \<open>2\<^sup>-\<^sup>1\<^sup>0\<^sup>2\<^sup>3\<close> below.\<close>

lemma double_r92: "round64 (1 / 5) = Fin (3602879701896397 / 18014398509481984)"
  using round64_eval_lt1 [of 3 "(1 / 5)"]
  by (simp add: rhe_def Let_def)

lemma double_r93: "round64 (3602879701896397 / 18014398509481984) = Fin (3602879701896397 / 18014398509481984)"
  using round64_eval_lt1 [of 3 "(3602879701896397 / 18014398509481984)"]
  by (simp add: rhe_def Let_def)

lemma double_r94: "round64 17976931348623160075213206675250153164366126307842348761068638333502038331823717531876793666722786494590994134304989880437102398977689284235503737260744242807362688484902258687633058435667447670714169017389994168210493440506208284812796538614517918160762685292480708577555178031725992451662783248134427377664 = Fin 17976931348623160075213206675250153164366126307842348761068638333502038331823717531876793666722786494590994134304989880437102398977689284235503737260744242807362688484902258687633058435667447670714169017389994168210493440506208284812796538614517918160762685292480708577555178031725992451662783248134427377664"
  using round64_eval_ge1 [of 1020 "17976931348623160075213206675250153164366126307842348761068638333502038331823717531876793666722786494590994134304989880437102398977689284235503737260744242807362688484902258687633058435667447670714169017389994168210493440506208284812796538614517918160762685292480708577555178031725992451662783248134427377664"]
  by (simp add: rhe_def Let_def)

lemma double_r95: "round64 (323843605291697007340923903373426768572342547512874725550811962266954270651800670800404194472395712463147056823660501170235081966956605328866198321346843865159170942789918615959936394873897673776205588410165804055007507181980085201604033603284943437536607144502497747618784531842998628046222717861805240504831568227873901773 / 18014398509481984) = Fin 17976931348623160075213206675250153164366126307842348761068638333502038331823717531876793666722786494590994134304989880437102398977689284235503737260744242807362688484902258687633058435667447670714169017389994168210493440506208284812796538614517918160762685292480708577555178031725992451662783248134427377664"
  using round64_eval_ge1 [of 1020 "(323843605291697007340923903373426768572342547512874725550811962266954270651800670800404194472395712463147056823660501170235081966956605328866198321346843865159170942789918615959936394873897673776205588410165804055007507181980085201604033603284943437536607144502497747618784531842998628046222717861805240504831568227873901773 / 18014398509481984)"]
  by (simp add: rhe_def Let_def)

lemma double_r96: "round64 35953862697246320150426413350500306328732252615684697522137276667004076663647435063753587333445572989181988268609979760874204797955378568471007474521488485614725376969804517375266116871334895341428338034779988336420986881012416569625593077229035836321525370584961417155110356063451984903325566496268854755328 = Fin 35953862697246320150426413350500306328732252615684697522137276667004076663647435063753587333445572989181988268609979760874204797955378568471007474521488485614725376969804517375266116871334895341428338034779988336420986881012416569625593077229035836321525370584961417155110356063451984903325566496268854755328"
  using round64_eval_ge1 [of 1021 "35953862697246320150426413350500306328732252615684697522137276667004076663647435063753587333445572989181988268609979760874204797955378568471007474521488485614725376969804517375266116871334895341428338034779988336420986881012416569625593077229035836321525370584961417155110356063451984903325566496268854755328"]
  by (simp add: rhe_def Let_def)

lemma double_r97: "round64 53930794045869480225639620025750459493098378923527046283205915000506114995471152595630381000168359483772982402914969641311307196933067852706511211782232728422088065454706776062899175307002343012142507052169982504631480321518624854438389615843553754482288055877442125732665534095177977354988349744403282132992 = Fin 53930794045869485215240393862549988634030161515623461451834066089149968751839258688660110672578523946167896134504222364667424307414305962637606182766216880270017561166785326862913357684716534305986810663077450461264872182878434837765415753645729726704426226997552519500467801284568081460884587820263306952704"
  using round64_eval_ge1 [of 1022 "53930794045869480225639620025750459493098378923527046283205915000506114995471152595630381000168359483772982402914969641311307196933067852706511211782232728422088065454706776062899175307002343012142507052169982504631480321518624854438389615843553754482288055877442125732665534095177977354988349744403282132992"]
  by (simp add: rhe_def Let_def)

lemma double_r98: "round64 71907725394492645290453600537800141798396287823465810212902704422652007083662976220536904339301310440758890268809212245104526706391995246873109920026961123077380249651687585550546416120383981976700979680467444629475365623384643122578212292260247644865188912290033228078022979316294073912547371068397734330368 = Fin 71907725394492640300852826701000612657464505231369395044274553334008153327294870127507174666891145978363976537219959521748409595910757136942014949042976971229450753939609034750532233742669790682856676069559976672841973762024833139251186154458071672643050741169922834310220712126903969806651132992537709510656"
  using round64_eval_ge1 [of 1022 "71907725394492645290453600537800141798396287823465810212902704422652007083662976220536904339301310440758890268809212245104526706391995246873109920026961123077380249651687585550546416120383981976700979680467444629475365623384643122578212292260247644865188912290033228078022979316294073912547371068397734330368"]
  by (simp add: rhe_def Let_def)

lemma double_r99: "round64 (3602879701896397 / 1619218026458484946819962773751338456396453198113136946855210864219442716543962775135683069611496995961496622914534495291118469899086347814936107199525908079372139394212530890915735261936745730729918141427781960548496059867397541588944826845193276450726480452098870156418667316921844020257490620069168050106461661928747958272) = Fin (225179981368525 / 101201126653655309176247673359458653524778324882071059178450679013715169783997673445980191850718562247593538932158405955694904368692896738433506699970369254960758712138283180682233453871046608170619883839236372534281003741712346349309051677824579778170405028256179384776166707307615251266093163754323003131653853870546747392)"
  using round64_eval_sub [of "(3602879701896397 / 1619218026458484946819962773751338456396453198113136946855210864219442716543962775135683069611496995961496622914534495291118469899086347814936107199525908079372139394212530890915735261936745730729918141427781960548496059867397541588944826845193276450726480452098870156418667316921844020257490620069168050106461661928747958272)"]
  by (simp add: rhe_def Let_def)

lemma double_r100: "round64 (225179981368525 / 101201126653655309176247673359458653524778324882071059178450679013715169783997673445980191850718562247593538932158405955694904368692896738433506699970369254960758712138283180682233453871046608170619883839236372534281003741712346349309051677824579778170405028256179384776166707307615251266093163754323003131653853870546747392) = Fin (225179981368525 / 101201126653655309176247673359458653524778324882071059178450679013715169783997673445980191850718562247593538932158405955694904368692896738433506699970369254960758712138283180682233453871046608170619883839236372534281003741712346349309051677824579778170405028256179384776166707307615251266093163754323003131653853870546747392)"
  using round64_eval_sub [of "(225179981368525 / 101201126653655309176247673359458653524778324882071059178450679013715169783997673445980191850718562247593538932158405955694904368692896738433506699970369254960758712138283180682233453871046608170619883839236372534281003741712346349309051677824579778170405028256179384776166707307615251266093163754323003131653853870546747392)"]
  by (simp add: rhe_def Let_def)

lemma double_r101: "round64 (20240225330731062958807743960839173035771409219554670346925747641684641915737541925025262154524732028946691051478781323139692622934787833054137395084177741572448183924369913497496024679618604611012849275635362753437969198873755325100252100205308964846037946531406109226174033240187414252888919866362827531551973014242118861 / 101201126653655309176247673359458653524778324882071059178450679013715169783997673445980191850718562247593538932158405955694904368692896738433506699970369254960758712138283180682233453871046608170619883839236372534281003741712346349309051677824579778170405028256179384776166707307615251266093163754323003131653853870546747392) = Fin (3602879701896397 / 18014398509481984)"
  using round64_eval_lt1 [of 3 "(20240225330731062958807743960839173035771409219554670346925747641684641915737541925025262154524732028946691051478781323139692622934787833054137395084177741572448183924369913497496024679618604611012849275635362753437969198873755325100252100205308964846037946531406109226174033240187414252888919866362827531551973014242118861 / 101201126653655309176247673359458653524778324882071059178450679013715169783997673445980191850718562247593538932158405955694904368692896738433506699970369254960758712138283180682233453871046608170619883839236372534281003741712346349309051677824579778170405028256179384776166707307615251266093163754323003131653853870546747392)"]
  by (simp add: rhe_def Let_def)

lemma double_r102: "round64 (225179981368525 / 50600563326827654588123836679729326762389162441035529589225339506857584891998836722990095925359281123796769466079202977847452184346448369216753349985184627480379356069141590341116726935523304085309941919618186267140501870856173174654525838912289889085202514128089692388083353653807625633046581877161501565826926935273373696) = Fin (225179981368525 / 50600563326827654588123836679729326762389162441035529589225339506857584891998836722990095925359281123796769466079202977847452184346448369216753349985184627480379356069141590341116726935523304085309941919618186267140501870856173174654525838912289889085202514128089692388083353653807625633046581877161501565826926935273373696)"
  using round64_eval_sub [of "(225179981368525 / 50600563326827654588123836679729326762389162441035529589225339506857584891998836722990095925359281123796769466079202977847452184346448369216753349985184627480379356069141590341116726935523304085309941919618186267140501870856173174654525838912289889085202514128089692388083353653807625633046581877161501565826926935273373696)"]
  by (simp add: rhe_def Let_def)

lemma double_r103: "round64 (10120112665365531479403871980419586517885704609777335173462873820842320957868770962512631077262366014473345525739390661569846311467393916527068697542088870786224091962184956748748012339809302305506424637817681376718984599436877662550126050102654482423018973265703054613087016620093707126444459933181413765776099097111743693 / 50600563326827654588123836679729326762389162441035529589225339506857584891998836722990095925359281123796769466079202977847452184346448369216753349985184627480379356069141590341116726935523304085309941919618186267140501870856173174654525838912289889085202514128089692388083353653807625633046581877161501565826926935273373696) = Fin (3602879701896397 / 18014398509481984)"
  using round64_eval_lt1 [of 3 "(10120112665365531479403871980419586517885704609777335173462873820842320957868770962512631077262366014473345525739390661569846311467393916527068697542088870786224091962184956748748012339809302305506424637817681376718984599436877662550126050102654482423018973265703054613087016620093707126444459933181413765776099097111743693 / 50600563326827654588123836679729326762389162441035529589225339506857584891998836722990095925359281123796769466079202977847452184346448369216753349985184627480379356069141590341116726935523304085309941919618186267140501870856173174654525838912289889085202514128089692388083353653807625633046581877161501565826926935273373696)"]
  by (simp add: rhe_def Let_def)

lemma double_r104: "round64 (675539944105575 / 101201126653655309176247673359458653524778324882071059178450679013715169783997673445980191850718562247593538932158405955694904368692896738433506699970369254960758712138283180682233453871046608170619883839236372534281003741712346349309051677824579778170405028256179384776166707307615251266093163754323003131653853870546747392) = Fin (675539944105575 / 101201126653655309176247673359458653524778324882071059178450679013715169783997673445980191850718562247593538932158405955694904368692896738433506699970369254960758712138283180682233453871046608170619883839236372534281003741712346349309051677824579778170405028256179384776166707307615251266093163754323003131653853870546747392)"
  using round64_eval_sub [of "(675539944105575 / 101201126653655309176247673359458653524778324882071059178450679013715169783997673445980191850718562247593538932158405955694904368692896738433506699970369254960758712138283180682233453871046608170619883839236372534281003741712346349309051677824579778170405028256179384776166707307615251266093163754323003131653853870546747392)"]
  by (simp add: rhe_def Let_def)

lemma double_r105: "round64 (20240225330731062958807743960839173035771409219554670346925747641684641915737541925025262154524732028946691051478781323139692622934787833054137395084177741572448183924369913497496024679618604611012849275635362753437969198873755325100252100205308964846037946531406109226174033240187414252888919866362827531552423374204855911 / 101201126653655309176247673359458653524778324882071059178450679013715169783997673445980191850718562247593538932158405955694904368692896738433506699970369254960758712138283180682233453871046608170619883839236372534281003741712346349309051677824579778170405028256179384776166707307615251266093163754323003131653853870546747392) = Fin (3602879701896397 / 18014398509481984)"
  using round64_eval_lt1 [of 3 "(20240225330731062958807743960839173035771409219554670346925747641684641915737541925025262154524732028946691051478781323139692622934787833054137395084177741572448183924369913497496024679618604611012849275635362753437969198873755325100252100205308964846037946531406109226174033240187414252888919866362827531552423374204855911 / 101201126653655309176247673359458653524778324882071059178450679013715169783997673445980191850718562247593538932158405955694904368692896738433506699970369254960758712138283180682233453871046608170619883839236372534281003741712346349309051677824579778170405028256179384776166707307615251266093163754323003131653853870546747392)"]
  by (simp add: rhe_def Let_def)

lemma double_r106: "round64 (225179981368525 / 25300281663413827294061918339864663381194581220517764794612669753428792445999418361495047962679640561898384733039601488923726092173224184608376674992592313740189678034570795170558363467761652042654970959809093133570250935428086587327262919456144944542601257064044846194041676826903812816523290938580750782913463467636686848) = Fin (225179981368525 / 25300281663413827294061918339864663381194581220517764794612669753428792445999418361495047962679640561898384733039601488923726092173224184608376674992592313740189678034570795170558363467761652042654970959809093133570250935428086587327262919456144944542601257064044846194041676826903812816523290938580750782913463467636686848)"
  using round64_eval_sub [of "(225179981368525 / 25300281663413827294061918339864663381194581220517764794612669753428792445999418361495047962679640561898384733039601488923726092173224184608376674992592313740189678034570795170558363467761652042654970959809093133570250935428086587327262919456144944542601257064044846194041676826903812816523290938580750782913463467636686848)"]
  by (simp add: rhe_def Let_def)

lemma double_r107: "round64 (5060056332682765739701935990209793258942852304888667586731436910421160478934385481256315538631183007236672762869695330784923155733696958263534348771044435393112045981092478374374006169904651152753212318908840688359492299718438831275063025051327241211509486632851527306543508310046853563222229966590706882888162138546556109 / 25300281663413827294061918339864663381194581220517764794612669753428792445999418361495047962679640561898384733039601488923726092173224184608376674992592313740189678034570795170558363467761652042654970959809093133570250935428086587327262919456144944542601257064044846194041676826903812816523290938580750782913463467636686848) = Fin (3602879701896397 / 18014398509481984)"
  using round64_eval_lt1 [of 3 "(5060056332682765739701935990209793258942852304888667586731436910421160478934385481256315538631183007236672762869695330784923155733696958263534348771044435393112045981092478374374006169904651152753212318908840688359492299718438831275063025051327241211509486632851527306543508310046853563222229966590706882888162138546556109 / 25300281663413827294061918339864663381194581220517764794612669753428792445999418361495047962679640561898384733039601488923726092173224184608376674992592313740189678034570795170558363467761652042654970959809093133570250935428086587327262919456144944542601257064044846194041676826903812816523290938580750782913463467636686848)"]
  by (simp add: rhe_def Let_def)

lemma double_r108: "round64 71907725394492640300852826701000612657464505231369395044274553334008153327294870127507174666891145978363976537219959521748409595910757136942014949042976971229450753939609034750532233742669790682856676069559976672841973762024833139251186154458071672643050741169922834310220712126903969806651132992537709510656 = Fin 71907725394492640300852826701000612657464505231369395044274553334008153327294870127507174666891145978363976537219959521748409595910757136942014949042976971229450753939609034750532233742669790682856676069559976672841973762024833139251186154458071672643050741169922834310220712126903969806651132992537709510656"
  using round64_eval_ge1 [of 1022 "71907725394492640300852826701000612657464505231369395044274553334008153327294870127507174666891145978363976537219959521748409595910757136942014949042976971229450753939609034750532233742669790682856676069559976672841973762024833139251186154458071672643050741169922834310220712126903969806651132992537709510656"]
  by (simp add: rhe_def Let_def)

lemma double_r109: "round64 125838519440362125516093220563550601291494666746992856496108619423158122079134128816167285339469669924531872671724181886415833903325063099579621131809193851499468315106394361613445591427386324988843486732637427134106845944903267977016601908103801399347476968167475353810688513411472051267535720812801016463360 = Fin 125838519440362125516093220563550601291494666746992856496108619423158122079134128816167285339469669924531872671724181886415833903325063099579621131809193851499468315106394361613445591427386324988843486732637427134106845944903267977016601908103801399347476968167475353810688513411472051267535720812801016463360"
  using round64_eval_ge1 [of 1023 "125838519440362125516093220563550601291494666746992856496108619423158122079134128816167285339469669924531872671724181886415833903325063099579621131809193851499468315106394361613445591427386324988843486732637427134106845944903267977016601908103801399347476968167475353810688513411472051267535720812801016463360"]
  by (simp add: rhe_def Let_def)

lemma double_r110: "round64 161792382137608445666519633914050907620226919362677554018245896090162198742781563879920872672915242913713860940334161647290038701280441668050628606330682337114193692076198878988711708298721220330271824767417415470527832825915684546642194985332837235669002338752436770965798869474924036170861287309069871218688 = Fin 161792382137608455645721181587649965902090484546870384355502198267449906255517776065980332017735571838503688403512667094002272922242917887912818548298650640810052683500355980588740073054149602917960431989232351383794616548635304513296247260937189180113278680992657558501403403853704244382653763460789920858112"
  using round64_eval_ge1 [of 1023 "161792382137608445666519633914050907620226919362677554018245896090162198742781563879920872672915242913713860940334161647290038701280441668050628606330682337114193692076198878988711708298721220330271824767417415470527832825915684546642194985332837235669002338752436770965798869474924036170861287309069871218688"]
  by (simp add: rhe_def Let_def)

lemma double_r111: "round64 179769313486231615720934388262900119066456610854712733116570836600951944587341493597857125684458358333094682537817656974439375321220607172148322285559394883617415371985258239276373131489817050588674601006622345552005109989141512798109043799551707098274041366285138267078958581885430236834316546708924348235776 = PInf"
  using round64_eval_ge1 [of 1024 "179769313486231615720934388262900119066456610854712733116570836600951944587341493597857125684458358333094682537817656974439375321220607172148322285559394883617415371985258239276373131489817050588674601006622345552005109989141512798109043799551707098274041366285138267078958581885430236834316546708924348235776"]
  by (simp add: rhe_def Let_def)

lemma double_r112: "round64 (- (3602879701896397 / 18014398509481984)) = Fin (- (3602879701896397 / 18014398509481984))"
  using round64_eval_lt1 [of 3 "(3602879701896397 / 18014398509481984)"] round64_neg [of "(3602879701896397 / 18014398509481984)"]
  by (simp add: rhe_def Let_def)

lemma double_r113: "round64 4 = Fin 4"
  using round64_eval_ge1 [of 2 "4"]
  by (simp add: rhe_def Let_def)

lemma double_r114: "round64 (28 / 25) = Fin (1261007895663739 / 1125899906842624)"
  using round64_eval_ge1 [of 0 "(28 / 25)"]
  by (simp add: rhe_def Let_def)

lemma double_r115: "round64 89884656743115795386465259539451236680898848947115328636715040578866337902750481566354238661203768010560056939935696678829394884407208311246423715319737062188883946712432742638151109800623047059726541476042502884419075341171231440736956555270413618581675255342293149119973622969239858152417678164812112068608 = Fin 89884656743115795386465259539451236680898848947115328636715040578866337902750481566354238661203768010560056939935696678829394884407208311246423715319737062188883946712432742638151109800623047059726541476042502884419075341171231440736956555270413618581675255342293149119973622969239858152417678164812112068608"
  using round64_eval_ge1 [of 1023 "89884656743115795386465259539451236680898848947115328636715040578866337902750481566354238661203768010560056939935696678829394884407208311246423715319737062188883946712432742638151109800623047059726541476042502884419075341171231440736956555270413618581675255342293149119973622969239858152417678164812112068608"]
  by (simp add: rhe_def Let_def)

lemma double_r116: "round64 (1 / 89884656743115795386465259539451236680898848947115328636715040578866337902750481566354238661203768010560056939935696678829394884407208311246423715319737062188883946712432742638151109800623047059726541476042502884419075341171231440736956555270413618581675255342293149119973622969239858152417678164812112068608) = Fin (1 / 89884656743115795386465259539451236680898848947115328636715040578866337902750481566354238661203768010560056939935696678829394884407208311246423715319737062188883946712432742638151109800623047059726541476042502884419075341171231440736956555270413618581675255342293149119973622969239858152417678164812112068608)"
  using round64_eval_sub [of "(1 / 89884656743115795386465259539451236680898848947115328636715040578866337902750481566354238661203768010560056939935696678829394884407208311246423715319737062188883946712432742638151109800623047059726541476042502884419075341171231440736956555270413618581675255342293149119973622969239858152417678164812112068608)"]
  by (simp add: rhe_def Let_def)

lemmas huge_rounds = double_r1 double_r92 double_r93 double_r94 double_r95 double_r96 double_r97 double_r98 double_r99 double_r100 double_r101 double_r102 double_r103 double_r104 double_r105 double_r106 double_r107 double_r108 double_r109 double_r110 double_r111 double_r112 double_r113 double_r114 double_r115 double_r116

lemma huge_pass1:
  "pi_loop64 [[Fin 1, Fin 89884656743115795386465259539451236680898848947115328636715040578866337902750481566354238661203768010560056939935696678829394884407208311246423715319737062188883946712432742638151109800623047059726541476042502884419075341171231440736956555270413618581675255342293149119973622969239858152417678164812112068608, Fin 89884656743115795386465259539451236680898848947115328636715040578866337902750481566354238661203768010560056939935696678829394884407208311246423715319737062188883946712432742638151109800623047059726541476042502884419075341171231440736956555270413618581675255342293149119973622969239858152417678164812112068608, Fin 89884656743115795386465259539451236680898848947115328636715040578866337902750481566354238661203768010560056939935696678829394884407208311246423715319737062188883946712432742638151109800623047059726541476042502884419075341171231440736956555270413618581675255342293149119973622969239858152417678164812112068608, Fin 89884656743115795386465259539451236680898848947115328636715040578866337902750481566354238661203768010560056939935696678829394884407208311246423715319737062188883946712432742638151109800623047059726541476042502884419075341171231440736956555270413618581675255342293149119973622969239858152417678164812112068608],
      [Fin (1 / 89884656743115795386465259539451236680898848947115328636715040578866337902750481566354238661203768010560056939935696678829394884407208311246423715319737062188883946712432742638151109800623047059726541476042502884419075341171231440736956555270413618581675255342293149119973622969239858152417678164812112068608), Fin 1, Fin 89884656743115795386465259539451236680898848947115328636715040578866337902750481566354238661203768010560056939935696678829394884407208311246423715319737062188883946712432742638151109800623047059726541476042502884419075341171231440736956555270413618581675255342293149119973622969239858152417678164812112068608, Fin 89884656743115795386465259539451236680898848947115328636715040578866337902750481566354238661203768010560056939935696678829394884407208311246423715319737062188883946712432742638151109800623047059726541476042502884419075341171231440736956555270413618581675255342293149119973622969239858152417678164812112068608, Fin 89884656743115795386465259539451236680898848947115328636715040578866337902750481566354238661203768010560056939935696678829394884407208311246423715319737062188883946712432742638151109800623047059726541476042502884419075341171231440736956555270413618581675255342293149119973622969239858152417678164812112068608],
      [Fin (1 / 89884656743115795386465259539451236680898848947115328636715040578866337902750481566354238661203768010560056939935696678829394884407208311246423715319737062188883946712432742638151109800623047059726541476042502884419075341171231440736956555270413618581675255342293149119973622969239858152417678164812112068608), Fin (1 / 89884656743115795386465259539451236680898848947115328636715040578866337902750481566354238661203768010560056939935696678829394884407208311246423715319737062188883946712432742638151109800623047059726541476042502884419075341171231440736956555270413618581675255342293149119973622969239858152417678164812112068608), Fin 1, Fin 89884656743115795386465259539451236680898848947115328636715040578866337902750481566354238661203768010560056939935696678829394884407208311246423715319737062188883946712432742638151109800623047059726541476042502884419075341171231440736956555270413618581675255342293149119973622969239858152417678164812112068608, Fin 89884656743115795386465259539451236680898848947115328636715040578866337902750481566354238661203768010560056939935696678829394884407208311246423715319737062188883946712432742638151109800623047059726541476042502884419075341171231440736956555270413618581675255342293149119973622969239858152417678164812112068608],
      [Fin (1 / 89884656743115795386465259539451236680898848947115328636715040578866337902750481566354238661203768010560056939935696678829394884407208311246423715319737062188883946712432742638151109800623047059726541476042502884419075341171231440736956555270413618581675255342293149119973622969239858152417678164812112068608), Fin (1 / 89884656743115795386465259539451236680898848947115328636715040578866337902750481566354238661203768010560056939935696678829394884407208311246423715319737062188883946712432742638151109800623047059726541476042502884419075341171231440736956555270413618581675255342293149119973622969239858152417678164812112068608), Fin (1 / 89884656743115795386465259539451236680898848947115328636715040578866337902750481566354238661203768010560056939935696678829394884407208311246423715319737062188883946712432742638151109800623047059726541476042502884419075341171231440736956555270413618581675255342293149119973622969239858152417678164812112068608), Fin 1, Fin 89884656743115795386465259539451236680898848947115328636715040578866337902750481566354238661203768010560056939935696678829394884407208311246423715319737062188883946712432742638151109800623047059726541476042502884419075341171231440736956555270413618581675255342293149119973622969239858152417678164812112068608],
      [Fin (1 / 89884656743115795386465259539451236680898848947115328636715040578866337902750481566354238661203768010560056939935696678829394884407208311246423715319737062188883946712432742638151109800623047059726541476042502884419075341171231440736956555270413618581675255342293149119973622969239858152417678164812112068608), Fin (1 / 89884656743115795386465259539451236680898848947115328636715040578866337902750481566354238661203768010560056939935696678829394884407208311246423715319737062188883946712432742638151109800623047059726541476042502884419075341171231440736956555270413618581675255342293149119973622969239858152417678164812112068608), Fin (1 / 89884656743115795386465259539451236680898848947115328636715040578866337902750481566354238661203768010560056939935696678829394884407208311246423715319737062188883946712432742638151109800623047059726541476042502884419075341171231440736956555270413618581675255342293149119973622969239858152417678164812112068608), Fin (1 / 89884656743115795386465259539451236680898848947115328636715040578866337902750481566354238661203768010560056939935696678829394884407208311246423715319737062188883946712432742638151109800623047059726541476042502884419075341171231440736956555270413618581675255342293149119973622969239858152417678164812112068608), Fin 1]] 1500 (Fin (6189700196426901 / 618970019642690137449562112)) 0 [Fin (3602879701896397 / 18014398509481984), Fin (3602879701896397 / 18014398509481984), Fin (3602879701896397 / 18014398509481984), Fin (3602879701896397 / 18014398509481984), Fin (3602879701896397 / 18014398509481984)]
   = pi_loop64 [[Fin 1, Fin 89884656743115795386465259539451236680898848947115328636715040578866337902750481566354238661203768010560056939935696678829394884407208311246423715319737062188883946712432742638151109800623047059726541476042502884419075341171231440736956555270413618581675255342293149119973622969239858152417678164812112068608, Fin 89884656743115795386465259539451236680898848947115328636715040578866337902750481566354238661203768010560056939935696678829394884407208311246423715319737062188883946712432742638151109800623047059726541476042502884419075341171231440736956555270413618581675255342293149119973622969239858152417678164812112068608, Fin 89884656743115795386465259539451236680898848947115328636715040578866337902750481566354238661203768010560056939935696678829394884407208311246423715319737062188883946712432742638151109800623047059726541476042502884419075341171231440736956555270413618581675255342293149119973622969239858152417678164812112068608, Fin 89884656743115795386465259539451236680898848947115328636715040578866337902750481566354238661203768010560056939935696678829394884407208311246423715319737062188883946712432742638151109800623047059726541476042502884419075341171231440736956555270413618581675255342293149119973622969239858152417678164812112068608],
      [Fin (1 / 89884656743115795386465259539451236680898848947115328636715040578866337902750481566354238661203768010560056939935696678829394884407208311246423715319737062188883946712432742638151109800623047059726541476042502884419075341171231440736956555270413618581675255342293149119973622969239858152417678164812112068608), Fin 1, Fin 89884656743115795386465259539451236680898848947115328636715040578866337902750481566354238661203768010560056939935696678829394884407208311246423715319737062188883946712432742638151109800623047059726541476042502884419075341171231440736956555270413618581675255342293149119973622969239858152417678164812112068608, Fin 89884656743115795386465259539451236680898848947115328636715040578866337902750481566354238661203768010560056939935696678829394884407208311246423715319737062188883946712432742638151109800623047059726541476042502884419075341171231440736956555270413618581675255342293149119973622969239858152417678164812112068608, Fin 89884656743115795386465259539451236680898848947115328636715040578866337902750481566354238661203768010560056939935696678829394884407208311246423715319737062188883946712432742638151109800623047059726541476042502884419075341171231440736956555270413618581675255342293149119973622969239858152417678164812112068608],
      [Fin (1 / 89884656743115795386465259539451236680898848947115328636715040578866337902750481566354238661203768010560056939935696678829394884407208311246423715319737062188883946712432742638151109800623047059726541476042502884419075341171231440736956555270413618581675255342293149119973622969239858152417678164812112068608), Fin (1 / 89884656743115795386465259539451236680898848947115328636715040578866337902750481566354238661203768010560056939935696678829394884407208311246423715319737062188883946712432742638151109800623047059726541476042502884419075341171231440736956555270413618581675255342293149119973622969239858152417678164812112068608), Fin 1, Fin 89884656743115795386465259539451236680898848947115328636715040578866337902750481566354238661203768010560056939935696678829394884407208311246423715319737062188883946712432742638151109800623047059726541476042502884419075341171231440736956555270413618581675255342293149119973622969239858152417678164812112068608, Fin 89884656743115795386465259539451236680898848947115328636715040578866337902750481566354238661203768010560056939935696678829394884407208311246423715319737062188883946712432742638151109800623047059726541476042502884419075341171231440736956555270413618581675255342293149119973622969239858152417678164812112068608],
      [Fin (1 / 89884656743115795386465259539451236680898848947115328636715040578866337902750481566354238661203768010560056939935696678829394884407208311246423715319737062188883946712432742638151109800623047059726541476042502884419075341171231440736956555270413618581675255342293149119973622969239858152417678164812112068608), Fin (1 / 89884656743115795386465259539451236680898848947115328636715040578866337902750481566354238661203768010560056939935696678829394884407208311246423715319737062188883946712432742638151109800623047059726541476042502884419075341171231440736956555270413618581675255342293149119973622969239858152417678164812112068608), Fin (1 / 89884656743115795386465259539451236680898848947115328636715040578866337902750481566354238661203768010560056939935696678829394884407208311246423715319737062188883946712432742638151109800623047059726541476042502884419075341171231440736956555270413618581675255342293149119973622969239858152417678164812112068608), Fin 1, Fin 89884656743115795386465259539451236680898848947115328636715040578866337902750481566354238661203768010560056939935696678829394884407208311246423715319737062188883946712432742638151109800623047059726541476042502884419075341171231440736956555270413618581675255342293149119973622969239858152417678164812112068608],
      [Fin (1 / 89884656743115795386465259539451236680898848947115328636715040578866337902750481566354238661203768010560056939935696678829394884407208311246423715319737062188883946712432742638151109800623047059726541476042502884419075341171231440736956555270413618581675255342293149119973622969239858152417678164812112068608), Fin (1 / 89884656743115795386465259539451236680898848947115328636715040578866337902750481566354238661203768010560056939935696678829394884407208311246423715319737062188883946712432742638151109800623047059726541476042502884419075341171231440736956555270413618581675255342293149119973622969239858152417678164812112068608), Fin (1 / 89884656743115795386465259539451236680898848947115328636715040578866337902750481566354238661203768010560056939935696678829394884407208311246423715319737062188883946712432742638151109800623047059726541476042502884419075341171231440736956555270413618581675255342293149119973622969239858152417678164812112068608), Fin (1 / 89884656743115795386465259539451236680898848947115328636715040578866337902750481566354238661203768010560056939935696678829394884407208311246423715319737062188883946712432742638151109800623047059726541476042502884419075341171231440736956555270413618581675255342293149119973622969239858152417678164812112068608), Fin 1]] 1500 (Fin (6189700196426901 / 618970019642690137449562112)) (Suc 0) [Fin 0, Fin 0, Fin 0, Fin 0, Fin 0]"
  by (subst pi_loop64.simps) (simp add: eval64_defs huge_rounds)

lemma huge_pass2:
  "pi_loop64 [[Fin 1, Fin 89884656743115795386465259539451236680898848947115328636715040578866337902750481566354238661203768010560056939935696678829394884407208311246423715319737062188883946712432742638151109800623047059726541476042502884419075341171231440736956555270413618581675255342293149119973622969239858152417678164812112068608, Fin 89884656743115795386465259539451236680898848947115328636715040578866337902750481566354238661203768010560056939935696678829394884407208311246423715319737062188883946712432742638151109800623047059726541476042502884419075341171231440736956555270413618581675255342293149119973622969239858152417678164812112068608, Fin 89884656743115795386465259539451236680898848947115328636715040578866337902750481566354238661203768010560056939935696678829394884407208311246423715319737062188883946712432742638151109800623047059726541476042502884419075341171231440736956555270413618581675255342293149119973622969239858152417678164812112068608, Fin 89884656743115795386465259539451236680898848947115328636715040578866337902750481566354238661203768010560056939935696678829394884407208311246423715319737062188883946712432742638151109800623047059726541476042502884419075341171231440736956555270413618581675255342293149119973622969239858152417678164812112068608],
      [Fin (1 / 89884656743115795386465259539451236680898848947115328636715040578866337902750481566354238661203768010560056939935696678829394884407208311246423715319737062188883946712432742638151109800623047059726541476042502884419075341171231440736956555270413618581675255342293149119973622969239858152417678164812112068608), Fin 1, Fin 89884656743115795386465259539451236680898848947115328636715040578866337902750481566354238661203768010560056939935696678829394884407208311246423715319737062188883946712432742638151109800623047059726541476042502884419075341171231440736956555270413618581675255342293149119973622969239858152417678164812112068608, Fin 89884656743115795386465259539451236680898848947115328636715040578866337902750481566354238661203768010560056939935696678829394884407208311246423715319737062188883946712432742638151109800623047059726541476042502884419075341171231440736956555270413618581675255342293149119973622969239858152417678164812112068608, Fin 89884656743115795386465259539451236680898848947115328636715040578866337902750481566354238661203768010560056939935696678829394884407208311246423715319737062188883946712432742638151109800623047059726541476042502884419075341171231440736956555270413618581675255342293149119973622969239858152417678164812112068608],
      [Fin (1 / 89884656743115795386465259539451236680898848947115328636715040578866337902750481566354238661203768010560056939935696678829394884407208311246423715319737062188883946712432742638151109800623047059726541476042502884419075341171231440736956555270413618581675255342293149119973622969239858152417678164812112068608), Fin (1 / 89884656743115795386465259539451236680898848947115328636715040578866337902750481566354238661203768010560056939935696678829394884407208311246423715319737062188883946712432742638151109800623047059726541476042502884419075341171231440736956555270413618581675255342293149119973622969239858152417678164812112068608), Fin 1, Fin 89884656743115795386465259539451236680898848947115328636715040578866337902750481566354238661203768010560056939935696678829394884407208311246423715319737062188883946712432742638151109800623047059726541476042502884419075341171231440736956555270413618581675255342293149119973622969239858152417678164812112068608, Fin 89884656743115795386465259539451236680898848947115328636715040578866337902750481566354238661203768010560056939935696678829394884407208311246423715319737062188883946712432742638151109800623047059726541476042502884419075341171231440736956555270413618581675255342293149119973622969239858152417678164812112068608],
      [Fin (1 / 89884656743115795386465259539451236680898848947115328636715040578866337902750481566354238661203768010560056939935696678829394884407208311246423715319737062188883946712432742638151109800623047059726541476042502884419075341171231440736956555270413618581675255342293149119973622969239858152417678164812112068608), Fin (1 / 89884656743115795386465259539451236680898848947115328636715040578866337902750481566354238661203768010560056939935696678829394884407208311246423715319737062188883946712432742638151109800623047059726541476042502884419075341171231440736956555270413618581675255342293149119973622969239858152417678164812112068608), Fin (1 / 89884656743115795386465259539451236680898848947115328636715040578866337902750481566354238661203768010560056939935696678829394884407208311246423715319737062188883946712432742638151109800623047059726541476042502884419075341171231440736956555270413618581675255342293149119973622969239858152417678164812112068608), Fin 1, Fin 89884656743115795386465259539451236680898848947115328636715040578866337902750481566354238661203768010560056939935696678829394884407208311246423715319737062188883946712432742638151109800623047059726541476042502884419075341171231440736956555270413618581675255342293149119973622969239858152417678164812112068608],
      [Fin (1 / 89884656743115795386465259539451236680898848947115328636715040578866337902750481566354238661203768010560056939935696678829394884407208311246423715319737062188883946712432742638151109800623047059726541476042502884419075341171231440736956555270413618581675255342293149119973622969239858152417678164812112068608), Fin (1 / 89884656743115795386465259539451236680898848947115328636715040578866337902750481566354238661203768010560056939935696678829394884407208311246423715319737062188883946712432742638151109800623047059726541476042502884419075341171231440736956555270413618581675255342293149119973622969239858152417678164812112068608), Fin (1 / 89884656743115795386465259539451236680898848947115328636715040578866337902750481566354238661203768010560056939935696678829394884407208311246423715319737062188883946712432742638151109800623047059726541476042502884419075341171231440736956555270413618581675255342293149119973622969239858152417678164812112068608), Fin (1 / 89884656743115795386465259539451236680898848947115328636715040578866337902750481566354238661203768010560056939935696678829394884407208311246423715319737062188883946712432742638151109800623047059726541476042502884419075341171231440736956555270413618581675255342293149119973622969239858152417678164812112068608), Fin 1]] 1500 (Fin (6189700196426901 / 618970019642690137449562112)) (Suc 0) [Fin 0, Fin 0, Fin 0, Fin 0, Fin 0]
   = pi_loop64 [[Fin 1, Fin 89884656743115795386465259539451236680898848947115328636715040578866337902750481566354238661203768010560056939935696678829394884407208311246423715319737062188883946712432742638151109800623047059726541476042502884419075341171231440736956555270413618581675255342293149119973622969239858152417678164812112068608, Fin 89884656743115795386465259539451236680898848947115328636715040578866337902750481566354238661203768010560056939935696678829394884407208311246423715319737062188883946712432742638151109800623047059726541476042502884419075341171231440736956555270413618581675255342293149119973622969239858152417678164812112068608, Fin 89884656743115795386465259539451236680898848947115328636715040578866337902750481566354238661203768010560056939935696678829394884407208311246423715319737062188883946712432742638151109800623047059726541476042502884419075341171231440736956555270413618581675255342293149119973622969239858152417678164812112068608, Fin 89884656743115795386465259539451236680898848947115328636715040578866337902750481566354238661203768010560056939935696678829394884407208311246423715319737062188883946712432742638151109800623047059726541476042502884419075341171231440736956555270413618581675255342293149119973622969239858152417678164812112068608],
      [Fin (1 / 89884656743115795386465259539451236680898848947115328636715040578866337902750481566354238661203768010560056939935696678829394884407208311246423715319737062188883946712432742638151109800623047059726541476042502884419075341171231440736956555270413618581675255342293149119973622969239858152417678164812112068608), Fin 1, Fin 89884656743115795386465259539451236680898848947115328636715040578866337902750481566354238661203768010560056939935696678829394884407208311246423715319737062188883946712432742638151109800623047059726541476042502884419075341171231440736956555270413618581675255342293149119973622969239858152417678164812112068608, Fin 89884656743115795386465259539451236680898848947115328636715040578866337902750481566354238661203768010560056939935696678829394884407208311246423715319737062188883946712432742638151109800623047059726541476042502884419075341171231440736956555270413618581675255342293149119973622969239858152417678164812112068608, Fin 89884656743115795386465259539451236680898848947115328636715040578866337902750481566354238661203768010560056939935696678829394884407208311246423715319737062188883946712432742638151109800623047059726541476042502884419075341171231440736956555270413618581675255342293149119973622969239858152417678164812112068608],
      [Fin (1 / 89884656743115795386465259539451236680898848947115328636715040578866337902750481566354238661203768010560056939935696678829394884407208311246423715319737062188883946712432742638151109800623047059726541476042502884419075341171231440736956555270413618581675255342293149119973622969239858152417678164812112068608), Fin (1 / 89884656743115795386465259539451236680898848947115328636715040578866337902750481566354238661203768010560056939935696678829394884407208311246423715319737062188883946712432742638151109800623047059726541476042502884419075341171231440736956555270413618581675255342293149119973622969239858152417678164812112068608), Fin 1, Fin 89884656743115795386465259539451236680898848947115328636715040578866337902750481566354238661203768010560056939935696678829394884407208311246423715319737062188883946712432742638151109800623047059726541476042502884419075341171231440736956555270413618581675255342293149119973622969239858152417678164812112068608, Fin 89884656743115795386465259539451236680898848947115328636715040578866337902750481566354238661203768010560056939935696678829394884407208311246423715319737062188883946712432742638151109800623047059726541476042502884419075341171231440736956555270413618581675255342293149119973622969239858152417678164812112068608],
      [Fin (1 / 89884656743115795386465259539451236680898848947115328636715040578866337902750481566354238661203768010560056939935696678829394884407208311246423715319737062188883946712432742638151109800623047059726541476042502884419075341171231440736956555270413618581675255342293149119973622969239858152417678164812112068608), Fin (1 / 89884656743115795386465259539451236680898848947115328636715040578866337902750481566354238661203768010560056939935696678829394884407208311246423715319737062188883946712432742638151109800623047059726541476042502884419075341171231440736956555270413618581675255342293149119973622969239858152417678164812112068608), Fin (1 / 89884656743115795386465259539451236680898848947115328636715040578866337902750481566354238661203768010560056939935696678829394884407208311246423715319737062188883946712432742638151109800623047059726541476042502884419075341171231440736956555270413618581675255342293149119973622969239858152417678164812112068608), Fin 1, Fin 89884656743115795386465259539451236680898848947115328636715040578866337902750481566354238661203768010560056939935696678829394884407208311246423715319737062188883946712432742638151109800623047059726541476042502884419075341171231440736956555270413618581675255342293149119973622969239858152417678164812112068608],
      [Fin (1 / 89884656743115795386465259539451236680898848947115328636715040578866337902750481566354238661203768010560056939935696678829394884407208311246423715319737062188883946712432742638151109800623047059726541476042502884419075341171231440736956555270413618581675255342293149119973622969239858152417678164812112068608), Fin (1 / 89884656743115795386465259539451236680898848947115328636715040578866337902750481566354238661203768010560056939935696678829394884407208311246423715319737062188883946712432742638151109800623047059726541476042502884419075341171231440736956555270413618581675255342293149119973622969239858152417678164812112068608), Fin (1 / 89884656743115795386465259539451236680898848947115328636715040578866337902750481566354238661203768010560056939935696678829394884407208311246423715319737062188883946712432742638151109800623047059726541476042502884419075341171231440736956555270413618581675255342293149119973622969239858152417678164812112068608), Fin (1 / 89884656743115795386465259539451236680898848947115328636715040578866337902750481566354238661203768010560056939935696678829394884407208311246423715319737062188883946712432742638151109800623047059726541476042502884419075341171231440736956555270413618581675255342293149119973622969239858152417678164812112068608), Fin 1]] 1500 (Fin (6189700196426901 / 618970019642690137449562112)) (Suc (Suc 0)) [NaN, NaN, NaN, NaN, NaN]"
  by (subst pi_loop64.simps) (simp add: eval64_defs huge_rounds)

lemma huge_tail:
  "pi_loop64 [[Fin 1, Fin 89884656743115795386465259539451236680898848947115328636715040578866337902750481566354238661203768010560056939935696678829394884407208311246423715319737062188883946712432742638151109800623047059726541476042502884419075341171231440736956555270413618581675255342293149119973622969239858152417678164812112068608, Fin 89884656743115795386465259539451236680898848947115328636715040578866337902750481566354238661203768010560056939935696678829394884407208311246423715319737062188883946712432742638151109800623047059726541476042502884419075341171231440736956555270413618581675255342293149119973622969239858152417678164812112068608, Fin 89884656743115795386465259539451236680898848947115328636715040578866337902750481566354238661203768010560056939935696678829394884407208311246423715319737062188883946712432742638151109800623047059726541476042502884419075341171231440736956555270413618581675255342293149119973622969239858152417678164812112068608, Fin 89884656743115795386465259539451236680898848947115328636715040578866337902750481566354238661203768010560056939935696678829394884407208311246423715319737062188883946712432742638151109800623047059726541476042502884419075341171231440736956555270413618581675255342293149119973622969239858152417678164812112068608],
      [Fin (1 / 89884656743115795386465259539451236680898848947115328636715040578866337902750481566354238661203768010560056939935696678829394884407208311246423715319737062188883946712432742638151109800623047059726541476042502884419075341171231440736956555270413618581675255342293149119973622969239858152417678164812112068608), Fin 1, Fin 89884656743115795386465259539451236680898848947115328636715040578866337902750481566354238661203768010560056939935696678829394884407208311246423715319737062188883946712432742638151109800623047059726541476042502884419075341171231440736956555270413618581675255342293149119973622969239858152417678164812112068608, Fin 89884656743115795386465259539451236680898848947115328636715040578866337902750481566354238661203768010560056939935696678829394884407208311246423715319737062188883946712432742638151109800623047059726541476042502884419075341171231440736956555270413618581675255342293149119973622969239858152417678164812112068608, Fin 89884656743115795386465259539451236680898848947115328636715040578866337902750481566354238661203768010560056939935696678829394884407208311246423715319737062188883946712432742638151109800623047059726541476042502884419075341171231440736956555270413618581675255342293149119973622969239858152417678164812112068608],
      [Fin (1 / 89884656743115795386465259539451236680898848947115328636715040578866337902750481566354238661203768010560056939935696678829394884407208311246423715319737062188883946712432742638151109800623047059726541476042502884419075341171231440736956555270413618581675255342293149119973622969239858152417678164812112068608), Fin (1 / 89884656743115795386465259539451236680898848947115328636715040578866337902750481566354238661203768010560056939935696678829394884407208311246423715319737062188883946712432742638151109800623047059726541476042502884419075341171231440736956555270413618581675255342293149119973622969239858152417678164812112068608), Fin 1, Fin 89884656743115795386465259539451236680898848947115328636715040578866337902750481566354238661203768010560056939935696678829394884407208311246423715319737062188883946712432742638151109800623047059726541476042502884419075341171231440736956555270413618581675255342293149119973622969239858152417678164812112068608, Fin 89884656743115795386465259539451236680898848947115328636715040578866337902750481566354238661203768010560056939935696678829394884407208311246423715319737062188883946712432742638151109800623047059726541476042502884419075341171231440736956555270413618581675255342293149119973622969239858152417678164812112068608],
      [Fin (1 / 89884656743115795386465259539451236680898848947115328636715040578866337902750481566354238661203768010560056939935696678829394884407208311246423715319737062188883946712432742638151109800623047059726541476042502884419075341171231440736956555270413618581675255342293149119973622969239858152417678164812112068608), Fin (1 / 89884656743115795386465259539451236680898848947115328636715040578866337902750481566354238661203768010560056939935696678829394884407208311246423715319737062188883946712432742638151109800623047059726541476042502884419075341171231440736956555270413618581675255342293149119973622969239858152417678164812112068608), Fin (1 / 89884656743115795386465259539451236680898848947115328636715040578866337902750481566354238661203768010560056939935696678829394884407208311246423715319737062188883946712432742638151109800623047059726541476042502884419075341171231440736956555270413618581675255342293149119973622969239858152417678164812112068608), Fin 1, Fin 89884656743115795386465259539451236680898848947115328636715040578866337902750481566354238661203768010560056939935696678829394884407208311246423715319737062188883946712432742638151109800623047059726541476042502884419075341171231440736956555270413618581675255342293149119973622969239858152417678164812112068608],
      [Fin (1 / 89884656743115795386465259539451236680898848947115328636715040578866337902750481566354238661203768010560056939935696678829394884407208311246423715319737062188883946712432742638151109800623047059726541476042502884419075341171231440736956555270413618581675255342293149119973622969239858152417678164812112068608), Fin (1 / 89884656743115795386465259539451236680898848947115328636715040578866337902750481566354238661203768010560056939935696678829394884407208311246423715319737062188883946712432742638151109800623047059726541476042502884419075341171231440736956555270413618581675255342293149119973622969239858152417678164812112068608), Fin (1 / 89884656743115795386465259539451236680898848947115328636715040578866337902750481566354238661203768010560056939935696678829394884407208311246423715319737062188883946712432742638151109800623047059726541476042502884419075341171231440736956555270413618581675255342293149119973622969239858152417678164812112068608), Fin (1 / 89884656743115795386465259539451236680898848947115328636715040578866337902750481566354238661203768010560056939935696678829394884407208311246423715319737062188883946712432742638151109800623047059726541476042502884419075341171231440736956555270413618581675255342293149119973622969239858152417678164812112068608), Fin 1]] 1500 (Fin (6189700196426901 / 618970019642690137449562112)) ((Suc (Suc 0))) [NaN, NaN, NaN, NaN, NaN]
   = ([NaN, NaN, NaN, NaN, NaN], 1500)"
  using pi_loop64_NaN [where A = "[[Fin 1, Fin 89884656743115795386465259539451236680898848947115328636715040578866337902750481566354238661203768010560056939935696678829394884407208311246423715319737062188883946712432742638151109800623047059726541476042502884419075341171231440736956555270413618581675255342293149119973622969239858152417678164812112068608, Fin 89884656743115795386465259539451236680898848947115328636715040578866337902750481566354238661203768010560056939935696678829394884407208311246423715319737062188883946712432742638151109800623047059726541476042502884419075341171231440736956555270413618581675255342293149119973622969239858152417678164812112068608, Fin 89884656743115795386465259539451236680898848947115328636715040578866337902750481566354238661203768010560056939935696678829394884407208311246423715319737062188883946712432742638151109800623047059726541476042502884419075341171231440736956555270413618581675255342293149119973622969239858152417678164812112068608, Fin 89884656743115795386465259539451236680898848947115328636715040578866337902750481566354238661203768010560056939935696678829394884407208311246423715319737062188883946712432742638151109800623047059726541476042502884419075341171231440736956555270413618581675255342293149119973622969239858152417678164812112068608],
      [Fin (1 / 89884656743115795386465259539451236680898848947115328636715040578866337902750481566354238661203768010560056939935696678829394884407208311246423715319737062188883946712432742638151109800623047059726541476042502884419075341171231440736956555270413618581675255342293149119973622969239858152417678164812112068608), Fin 1, Fin 89884656743115795386465259539451236680898848947115328636715040578866337902750481566354238661203768010560056939935696678829394884407208311246423715319737062188883946712432742638151109800623047059726541476042502884419075341171231440736956555270413618581675255342293149119973622969239858152417678164812112068608, Fin 89884656743115795386465259539451236680898848947115328636715040578866337902750481566354238661203768010560056939935696678829394884407208311246423715319737062188883946712432742638151109800623047059726541476042502884419075341171231440736956555270413618581675255342293149119973622969239858152417678164812112068608, Fin 89884656743115795386465259539451236680898848947115328636715040578866337902750481566354238661203768010560056939935696678829394884407208311246423715319737062188883946712432742638151109800623047059726541476042502884419075341171231440736956555270413618581675255342293149119973622969239858152417678164812112068608],
      [Fin (1 / 89884656743115795386465259539451236680898848947115328636715040578866337902750481566354238661203768010560056939935696678829394884407208311246423715319737062188883946712432742638151109800623047059726541476042502884419075341171231440736956555270413618581675255342293149119973622969239858152417678164812112068608), Fin (1 / 89884656743115795386465259539451236680898848947115328636715040578866337902750481566354238661203768010560056939935696678829394884407208311246423715319737062188883946712432742638151109800623047059726541476042502884419075341171231440736956555270413618581675255342293149119973622969239858152417678164812112068608), Fin 1, Fin 89884656743115795386465259539451236680898848947115328636715040578866337902750481566354238661203768010560056939935696678829394884407208311246423715319737062188883946712432742638151109800623047059726541476042502884419075341171231440736956555270413618581675255342293149119973622969239858152417678164812112068608, Fin 89884656743115795386465259539451236680898848947115328636715040578866337902750481566354238661203768010560056939935696678829394884407208311246423715319737062188883946712432742638151109800623047059726541476042502884419075341171231440736956555270413618581675255342293149119973622969239858152417678164812112068608],
      [Fin (1 / 89884656743115795386465259539451236680898848947115328636715040578866337902750481566354238661203768010560056939935696678829394884407208311246423715319737062188883946712432742638151109800623047059726541476042502884419075341171231440736956555270413618581675255342293149119973622969239858152417678164812112068608), Fin (1 / 89884656743115795386465259539451236680898848947115328636715040578866337902750481566354238661203768010560056939935696678829394884407208311246423715319737062188883946712432742638151109800623047059726541476042502884419075341171231440736956555270413618581675255342293149119973622969239858152417678164812112068608), Fin (1 / 89884656743115795386465259539451236680898848947115328636715040578866337902750481566354238661203768010560056939935696678829394884407208311246423715319737062188883946712432742638151109800623047059726541476042502884419075341171231440736956555270413618581675255342293149119973622969239858152417678164812112068608), Fin 1, Fin 89884656743115795386465259539451236680898848947115328636715040578866337902750481566354238661203768010560056939935696678829394884407208311246423715319737062188883946712432742638151109800623047059726541476042502884419075341171231440736956555270413618581675255342293149119973622969239858152417678164812112068608],
      [Fin (1 / 89884656743115795386465259539451236680898848947115328636715040578866337902750481566354238661203768010560056939935696678829394884407208311246423715319737062188883946712432742638151109800623047059726541476042502884419075341171231440736956555270413618581675255342293149119973622969239858152417678164812112068608), Fin (1 / 89884656743115795386465259539451236680898848947115328636715040578866337902750481566354238661203768010560056939935696678829394884407208311246423715319737062188883946712432742638151109800623047059726541476042502884419075341171231440736956555270413618581675255342293149119973622969239858152417678164812112068608), Fin (1 / 89884656743115795386465259539451236680898848947115328636715040578866337902750481566354238661203768010560056939935696678829394884407208311246423715319737062188883946712432742638151109800623047059726541476042502884419075341171231440736956555270413618581675255342293149119973622969239858152417678164812112068608), Fin (1 / 89884656743115795386465259539451236680898848947115328636715040578866337902750481566354238661203768010560056939935696678829394884407208311246423715319737062188883946712432742638151109800623047059726541476042502884419075341171231440736956555270413618581675255342293149119973622969239858152417678164812112068608), Fin 1]]" and it = "(Suc (Suc 0))" and maxIter = 1500 and tol = "Fin (6189700196426901 / 618970019642690137449562112)", OF _ _ refl]
  by simp

lemma huge_solve:
  "ahpSolve64 [[Fin 1, Fin 89884656743115795386465259539451236680898848947115328636715040578866337902750481566354238661203768010560056939935696678829394884407208311246423715319737062188883946712432742638151109800623047059726541476042502884419075341171231440736956555270413618581675255342293149119973622969239858152417678164812112068608, Fin 89884656743115795386465259539451236680898848947115328636715040578866337902750481566354238661203768010560056939935696678829394884407208311246423715319737062188883946712432742638151109800623047059726541476042502884419075341171231440736956555270413618581675255342293149119973622969239858152417678164812112068608, Fin 89884656743115795386465259539451236680898848947115328636715040578866337902750481566354238661203768010560056939935696678829394884407208311246423715319737062188883946712432742638151109800623047059726541476042502884419075341171231440736956555270413618581675255342293149119973622969239858152417678164812112068608, Fin 89884656743115795386465259539451236680898848947115328636715040578866337902750481566354238661203768010560056939935696678829394884407208311246423715319737062188883946712432742638151109800623047059726541476042502884419075341171231440736956555270413618581675255342293149119973622969239858152417678164812112068608],
      [Fin (1 / 89884656743115795386465259539451236680898848947115328636715040578866337902750481566354238661203768010560056939935696678829394884407208311246423715319737062188883946712432742638151109800623047059726541476042502884419075341171231440736956555270413618581675255342293149119973622969239858152417678164812112068608), Fin 1, Fin 89884656743115795386465259539451236680898848947115328636715040578866337902750481566354238661203768010560056939935696678829394884407208311246423715319737062188883946712432742638151109800623047059726541476042502884419075341171231440736956555270413618581675255342293149119973622969239858152417678164812112068608, Fin 89884656743115795386465259539451236680898848947115328636715040578866337902750481566354238661203768010560056939935696678829394884407208311246423715319737062188883946712432742638151109800623047059726541476042502884419075341171231440736956555270413618581675255342293149119973622969239858152417678164812112068608, Fin 89884656743115795386465259539451236680898848947115328636715040578866337902750481566354238661203768010560056939935696678829394884407208311246423715319737062188883946712432742638151109800623047059726541476042502884419075341171231440736956555270413618581675255342293149119973622969239858152417678164812112068608],
      [Fin (1 / 89884656743115795386465259539451236680898848947115328636715040578866337902750481566354238661203768010560056939935696678829394884407208311246423715319737062188883946712432742638151109800623047059726541476042502884419075341171231440736956555270413618581675255342293149119973622969239858152417678164812112068608), Fin (1 / 89884656743115795386465259539451236680898848947115328636715040578866337902750481566354238661203768010560056939935696678829394884407208311246423715319737062188883946712432742638151109800623047059726541476042502884419075341171231440736956555270413618581675255342293149119973622969239858152417678164812112068608), Fin 1, Fin 89884656743115795386465259539451236680898848947115328636715040578866337902750481566354238661203768010560056939935696678829394884407208311246423715319737062188883946712432742638151109800623047059726541476042502884419075341171231440736956555270413618581675255342293149119973622969239858152417678164812112068608, Fin 89884656743115795386465259539451236680898848947115328636715040578866337902750481566354238661203768010560056939935696678829394884407208311246423715319737062188883946712432742638151109800623047059726541476042502884419075341171231440736956555270413618581675255342293149119973622969239858152417678164812112068608],
      [Fin (1 / 89884656743115795386465259539451236680898848947115328636715040578866337902750481566354238661203768010560056939935696678829394884407208311246423715319737062188883946712432742638151109800623047059726541476042502884419075341171231440736956555270413618581675255342293149119973622969239858152417678164812112068608), Fin (1 / 89884656743115795386465259539451236680898848947115328636715040578866337902750481566354238661203768010560056939935696678829394884407208311246423715319737062188883946712432742638151109800623047059726541476042502884419075341171231440736956555270413618581675255342293149119973622969239858152417678164812112068608), Fin (1 / 89884656743115795386465259539451236680898848947115328636715040578866337902750481566354238661203768010560056939935696678829394884407208311246423715319737062188883946712432742638151109800623047059726541476042502884419075341171231440736956555270413618581675255342293149119973622969239858152417678164812112068608), Fin 1, Fin 89884656743115795386465259539451236680898848947115328636715040578866337902750481566354238661203768010560056939935696678829394884407208311246423715319737062188883946712432742638151109800623047059726541476042502884419075341171231440736956555270413618581675255342293149119973622969239858152417678164812112068608],
      [Fin (1 / 89884656743115795386465259539451236680898848947115328636715040578866337902750481566354238661203768010560056939935696678829394884407208311246423715319737062188883946712432742638151109800623047059726541476042502884419075341171231440736956555270413618581675255342293149119973622969239858152417678164812112068608), Fin (1 / 89884656743115795386465259539451236680898848947115328636715040578866337902750481566354238661203768010560056939935696678829394884407208311246423715319737062188883946712432742638151109800623047059726541476042502884419075341171231440736956555270413618581675255342293149119973622969239858152417678164812112068608), Fin (1 / 89884656743115795386465259539451236680898848947115328636715040578866337902750481566354238661203768010560056939935696678829394884407208311246423715319737062188883946712432742638151109800623047059726541476042502884419075341171231440736956555270413618581675255342293149119973622969239858152417678164812112068608), Fin (1 / 89884656743115795386465259539451236680898848947115328636715040578866337902750481566354238661203768010560056939935696678829394884407208311246423715319737062188883946712432742638151109800623047059726541476042502884419075341171231440736956555270413618581675255342293149119973622969239858152417678164812112068608), Fin 1]]
   = \<lparr>weights = [NaN, NaN, NaN, NaN, NaN],
      lambdaMax = NaN, ci = NaN, cr = NaN\<rparr>"
  by (simp add: eval64_defs huge_pass1 huge_pass2 huge_tail huge_rounds)

text \<open>The quotients of the matrix \<open>[[1, 3], [1/3, 1]]\<close> as \<^verbatim>\<open>setPairwise\<close> stores it.\<close>

lemmas third_rounds = double_r37 double_r42 double_r2

section \<open>The neutral matrix on doubles\<close>

lemma matvec64_neutral:
  "matvec64 (identityMatrix n) w = replicate n (rowdot64 n (replicate n (Fin 1)) w)"
  by (simp add: matvec64_def identityMatrix_def map_replicate_const)

text \<open>Every pass maps a vector of equal entries to a vector of equal entries.\<close>

lemma pi_loop64_uniform:
  "A = identityMatrix n \<Longrightarrow> w = replicate n x \<Longrightarrow>
   \<exists>y. fst (pi_loop64 A maxIter tol it w) = replicate n y"
proof (induction A maxIter tol it w arbitrary: x rule: pi_loop64.induct)
  case (1 A maxIter tol it w)
  show ?case
  proof (cases "it < maxIter")
    case False
    then show ?thesis using "1.prems" by (subst pi_loop64.simps) auto
  next
    case True
    define a where "a = rowdot64 n (replicate n (Fin 1)) w"
    define s where "s = foldl add64 (Fin 0) (replicate n a)"
    have Aw: "matvec64 A w = replicate n a"
      using "1.prems"(1) by (simp add: matvec64_neutral a_def)
    have wNew: "map (\<lambda>x. div64 x (foldl add64 (Fin 0) (replicate n a))) (replicate n a)
                = replicate n (div64 a s)"
      by (simp add: s_def)
    have unfold: "pi_loop64 A maxIter tol it w =
        (if jlt (maxdiff64 (length A) (replicate n (div64 a s)) w) tol
         then (replicate n (div64 a s), Suc it)
         else pi_loop64 A maxIter tol (Suc it) (replicate n (div64 a s)))"
      by (subst pi_loop64.simps) (simp only: True if_True Let_def Aw wNew)
    show ?thesis
    proof (cases "jlt (maxdiff64 (length A) (replicate n (div64 a s)) w) tol")
      case t: True
      show ?thesis unfolding unfold using t by auto
    next
      case f: False
      note IH = "1.IH" [OF True refl refl refl refl, unfolded Aw wNew]
      have "\<exists>y. fst (pi_loop64 A maxIter tol (Suc it) (replicate n (div64 a s))) = replicate n y"
        by (rule IH [OF f "1.prems"(1) refl])
      then show ?thesis unfolding unfold using f by simp
    qed
  qed
qed

lemma consistency64_ci:
  assumes n: "2 \<le> length A" "length A < 2 ^ 32" and l: "\<bar>l - real (length A)\<bar> \<le> 2 ^ 1000"
  shows "\<exists>c. fst (consistency64 A (Fin l)) = Fin c
           \<and> \<bar>c\<bar> \<le> 4 * \<bar>l - real (length A)\<bar> / (real (length A) - 1)"
proof -
  have m: "1 \<le> real (length A) - 1" using n(1) by simp
  have r: "1 / 2 \<le> (1::real)" by simp
  from ratio_chain64 [OF l m r] obtain d c
    where ch: "round64 (l - real (length A)) = Fin d"
      "round64 (d / (real (length A) - 1)) = Fin c"
      "\<bar>c\<bar> \<le> 4 * \<bar>l - real (length A)\<bar> / (real (length A) - 1)" by blast
  have "fst (consistency64 A (Fin l)) = Fin c"
    using consistency64_unfold [OF n, of l] ch(1,2) m by simp
  with ch(3) show ?thesis by blast
qed

lemma neutral_ratio_bounds:
  assumes n: "2 \<le> n" and l: "\<bar>l - real n\<bar> \<le> real n * (2 * real n + 3) / 2 ^ 52"
  shows "4 * \<bar>l - real n\<bar> / (real n - 1) \<le> (real n + 5) / 2 ^ 49"
    and "16 * \<bar>l - real n\<bar> / (real n - 1) \<le> (real n + 5) / 2 ^ 47"
proof -
  have m: "0 < real n - 1" using n by simp
  have "real n * 5 \<ge> 10" using n by simp
  then have "real n * (2 * real n + 3) \<le> (2 * real n + 10) * (real n - 1)"
    by (simp add: algebra_simps)
  then have q: "real n * (2 * real n + 3) / (real n - 1) \<le> 2 * real n + 10"
    using m by (simp add: pos_divide_le_eq)
  have "\<bar>l - real n\<bar> / (real n - 1) \<le> real n * (2 * real n + 3) / 2 ^ 52 / (real n - 1)"
    using l m by (intro divide_right_mono) simp_all
  also have "\<dots> = real n * (2 * real n + 3) / (real n - 1) / 2 ^ 52" by simp
  also have "\<dots> \<le> (2 * real n + 10) / 2 ^ 52" using q by (intro divide_right_mono) simp_all
  finally have b: "\<bar>l - real n\<bar> / (real n - 1) \<le> (2 * real n + 10) / 2 ^ 52" .
  define t where "t = \<bar>l - real n\<bar> / (real n - 1)"
  define h where "h = (2 * real n + 10) / 2 ^ 52"
  have th: "t \<le> h" using b by (simp only: t_def h_def)
  have t4: "4 * \<bar>l - real n\<bar> / (real n - 1) = 4 * t"
    and t16: "16 * \<bar>l - real n\<bar> / (real n - 1) = 16 * t" by (simp_all add: t_def)
  have h4: "4 * h = (real n + 5) / 2 ^ 49" and h16: "16 * h = (real n + 5) / 2 ^ 47"
    by (simp_all add: h_def)
  show "4 * \<bar>l - real n\<bar> / (real n - 1) \<le> (real n + 5) / 2 ^ 49"
    unfolding t4 h4 [symmetric] using th by simp
  show "16 * \<bar>l - real n\<bar> / (real n - 1) \<le> (real n + 5) / 2 ^ 47"
    unfolding t16 h16 [symmetric] using th by simp
qed

text \<open>
  C1 (amended). For every order \<open>n\<close>, \<open>1 \<le> n < 2\<^sup>3\<^sup>2\<close>, \<^verbatim>\<open>ahpSolve\<close> in double
  arithmetic on the all-ones matrix of order \<open>n\<close> returns \<open>n\<close> equal weights \<open>w\<close> with
  \<open>\<bar>n w - 1\<bar> \<le> (n + 1) / 2\<^sup>5\<^sup>2\<close>, a \<open>lambdaMax\<close> within \<open>n (2 n + 3) / 2\<^sup>5\<^sup>2\<close> of \<open>n\<close>
  and a \<open>cr\<close> within \<open>(n + 5) / 2\<^sup>4\<^sup>7\<close> of 0, exactly 0 for \<open>n \<le> 2\<close>; for \<open>n \<ge> 2\<close> the
  \<open>ci\<close> is within \<open>(n + 5) / 2\<^sup>4\<^sup>9\<close> of 0; for \<open>n = 1\<close> the weights are \<open>[1]\<close> and
  \<open>lambdaMax = 1\<close>.
\<close>

theorem ahpSolve64_neutral:
  assumes "1 \<le> n" "n < 2 ^ 32"
  shows "\<exists>w l c. weights (ahpSolve64 (identityMatrix n)) = replicate n (Fin w)
           \<and> \<bar>real n * w - 1\<bar> \<le> (real n + 1) / 2 ^ 52
           \<and> lambdaMax (ahpSolve64 (identityMatrix n)) = Fin l
           \<and> \<bar>l - real n\<bar> \<le> real n * (2 * real n + 3) / 2 ^ 52
           \<and> cr (ahpSolve64 (identityMatrix n)) = Fin c \<and> \<bar>c\<bar> \<le> (real n + 5) / 2 ^ 47
           \<and> (n \<le> 2 \<longrightarrow> c = 0)
           \<and> (2 \<le> n \<longrightarrow> (\<exists>d. ci (ahpSolve64 (identityMatrix n)) = Fin d
                            \<and> \<bar>d\<bar> \<le> (real n + 5) / 2 ^ 49))
           \<and> (n = 1 \<longrightarrow> w = 1 \<and> l = 1)"
proof -
  define M :: "real list list" where "M = replicate n (replicate n 1)"
  let ?A = "identityMatrix n"
  have A: "?A = map (map Fin) M" by (simp add: M_def identityMatrix_Fin)
  have len: "length M = n" by (simp add: M_def)
  have Mr: "\<forall>r\<in>set M. length r = n \<and> (\<forall>x\<in>set r. mag 100 x)"
    by (auto simp add: M_def mag_def)
  have n: "0 < n" "n \<le> 2 ^ 32" using assms by simp_all
  have lA: "length ?A = n" by (simp add: A len)
  from powerIterationWeights64_good [OF len Mr n, of default_maxIter default_tol64] obtain v l
    where e: "powerIterationWeights64 ?A default_maxIter default_tol64
                = \<lparr>weights = map Fin v, lambdaMax = Fin l\<rparr>"
      and v: "length v = n" "\<forall>x\<in>set v. mag 300 x" "nearby (Suc n) 1 (sum_list v)"
      and l: "nearby (2 * n + 3) ((\<Sum>i<n. (\<Sum>j<n. M ! i ! j * v ! j) / v ! i) / real n) l"
        "mag 900 l"
    unfolding A by blast
  from pi_loop64_uniform [OF refl refl] obtain y
    where "fst (pi_loop64 ?A default_maxIter default_tol64 0
                 (replicate n (div64 (Fin 1) (Fin (real n))))) = replicate n y" by blast
  then have "weights (powerIterationWeights64 ?A default_maxIter default_tol64) = replicate n y"
    by (simp add: powerIterationWeights64_def Let_def lA)
  then have u: "map Fin v = replicate n y" by (simp add: e)
  define w where "w = v ! 0"
  have vi: "v ! i = w" if "i < n" for i
  proof -
    have "map Fin v ! i = map Fin v ! 0" using that n(1) by (simp add: u)
    then show ?thesis using that n(1) v(1) by (simp add: w_def)
  qed
  have vw: "v = replicate n w"
    by (rule nth_equalityI) (simp_all add: v(1) vi)
  have wpos: "0 < w"
  proof -
    have "v ! 0 \<in> set v" using n(1) v(1) by simp
    then have "mag 300 w" using v(2) by (simp add: w_def)
    then show ?thesis by (rule mag_pos)
  qed
  have wts: "weights (powerIterationWeights64 ?A default_maxIter default_tol64)
             = replicate n (Fin w)"
    by (simp add: e vw)
  have "nearby (Suc n) 1 (real n * w)" using v(3) by (simp add: vw sum_list_replicate)
  then have sw: "\<bar>real n * w - 1\<bar> \<le> (real n + 1) / 2 ^ 52"
    using n(2) by (rule weights_sum_tolerance)
  have "(\<Sum>i<n. (\<Sum>j<n. M ! i ! j * v ! j) / v ! i) = (\<Sum>i<n. real n)"
  proof (rule sum.cong)
    fix i assume "i \<in> {..<n}"
    then have i: "i < n" by simp
    have "(\<Sum>j<n. M ! i ! j * v ! j) = (\<Sum>j<n. w)"
      by (rule sum.cong) (simp_all add: M_def i vi)
    then show "(\<Sum>j<n. M ! i ! j * v ! j) / v ! i = real n"
      using wpos by (simp add: vi [OF i])
  qed simp
  then have "(\<Sum>i<n. (\<Sum>j<n. M ! i ! j * v ! j) / v ! i) / real n = real n"
    using n(1) by simp
  then have ln: "nearby (2 * n + 3) (real n) l" using l(1) by simp
  have ll: "\<bar>l - real n\<bar> \<le> real n * (2 * real n + 3) / 2 ^ 52"
  proof -
    have "nearby (2 * n + 3) (real n / real n) (l / real n)"
      using ln n(1) by (intro nearby_scale) simp_all
    then have "nearby (2 * n + 3) 1 (l / real n)" using n(1) by simp
    then have "\<bar>l / real n - 1\<bar> \<le> 2 * real (2 * n + 3) * eps64"
      using n_le_pow52 [OF n(2)] by (rule nearby_one_tolerance)
    then have a: "\<bar>l / real n - 1\<bar> * real n \<le> 2 * real (2 * n + 3) * eps64 * real n"
      by (intro mult_right_mono) simp_all
    have b: "\<bar>l / real n - 1\<bar> * real n = \<bar>l - real n\<bar>"
    proof -
      have "\<bar>l / real n - 1\<bar> * real n = \<bar>(l / real n - 1) * real n\<bar>"
        by (simp add: abs_mult)
      also have "(l / real n - 1) * real n = l - real n"
        using n(1) by (simp add: field_simps)
      finally show ?thesis .
    qed
    have c: "2 * real (2 * n + 3) * eps64 * real n = real n * (2 * real n + 3) / 2 ^ 52"
      by (simp add: eps64_def)
    show ?thesis using a by (simp only: b c)
  qed
  have lm: "\<bar>l - real (length ?A)\<bar> \<le> 2 ^ 1000"
    unfolding lA using l(2) n(2) by (rule lambda_magnitude)
  have cr: "\<exists>c. snd (consistency64 ?A (Fin l)) = Fin c \<and> \<bar>c\<bar> \<le> (real n + 5) / 2 ^ 47
              \<and> (n \<le> 2 \<longrightarrow> c = 0)"
  proof (cases "n \<le> 2")
    case True
    then have "snd (consistency64 ?A (Fin l)) = Fin 0"
      using assms(1) by (intro consistency64_small) (simp_all add: lA)
    then show ?thesis by simp
  next
    case False
    then have n3: "3 \<le> length ?A" by (simp add: lA)
    from consistency64_chain [OF n3 _ lm] assms(2) obtain e'
      where ce: "snd (consistency64 ?A (Fin l)) = Fin e'"
        "\<bar>e'\<bar> \<le> 16 * \<bar>l - real n\<bar> / (real n - 1)"
      by (auto simp add: lA)
    have "2 \<le> n" using False by simp
    from neutral_ratio_bounds(2) [OF this ll] ce(2)
    have "\<bar>e'\<bar> \<le> (real n + 5) / 2 ^ 47" by linarith
    then show ?thesis using ce(1) False by simp
  qed
  then obtain c where c: "snd (consistency64 ?A (Fin l)) = Fin c"
    "\<bar>c\<bar> \<le> (real n + 5) / 2 ^ 47" "n \<le> 2 \<longrightarrow> c = 0"
    by (elim exE conjE)
  have ci: "2 \<le> n \<longrightarrow> (\<exists>d. fst (consistency64 ?A (Fin l)) = Fin d
                            \<and> \<bar>d\<bar> \<le> (real n + 5) / 2 ^ 49)"
  proof
    assume n2: "2 \<le> n"
    then have "2 \<le> length ?A" by (simp add: lA)
    from consistency64_ci [OF this _ lm] assms(2) obtain d
      where d: "fst (consistency64 ?A (Fin l)) = Fin d"
        "\<bar>d\<bar> \<le> 4 * \<bar>l - real n\<bar> / (real n - 1)"
      by (auto simp add: lA)
    from neutral_ratio_bounds(1) [OF n2 ll] d(2)
    have "\<bar>d\<bar> \<le> (real n + 5) / 2 ^ 49" by linarith
    with d(1) show "\<exists>d. fst (consistency64 ?A (Fin l)) = Fin d \<and> \<bar>d\<bar> \<le> (real n + 5) / 2 ^ 49"
      by blast
  qed
  have sol: "weights (ahpSolve64 ?A) = replicate n (Fin w)"
    "lambdaMax (ahpSolve64 ?A) = Fin l" "cr (ahpSolve64 ?A) = Fin c"
    "ci (ahpSolve64 ?A) = fst (consistency64 ?A (Fin l))"
    using c(1) wts by (simp_all add: ahpSolve64_def e Let_def split_beta)
  have one: "n = 1 \<longrightarrow> w = 1 \<and> l = 1"
  proof
    assume "n = 1"
    then have "weights (ahpSolve64 (identityMatrix 1)) = replicate 1 (Fin w)"
      "lambdaMax (ahpSolve64 (identityMatrix 1)) = Fin l" using sol(1,2) by simp_all
    then show "w = 1 \<and> l = 1" unfolding n1_solve by simp
  qed
  show ?thesis
    by (rule exI [of _ w], rule exI [of _ l], rule exI [of _ c])
      (intro conjI sol(1) sw sol(2) ll sol(3) c(2) c(3) one, simp only: sol(4), rule ci)
qed

theorem ahpSolve64_neutral_witness:
  "(1::nat) \<le> 3 \<and> (3::nat) < 2 ^ 32
   \<and> (\<exists>w l c. weights (ahpSolve64 (identityMatrix 3)) = replicate 3 (Fin w)
         \<and> \<bar>real (3::nat) * w - 1\<bar> \<le> (real (3::nat) + 1) / 2 ^ 52
         \<and> lambdaMax (ahpSolve64 (identityMatrix 3)) = Fin l
         \<and> \<bar>l - real (3::nat)\<bar> \<le> real (3::nat) * (2 * real (3::nat) + 3) / 2 ^ 52
         \<and> cr (ahpSolve64 (identityMatrix 3)) = Fin c
         \<and> \<bar>c\<bar> \<le> (real (3::nat) + 5) / 2 ^ 47
         \<and> (\<exists>d. ci (ahpSolve64 (identityMatrix 3)) = Fin d
               \<and> \<bar>d\<bar> \<le> (real (3::nat) + 5) / 2 ^ 49))"
  using ahpSolve64_neutral [of 3] by simp

text \<open>
  For \<open>n = 1\<close> the quotient \<open>(lambdaMax - n) / (n - 1)\<close> is \<open>0 / 0\<close>: \<open>ci\<close> is NaN, not 0.
  For \<open>n = 6\<close> the weights are not the double \<^verbatim>\<open>1/6\<close> (0.16666666666666669 instead of
  0.16666666666666666), \<open>lambdaMax\<close> is 6.000000000000001, and \<open>ci\<close> and \<open>cr\<close> are not 0.
\<close>

theorem ahpSolve64_neutral_counterexample:
  "ahpSolve64 (identityMatrix 1) = \<lparr>weights = [Fin 1], lambdaMax = Fin 1, ci = NaN, cr = Fin 0\<rparr>
   \<and> ci (ahpSolve64 (identityMatrix 1)) \<noteq> Fin 0
   \<and> weights (ahpSolve64 (identityMatrix 6)) = replicate 6 (Fin (3002399751580331 / 18014398509481984))
   \<and> div64 (Fin 1) (Fin 6) = Fin (6004799503160661 / 36028797018963968)
   \<and> weights (ahpSolve64 (identityMatrix 6)) \<noteq> replicate 6 (div64 (Fin 1) (Fin 6))
   \<and> lambdaMax (ahpSolve64 (identityMatrix 6)) = Fin (6755399441055745 / 1125899906842624)
   \<and> lambdaMax (ahpSolve64 (identityMatrix 6)) \<noteq> Fin 6
   \<and> ci (ahpSolve64 (identityMatrix 6)) = Fin (3602879701896397 / 20282409603651670423947251286016)
   \<and> ci (ahpSolve64 (identityMatrix 6)) \<noteq> Fin 0
   \<and> cr (ahpSolve64 (identityMatrix 6)) = Fin (2905548146690643 / 20282409603651670423947251286016)
   \<and> cr (ahpSolve64 (identityMatrix 6)) \<noteq> Fin 0"
  unfolding n1_solve n6_solve by (simp add: n6_rounds eval_nat_numeral)

section \<open>Reciprocal matrices: the result on doubles\<close>

text \<open>
  C3 (amended). For every matrix of order \<open>n\<close>, \<open>1 \<le> n < 2\<^sup>3\<^sup>2\<close>, whose entries lie
  between \<open>2\<^sup>-\<^sup>1\<^sup>0\<^sup>0\<close> and \<open>2\<^sup>1\<^sup>0\<^sup>0\<close>, with a unit diagonal and reciprocal as \<^verbatim>\<open>setPairwise\<close>
  stores it (of two mirrored entries one is the double quotient \<^verbatim>\<open>1 / v\<close> of the other),
  \<^verbatim>\<open>ahpSolve\<close> in double arithmetic returns \<open>n\<close> positive weights whose sum is within
  \<open>(n + 1) / 2\<^sup>5\<^sup>2\<close> of 1, a \<open>lambdaMax \<ge> n - n (n + 2) / 2\<^sup>5\<^sup>2\<close> and a
  \<open>cr \<ge> - (n + 5) / 2\<^sup>4\<^sup>8\<close>.
\<close>

theorem ahpSolve64_result_shape:
  assumes "1 \<le> n" "n < 2 ^ 32" "is_order n A" "moderate_entries A" "reciprocal64 A"
    "unit_diagonal A"
  shows "\<exists>v l c. weights (ahpSolve64 A) = map Fin v \<and> length v = n \<and> (\<forall>x\<in>set v. 0 < x)
           \<and> \<bar>sum_list v - 1\<bar> \<le> (real n + 1) / 2 ^ 52
           \<and> lambdaMax (ahpSolve64 A) = Fin l \<and> real n - real n * (real n + 2) / 2 ^ 52 \<le> l
           \<and> cr (ahpSolve64 A) = Fin c \<and> - (real n + 5) / 2 ^ 48 \<le> c"
proof -
  from assms(4) obtain M where M: "A = map (map Fin) M" "\<forall>r\<in>set M. \<forall>x\<in>set r. mag 100 x"
    by (rule moderate_reals)
  have len: "length M = n" and rows: "\<forall>r\<in>set M. length r = length M"
    using assms(3) by (auto simp add: is_order_def M(1))
  have Mr: "\<forall>r\<in>set M. length r = n \<and> (\<forall>x\<in>set r. mag 100 x)" using rows len M(2) by simp
  have n: "0 < n" "n \<le> 2 ^ 32" using assms(1,2) by simp_all
  have rec: "1 - eps64 \<le> M ! i ! j * M ! j ! i" if "i < n" "j < n" for i j
    using assms(5,6) rows M(2) that unfolding M(1) len [symmetric] by (rule reals_reciprocal64)
  from powerIterationWeights64_good [OF len Mr n, of default_maxIter default_tol64] obtain v l
    where e: "powerIterationWeights64 A default_maxIter default_tol64
                = \<lparr>weights = map Fin v, lambdaMax = Fin l\<rparr>"
      and v: "length v = n" "\<forall>x\<in>set v. mag 300 x" "nearby (Suc n) 1 (sum_list v)"
      and l: "nearby (2 * n + 3) ((\<Sum>i<n. (\<Sum>j<n. M ! i ! j * v ! j) / v ! i) / real n) l"
        "mag 900 l"
    unfolding M(1) by blast
  have vpos: "\<forall>x\<in>set v. 0 < x" using v(2) mag_pos by auto
  have s: "\<bar>sum_list v - 1\<bar> \<le> (real n + 1) / 2 ^ 52"
    using v(3) n(2) by (rule weights_sum_tolerance)
  have "real n * (1 - eps64) \<le> (\<Sum>i<n. (\<Sum>j<n. M ! i ! j * v ! j) / v ! i) / real n"
    using len Mr n(1) v(1) v(2) rec by (rule eigen_quotient_lower)
  with l(1) have ll: "real n - real n * (real n + 2) / 2 ^ 52 \<le> l"
    using n(2) by (rule lambda_lower)
  have lA: "length A = n" using len by (simp add: M(1))
  have "\<exists>c. snd (consistency64 A (Fin l)) = Fin c \<and> - (real n + 5) / 2 ^ 48 \<le> c"
  proof (cases "n \<le> 2")
    case True
    then have "snd (consistency64 A (Fin l)) = Fin 0"
      using assms(1) by (intro consistency64_small) (simp_all add: lA)
    moreover have "- (real n + 5) / 2 ^ 48 \<le> 0" by simp
    ultimately show ?thesis by blast
  next
    case False
    then have n3: "3 \<le> length A" by (simp add: lA)
    have "\<bar>l - real (length A)\<bar> \<le> 2 ^ 1000"
      unfolding lA using l(2) n(2) by (rule lambda_magnitude)
    from consistency64_chain [OF n3 _ this] assms(2) obtain c e
      where ce: "snd (consistency64 A (Fin l)) = Fin e"
        "\<bar>e\<bar> \<le> 16 * \<bar>l - real n\<bar> / (real n - 1)" "real n \<le> l \<longrightarrow> 0 \<le> e"
      by (auto simp add: lA)
    have "3 \<le> n" using n3 by (simp add: lA)
    from ratio_lower [OF this ll ce(2,3)] ce(1) show ?thesis by blast
  qed
  then obtain c where c: "snd (consistency64 A (Fin l)) = Fin c" "- (real n + 5) / 2 ^ 48 \<le> c"
    by (elim exE conjE)
  have "weights (ahpSolve64 A) = map Fin v" "lambdaMax (ahpSolve64 A) = Fin l"
    "cr (ahpSolve64 A) = Fin c"
    using c(1) by (simp_all add: ahpSolve64_def e Let_def split_beta)
  then show ?thesis using v(1) vpos s ll c(2)
    by (intro exI [of _ v] exI [of _ l] exI [of _ c]) simp
qed

theorem ahpSolve64_result_shape_witness:
  "(1::nat) \<le> 2 \<and> (2::nat) < 2 ^ 32
   \<and> is_order 2 [[Fin 1, Fin 3], [Fin (6004799503160661 / 18014398509481984), Fin 1]]
   \<and> moderate_entries [[Fin 1, Fin 3], [Fin (6004799503160661 / 18014398509481984), Fin 1]]
   \<and> reciprocal64 [[Fin 1, Fin 3], [Fin (6004799503160661 / 18014398509481984), Fin 1]]
   \<and> unit_diagonal [[Fin 1, Fin 3], [Fin (6004799503160661 / 18014398509481984), Fin 1]]
   \<and> (\<exists>v l c. weights (ahpSolve64 [[Fin 1, Fin 3], [Fin (6004799503160661 / 18014398509481984), Fin 1]]) = map Fin v
         \<and> length v = 2 \<and> (\<forall>x\<in>set v. 0 < x)
         \<and> \<bar>sum_list v - 1\<bar> \<le> (real (2::nat) + 1) / 2 ^ 52
         \<and> lambdaMax (ahpSolve64 [[Fin 1, Fin 3], [Fin (6004799503160661 / 18014398509481984), Fin 1]]) = Fin l
         \<and> real (2::nat) - real (2::nat) * (real (2::nat) + 2) / 2 ^ 52 \<le> l
         \<and> cr (ahpSolve64 [[Fin 1, Fin 3], [Fin (6004799503160661 / 18014398509481984), Fin 1]]) = Fin c
         \<and> - (real (2::nat) + 5) / 2 ^ 48 \<le> c)"
proof -
  have h: "is_order 2 [[Fin 1, Fin 3], [Fin (6004799503160661 / 18014398509481984), Fin 1]]"
    "moderate_entries [[Fin 1, Fin 3], [Fin (6004799503160661 / 18014398509481984), Fin 1]]"
    "reciprocal64 [[Fin 1, Fin 3], [Fin (6004799503160661 / 18014398509481984), Fin 1]]"
    "unit_diagonal [[Fin 1, Fin 3], [Fin (6004799503160661 / 18014398509481984), Fin 1]]"
    by (simp_all add: invariant64_defs third_rounds)
  have n: "(1::nat) \<le> 2" "(2::nat) < 2 ^ 32" by simp_all
  show ?thesis
    using h n ahpSolve64_result_shape [OF n h] by simp
qed

text \<open>
  Without the unit diagonal the bounds fail: with 1/2 on the diagonal and 1 elsewhere the
  matrix of order 4 has positive finite entries and is reciprocal off the diagonal, and
  \<^verbatim>\<open>ahpSolve\<close> returns \<open>lambdaMax = 3.5 < 4\<close> and \<open>cr = -0.185... < 0\<close>. The exact bounds
  fail by rounding: on the all-ones matrix of order 7 the seven weights are the double
  \<^verbatim>\<open>1/7\<close>, whose sum is not 1, \<open>lambdaMax\<close> is 6.999999999999999 and \<open>cr\<close> is negative.
  Without a bound on the entries the result need not be a number: on the reciprocal matrix
  of order 5 with \<open>2\<^sup>1\<^sup>0\<^sup>2\<^sup>3\<close> above the unit diagonal the sum of the first pass overflows
  and all weights are NaN.
\<close>

theorem ahpSolve64_result_shape_counterexample:
  "is_order 4 [[Fin (1 / 2), Fin 1, Fin 1, Fin 1], [Fin 1, Fin (1 / 2), Fin 1, Fin 1],
       [Fin 1, Fin 1, Fin (1 / 2), Fin 1], [Fin 1, Fin 1, Fin 1, Fin (1 / 2)]]
   \<and> positive_finite [[Fin (1 / 2), Fin 1, Fin 1, Fin 1], [Fin 1, Fin (1 / 2), Fin 1, Fin 1],
       [Fin 1, Fin 1, Fin (1 / 2), Fin 1], [Fin 1, Fin 1, Fin 1, Fin (1 / 2)]]
   \<and> reciprocal [[Fin (1 / 2), Fin 1, Fin 1, Fin 1], [Fin 1, Fin (1 / 2), Fin 1, Fin 1],
       [Fin 1, Fin 1, Fin (1 / 2), Fin 1], [Fin 1, Fin 1, Fin 1, Fin (1 / 2)]]
   \<and> moderate_entries [[Fin (1 / 2), Fin 1, Fin 1, Fin 1], [Fin 1, Fin (1 / 2), Fin 1, Fin 1],
       [Fin 1, Fin 1, Fin (1 / 2), Fin 1], [Fin 1, Fin 1, Fin 1, Fin (1 / 2)]]
   \<and> reciprocal64 [[Fin (1 / 2), Fin 1, Fin 1, Fin 1], [Fin 1, Fin (1 / 2), Fin 1, Fin 1],
       [Fin 1, Fin 1, Fin (1 / 2), Fin 1], [Fin 1, Fin 1, Fin 1, Fin (1 / 2)]]
   \<and> lambdaMax (ahpSolve64 [[Fin (1 / 2), Fin 1, Fin 1, Fin 1], [Fin 1, Fin (1 / 2), Fin 1, Fin 1],
       [Fin 1, Fin 1, Fin (1 / 2), Fin 1], [Fin 1, Fin 1, Fin 1, Fin (1 / 2)]]) = Fin (7 / 2)
   \<and> jlt (Fin (7 / 2)) (Fin 4)
   \<and> cr (ahpSolve64 [[Fin (1 / 2), Fin 1, Fin 1, Fin 1], [Fin 1, Fin (1 / 2), Fin 1, Fin 1],
       [Fin 1, Fin 1, Fin (1 / 2), Fin 1], [Fin 1, Fin 1, Fin 1, Fin (1 / 2)]]) = Fin (- (3335999723978145 / 18014398509481984))
   \<and> jlt (Fin (- (3335999723978145 / 18014398509481984))) (Fin 0)
   \<and> is_order 7 (identityMatrix 7) \<and> positive_finite (identityMatrix 7)
   \<and> reciprocal (identityMatrix 7) \<and> unit_diagonal (identityMatrix 7)
   \<and> moderate_entries (identityMatrix 7) \<and> reciprocal64 (identityMatrix 7)
   \<and> weights (ahpSolve64 (identityMatrix 7)) = map Fin (replicate 7 (2573485501354569 / 18014398509481984))
   \<and> sum_list (replicate 7 (2573485501354569 / 18014398509481984)) \<noteq> (1::real)
   \<and> lambdaMax (ahpSolve64 (identityMatrix 7)) = Fin (7881299347898367 / 1125899906842624)
   \<and> jlt (Fin (7881299347898367 / 1125899906842624)) (Fin 7)
   \<and> cr (ahpSolve64 (identityMatrix 7)) = Fin (- (2274545266348735 / 20282409603651670423947251286016))
   \<and> jlt (Fin (- (2274545266348735 / 20282409603651670423947251286016))) (Fin 0)
   \<and> is_order 5 [[Fin 1, Fin (2 ^ 1023), Fin (2 ^ 1023), Fin (2 ^ 1023), Fin (2 ^ 1023)],
       [Fin (1 / 2 ^ 1023), Fin 1, Fin (2 ^ 1023), Fin (2 ^ 1023), Fin (2 ^ 1023)],
       [Fin (1 / 2 ^ 1023), Fin (1 / 2 ^ 1023), Fin 1, Fin (2 ^ 1023), Fin (2 ^ 1023)],
       [Fin (1 / 2 ^ 1023), Fin (1 / 2 ^ 1023), Fin (1 / 2 ^ 1023), Fin 1, Fin (2 ^ 1023)],
       [Fin (1 / 2 ^ 1023), Fin (1 / 2 ^ 1023), Fin (1 / 2 ^ 1023), Fin (1 / 2 ^ 1023), Fin 1]]
   \<and> positive_finite [[Fin 1, Fin (2 ^ 1023), Fin (2 ^ 1023), Fin (2 ^ 1023), Fin (2 ^ 1023)],
       [Fin (1 / 2 ^ 1023), Fin 1, Fin (2 ^ 1023), Fin (2 ^ 1023), Fin (2 ^ 1023)],
       [Fin (1 / 2 ^ 1023), Fin (1 / 2 ^ 1023), Fin 1, Fin (2 ^ 1023), Fin (2 ^ 1023)],
       [Fin (1 / 2 ^ 1023), Fin (1 / 2 ^ 1023), Fin (1 / 2 ^ 1023), Fin 1, Fin (2 ^ 1023)],
       [Fin (1 / 2 ^ 1023), Fin (1 / 2 ^ 1023), Fin (1 / 2 ^ 1023), Fin (1 / 2 ^ 1023), Fin 1]]
   \<and> reciprocal [[Fin 1, Fin (2 ^ 1023), Fin (2 ^ 1023), Fin (2 ^ 1023), Fin (2 ^ 1023)],
       [Fin (1 / 2 ^ 1023), Fin 1, Fin (2 ^ 1023), Fin (2 ^ 1023), Fin (2 ^ 1023)],
       [Fin (1 / 2 ^ 1023), Fin (1 / 2 ^ 1023), Fin 1, Fin (2 ^ 1023), Fin (2 ^ 1023)],
       [Fin (1 / 2 ^ 1023), Fin (1 / 2 ^ 1023), Fin (1 / 2 ^ 1023), Fin 1, Fin (2 ^ 1023)],
       [Fin (1 / 2 ^ 1023), Fin (1 / 2 ^ 1023), Fin (1 / 2 ^ 1023), Fin (1 / 2 ^ 1023), Fin 1]]
   \<and> unit_diagonal [[Fin 1, Fin (2 ^ 1023), Fin (2 ^ 1023), Fin (2 ^ 1023), Fin (2 ^ 1023)],
       [Fin (1 / 2 ^ 1023), Fin 1, Fin (2 ^ 1023), Fin (2 ^ 1023), Fin (2 ^ 1023)],
       [Fin (1 / 2 ^ 1023), Fin (1 / 2 ^ 1023), Fin 1, Fin (2 ^ 1023), Fin (2 ^ 1023)],
       [Fin (1 / 2 ^ 1023), Fin (1 / 2 ^ 1023), Fin (1 / 2 ^ 1023), Fin 1, Fin (2 ^ 1023)],
       [Fin (1 / 2 ^ 1023), Fin (1 / 2 ^ 1023), Fin (1 / 2 ^ 1023), Fin (1 / 2 ^ 1023), Fin 1]]
   \<and> reciprocal64 [[Fin 1, Fin (2 ^ 1023), Fin (2 ^ 1023), Fin (2 ^ 1023), Fin (2 ^ 1023)],
       [Fin (1 / 2 ^ 1023), Fin 1, Fin (2 ^ 1023), Fin (2 ^ 1023), Fin (2 ^ 1023)],
       [Fin (1 / 2 ^ 1023), Fin (1 / 2 ^ 1023), Fin 1, Fin (2 ^ 1023), Fin (2 ^ 1023)],
       [Fin (1 / 2 ^ 1023), Fin (1 / 2 ^ 1023), Fin (1 / 2 ^ 1023), Fin 1, Fin (2 ^ 1023)],
       [Fin (1 / 2 ^ 1023), Fin (1 / 2 ^ 1023), Fin (1 / 2 ^ 1023), Fin (1 / 2 ^ 1023), Fin 1]]
   \<and> weights (ahpSolve64 [[Fin 1, Fin (2 ^ 1023), Fin (2 ^ 1023), Fin (2 ^ 1023), Fin (2 ^ 1023)],
       [Fin (1 / 2 ^ 1023), Fin 1, Fin (2 ^ 1023), Fin (2 ^ 1023), Fin (2 ^ 1023)],
       [Fin (1 / 2 ^ 1023), Fin (1 / 2 ^ 1023), Fin 1, Fin (2 ^ 1023), Fin (2 ^ 1023)],
       [Fin (1 / 2 ^ 1023), Fin (1 / 2 ^ 1023), Fin (1 / 2 ^ 1023), Fin 1, Fin (2 ^ 1023)],
       [Fin (1 / 2 ^ 1023), Fin (1 / 2 ^ 1023), Fin (1 / 2 ^ 1023), Fin (1 / 2 ^ 1023), Fin 1]]) = replicate 5 NaN"
proof -
  have d: "is_order 4 [[Fin (1 / 2), Fin 1, Fin 1, Fin 1], [Fin 1, Fin (1 / 2), Fin 1, Fin 1],
       [Fin 1, Fin 1, Fin (1 / 2), Fin 1], [Fin 1, Fin 1, Fin 1, Fin (1 / 2)]]"
    "positive_finite [[Fin (1 / 2), Fin 1, Fin 1, Fin 1], [Fin 1, Fin (1 / 2), Fin 1, Fin 1],
       [Fin 1, Fin 1, Fin (1 / 2), Fin 1], [Fin 1, Fin 1, Fin 1, Fin (1 / 2)]]"
    "reciprocal [[Fin (1 / 2), Fin 1, Fin 1, Fin 1], [Fin 1, Fin (1 / 2), Fin 1, Fin 1],
       [Fin 1, Fin 1, Fin (1 / 2), Fin 1], [Fin 1, Fin 1, Fin 1, Fin (1 / 2)]]"
    "moderate_entries [[Fin (1 / 2), Fin 1, Fin 1, Fin 1], [Fin 1, Fin (1 / 2), Fin 1, Fin 1],
       [Fin 1, Fin 1, Fin (1 / 2), Fin 1], [Fin 1, Fin 1, Fin 1, Fin (1 / 2)]]"
    "reciprocal64 [[Fin (1 / 2), Fin 1, Fin 1, Fin 1], [Fin 1, Fin (1 / 2), Fin 1, Fin 1],
       [Fin 1, Fin 1, Fin (1 / 2), Fin 1], [Fin 1, Fin 1, Fin 1, Fin (1 / 2)]]"
    by (simp_all add: invariant64_defs third_rounds)
  have s: "is_order 7 (identityMatrix 7)" "positive_finite (identityMatrix 7)"
    "reciprocal (identityMatrix 7)" "unit_diagonal (identityMatrix 7)"
    "moderate_entries (identityMatrix 7)" "reciprocal64 (identityMatrix 7)"
    unfolding n7_matrix by (simp_all add: invariant64_defs third_rounds)
  have h: "is_order 5 [[Fin 1, Fin (2 ^ 1023), Fin (2 ^ 1023), Fin (2 ^ 1023), Fin (2 ^ 1023)],
       [Fin (1 / 2 ^ 1023), Fin 1, Fin (2 ^ 1023), Fin (2 ^ 1023), Fin (2 ^ 1023)],
       [Fin (1 / 2 ^ 1023), Fin (1 / 2 ^ 1023), Fin 1, Fin (2 ^ 1023), Fin (2 ^ 1023)],
       [Fin (1 / 2 ^ 1023), Fin (1 / 2 ^ 1023), Fin (1 / 2 ^ 1023), Fin 1, Fin (2 ^ 1023)],
       [Fin (1 / 2 ^ 1023), Fin (1 / 2 ^ 1023), Fin (1 / 2 ^ 1023), Fin (1 / 2 ^ 1023), Fin 1]]"
    "positive_finite [[Fin 1, Fin (2 ^ 1023), Fin (2 ^ 1023), Fin (2 ^ 1023), Fin (2 ^ 1023)],
       [Fin (1 / 2 ^ 1023), Fin 1, Fin (2 ^ 1023), Fin (2 ^ 1023), Fin (2 ^ 1023)],
       [Fin (1 / 2 ^ 1023), Fin (1 / 2 ^ 1023), Fin 1, Fin (2 ^ 1023), Fin (2 ^ 1023)],
       [Fin (1 / 2 ^ 1023), Fin (1 / 2 ^ 1023), Fin (1 / 2 ^ 1023), Fin 1, Fin (2 ^ 1023)],
       [Fin (1 / 2 ^ 1023), Fin (1 / 2 ^ 1023), Fin (1 / 2 ^ 1023), Fin (1 / 2 ^ 1023), Fin 1]]"
    "reciprocal [[Fin 1, Fin (2 ^ 1023), Fin (2 ^ 1023), Fin (2 ^ 1023), Fin (2 ^ 1023)],
       [Fin (1 / 2 ^ 1023), Fin 1, Fin (2 ^ 1023), Fin (2 ^ 1023), Fin (2 ^ 1023)],
       [Fin (1 / 2 ^ 1023), Fin (1 / 2 ^ 1023), Fin 1, Fin (2 ^ 1023), Fin (2 ^ 1023)],
       [Fin (1 / 2 ^ 1023), Fin (1 / 2 ^ 1023), Fin (1 / 2 ^ 1023), Fin 1, Fin (2 ^ 1023)],
       [Fin (1 / 2 ^ 1023), Fin (1 / 2 ^ 1023), Fin (1 / 2 ^ 1023), Fin (1 / 2 ^ 1023), Fin 1]]"
    "unit_diagonal [[Fin 1, Fin (2 ^ 1023), Fin (2 ^ 1023), Fin (2 ^ 1023), Fin (2 ^ 1023)],
       [Fin (1 / 2 ^ 1023), Fin 1, Fin (2 ^ 1023), Fin (2 ^ 1023), Fin (2 ^ 1023)],
       [Fin (1 / 2 ^ 1023), Fin (1 / 2 ^ 1023), Fin 1, Fin (2 ^ 1023), Fin (2 ^ 1023)],
       [Fin (1 / 2 ^ 1023), Fin (1 / 2 ^ 1023), Fin (1 / 2 ^ 1023), Fin 1, Fin (2 ^ 1023)],
       [Fin (1 / 2 ^ 1023), Fin (1 / 2 ^ 1023), Fin (1 / 2 ^ 1023), Fin (1 / 2 ^ 1023), Fin 1]]"
    "reciprocal64 [[Fin 1, Fin (2 ^ 1023), Fin (2 ^ 1023), Fin (2 ^ 1023), Fin (2 ^ 1023)],
       [Fin (1 / 2 ^ 1023), Fin 1, Fin (2 ^ 1023), Fin (2 ^ 1023), Fin (2 ^ 1023)],
       [Fin (1 / 2 ^ 1023), Fin (1 / 2 ^ 1023), Fin 1, Fin (2 ^ 1023), Fin (2 ^ 1023)],
       [Fin (1 / 2 ^ 1023), Fin (1 / 2 ^ 1023), Fin (1 / 2 ^ 1023), Fin 1, Fin (2 ^ 1023)],
       [Fin (1 / 2 ^ 1023), Fin (1 / 2 ^ 1023), Fin (1 / 2 ^ 1023), Fin (1 / 2 ^ 1023), Fin 1]]"
    by (simp_all add: invariant64_defs huge_rounds third_rounds)
  have hs: "weights (ahpSolve64 [[Fin 1, Fin (2 ^ 1023), Fin (2 ^ 1023), Fin (2 ^ 1023), Fin (2 ^ 1023)],
       [Fin (1 / 2 ^ 1023), Fin 1, Fin (2 ^ 1023), Fin (2 ^ 1023), Fin (2 ^ 1023)],
       [Fin (1 / 2 ^ 1023), Fin (1 / 2 ^ 1023), Fin 1, Fin (2 ^ 1023), Fin (2 ^ 1023)],
       [Fin (1 / 2 ^ 1023), Fin (1 / 2 ^ 1023), Fin (1 / 2 ^ 1023), Fin 1, Fin (2 ^ 1023)],
       [Fin (1 / 2 ^ 1023), Fin (1 / 2 ^ 1023), Fin (1 / 2 ^ 1023), Fin (1 / 2 ^ 1023), Fin 1]]) = replicate 5 NaN"
    using huge_solve by (simp add: eval_nat_numeral)
  show ?thesis
    unfolding diag_solve n7_solve using d s h hs by (simp add: eval_nat_numeral)
qed

end
